theory Spec2Isabelle
  imports Main
begin

section \<open>The aggregate model (package models)\<close>

text \<open>
  Each Go struct of package \<^verbatim>\<open>models\<close> is a record. A pointer field (\<^verbatim>\<open>*string\<close>,
  \<^verbatim>\<open>*bool\<close>, \<^verbatim>\<open>*int64\<close>, \<^verbatim>\<open>*uint\<close>, a pointer to a struct) is an \<open>option\<close>, a slice is a
  list, \<^verbatim>\<open>uint\<close> identities are \<open>nat\<close>, and \<^verbatim>\<open>int32\<close>/\<^verbatim>\<open>int64\<close> values, which the code
  only copies and compares for equality, are \<open>int\<close>. Field names carry a short prefix
  for their struct because record fields share one name space.

  Left out of every record: the columns \<^verbatim>\<open>CreatedAt\<close>/\<^verbatim>\<open>UpdatedAt\<close>, which the ORM fills
  from the wall clock, and the by-value back references (\<^verbatim>\<open>Alert Alert\<close>,
  \<^verbatim>\<open>AlertConfig AlertConfiguration\<close>), which the store never reads or writes.

  The seven configuration blocks have a field \<^verbatim>\<open>AlertConfigID\<close> here. The struct
  declarations that are at hand (an earlier version of package \<^verbatim>\<open>models\<close>) and the tables of
  \<^verbatim>\<open>schema.sql\<close> do not have it. The store assigns it on every block that
  \<^verbatim>\<open>CreateWithTransaction\<close> creates
  (\<^verbatim>\<open>originalConfig.ConditionConfig.AlertConfigID = configToCreate.ID\<close>, and likewise for the
  other six blocks and for the eval condition of a severity entry), so the structs that
  the store is compiled against declare it, and a field of a struct is a column for the
  ORM. The records take the field from these assignments. No statement of the store
  selects, updates or deletes by it, and no read returns a block through it.
\<close>

record ConditionConfiguration =
  cond_ID :: nat
  cond_AlertConfigID :: nat
  cond_Condition :: "string option"
  cond_CountCondition :: "string option"

record GroupConfiguration =
  grp_ID :: nat
  grp_AlertConfigID :: nat
  grp_Fields :: "string option"
  grp_Type :: "string option"

record PolicyConfiguration =
  pol_ID :: nat
  pol_AlertConfigID :: nat
  pol_ActionPolicyId :: "string option"
  pol_AlertPolicyId :: "string option"
  pol_RepeatInterval :: "string option"

record TemplateConfiguration =
  tpl_ID :: nat
  tpl_AlertConfigID :: nat
  tpl_TemplateId :: "string option"
  tpl_Lang :: "string option"
  tpl_Type :: "string option"
  tpl_Version :: "string option"
  tpl_Aonotations :: "string option"
  tpl_Tokens :: "string option"

record SinkAlerthubConfiguration =
  hub_ID :: nat
  hub_AlertConfigID :: nat
  hub_Enabled :: "bool option"

record SinkCmsConfiguration =
  cms_ID :: nat
  cms_AlertConfigID :: nat
  cms_Enabled :: "bool option"

record SinkEventStoreConfiguration =
  evs_ID :: nat
  evs_AlertConfigID :: nat
  evs_Enabled :: "bool option"
  evs_Endpoint :: "string option"
  evs_EventStore :: "string option"
  evs_Project :: "string option"
  evs_RoleArn :: "string option"

record SeverityConfiguration =
  sev_ID :: nat
  sev_AlertConfigID :: nat
  sev_Severity :: "int option"
  sev_EvalConditionID :: "nat option"
  sev_EvalCondition :: "ConditionConfiguration option"

record JoinConfiguration =
  join_ID :: nat
  join_AlertConfigID :: nat
  join_JoinType :: "string option"
  join_JoinConfig :: "string option"

record AlertConfiguration =
  cfg_ID :: nat
  cfg_AlertID :: nat
  cfg_AutoAnnotation :: "bool option"
  cfg_Dashboard :: "string option"
  cfg_MuteUntil :: "int option"
  cfg_NoDataFire :: "bool option"
  cfg_NoDataSeverity :: "int option"
  cfg_Threshold :: "int option"
  cfg_Type :: "string option"
  cfg_Version :: "string option"
  cfg_SendResolved :: "bool option"
  cfg_ConditionConfigID :: "nat option"
  cfg_GroupConfigID :: "nat option"
  cfg_PolicyConfigID :: "nat option"
  cfg_TemplateConfigID :: "nat option"
  cfg_SinkAlerthubConfigID :: "nat option"
  cfg_SinkCmsConfigID :: "nat option"
  cfg_SinkEventStoreConfigID :: "nat option"
  cfg_ConditionConfig :: "ConditionConfiguration option"
  cfg_GroupConfig :: "GroupConfiguration option"
  cfg_PolicyConfig :: "PolicyConfiguration option"
  cfg_TemplateConfig :: "TemplateConfiguration option"
  cfg_SeverityConfigs :: "SeverityConfiguration list"
  cfg_JoinConfigs :: "JoinConfiguration list"
  cfg_SinkAlerthubConfig :: "SinkAlerthubConfiguration option"
  cfg_SinkCmsConfig :: "SinkCmsConfiguration option"
  cfg_SinkEventStoreConfig :: "SinkEventStoreConfiguration option"

record AlertSchedule =
  sch_ID :: nat
  sch_AlertID :: nat
  sch_CronExpression :: "string option"
  sch_Delay :: "int option"
  sch_Interval :: "string option"
  sch_RunImmediately :: "bool option"
  sch_TimeZone :: "string option"
  sch_Type :: string

record AlertTag =
  tag_ID :: nat
  tag_AlertID :: nat
  tag_TagType :: string
  tag_TagKey :: string
  tag_TagValue :: "string option"

record AlertQuery =
  qry_ID :: nat
  qry_AlertID :: nat
  qry_ChartTitle :: "string option"
  qry_DashboardId :: "string option"
  qry_End :: "string option"
  qry_PowerSqlMode :: "string option"
  qry_Project :: "string option"
  qry_Query :: string
  qry_Region :: "string option"
  qry_RoleArn :: "string option"
  qry_Start :: "string option"
  qry_Store :: "string option"
  qry_StoreType :: "string option"
  qry_TimeSpanType :: "string option"
  qry_Ui :: "string option"

record Alert =
  a_ID :: nat
  a_Name :: string
  a_DisplayName :: string
  a_Description :: "string option"
  a_Status :: string
  a_CreateTime :: "int option"
  a_LastModifiedTime :: "int option"
  a_ConfigurationID :: "nat option"
  a_ScheduleID :: "nat option"
  a_Configuration :: "AlertConfiguration option"
  a_Schedule :: "AlertSchedule option"
  a_Tags :: "AlertTag list"
  a_Queries :: "AlertQuery list"

text \<open>The zero value of \<^verbatim>\<open>models.Alert{}\<close>, from which struct literals are built.\<close>

definition zero_Alert :: Alert where
  "zero_Alert = \<lparr> a_ID = 0, a_Name = [], a_DisplayName = [], a_Description = None,
     a_Status = [], a_CreateTime = None, a_LastModifiedTime = None,
     a_ConfigurationID = None, a_ScheduleID = None, a_Configuration = None,
     a_Schedule = None, a_Tags = [], a_Queries = [] \<rparr>"

section \<open>The relational store\<close>

text \<open>
  A table is the list of its rows, in insertion order, together with the next value of
  its auto-increment counter. The database is one table per model. A stored row is the
  model struct with its association fields empty: the ORM writes only the columns.

  Rows that the store inserts with identity 0 receive the counter's value, so for the
  tables that are read by a non-key column (\<^verbatim>\<open>alerts\<close>, \<^verbatim>\<open>alert_configurations\<close>,
  \<^verbatim>\<open>alert_schedules\<close>, \<^verbatim>\<open>alert_tags\<close>, \<^verbatim>\<open>alert_queries\<close>, \<^verbatim>\<open>severity_configurations\<close>,
  \<^verbatim>\<open>join_configurations\<close>) insertion order is primary-key order, the order in which
  \<^verbatim>\<open>First\<close> and a has-many \<^verbatim>\<open>Preload\<close> see the rows.
\<close>

record 'r table =
  rows :: "'r list"
  next_id :: nat

record database =
  alerts :: "Alert table"
  alert_configurations :: "AlertConfiguration table"
  alert_schedules :: "AlertSchedule table"
  alert_tags :: "AlertTag table"
  alert_queries :: "AlertQuery table"
  condition_configurations :: "ConditionConfiguration table"
  group_configurations :: "GroupConfiguration table"
  policy_configurations :: "PolicyConfiguration table"
  template_configurations :: "TemplateConfiguration table"
  severity_configurations :: "SeverityConfiguration table"
  join_configurations :: "JoinConfiguration table"
  sink_alerthub_configurations :: "SinkAlerthubConfiguration table"
  sink_cms_configurations :: "SinkCmsConfiguration table"
  sink_event_store_configurations :: "SinkEventStoreConfiguration table"

definition empty_table :: "'r table" where
  "empty_table = \<lparr> rows = [], next_id = 1 \<rparr>"

definition empty_db :: database where
  "empty_db = \<lparr> alerts = empty_table, alert_configurations = empty_table,
     alert_schedules = empty_table, alert_tags = empty_table, alert_queries = empty_table,
     condition_configurations = empty_table, group_configurations = empty_table,
     policy_configurations = empty_table, template_configurations = empty_table,
     severity_configurations = empty_table, join_configurations = empty_table,
     sink_alerthub_configurations = empty_table, sink_cms_configurations = empty_table,
     sink_event_store_configurations = empty_table \<rparr>"

text \<open>
  Errors are values. \<open>ErrRecordNotFound\<close> is \<^verbatim>\<open>gorm.ErrRecordNotFound\<close>; \<open>ErrDuplicateKey\<close> is
  the engine refusing an explicit primary key that exists; \<open>ErrEngine\<close> is any other
  failure of a statement (a constraint, the connection), decided by the environment;
  \<open>Errorf\<close> is a \<^verbatim>\<open>fmt.Errorf\<close> without a cause and \<open>Wrapped\<close> one with \<^verbatim>\<open>%w\<close>;
  \<open>SyncFailures n e\<close> is the batch error "sync completed with n failures. Last error: e".
  Where the Go code keeps the text of an error (\<^verbatim>\<open>err.Error()\<close>) the model keeps the
  error itself, and \<open>None\<close> for the empty string.

  The engine executes the statements that the store issues and nothing else. The
  referential actions that \<^verbatim>\<open>schema.sql\<close> attaches to its foreign keys
  (\<^verbatim>\<open>ON DELETE CASCADE\<close>, \<^verbatim>\<open>ON DELETE SET NULL\<close>) are not modelled: a row is removed or changed
  only by a statement of the store. A foreign key that refuses a statement is one of the
  failures that the environment decides.
\<close>

datatype error =
    ErrRecordNotFound
  | ErrDuplicateKey
  | ErrEngine
  | Errorf string
  | Wrapped string error
  | SyncFailures nat "error option"

datatype tbl =
    Alerts | AlertConfigurations | AlertSchedules | AlertTags | AlertQueries
  | ConditionConfigurations | GroupConfigurations | PolicyConfigurations
  | TemplateConfigurations | SeverityConfigurations | JoinConfigurations
  | SinkAlerthubConfigurations | SinkCmsConfigurations | SinkEventStoreConfigurations

datatype sql = INSERT tbl | UPDATE tbl | DELETE tbl | SELECT tbl

subsection \<open>Rows and column defaults\<close>

text \<open>
  \<^verbatim>\<open>tx.Create\<close> writes the columns of a struct. For a column whose model tag declares a
  \<^verbatim>\<open>default\<close>, the ORM replaces a zero value (the empty string, a nil pointer) by that
  default, in the row and in the struct: \<^verbatim>\<open>status\<close> has \<^verbatim>\<open>default:'ENABLED'\<close>, and the
  flags \<^verbatim>\<open>auto_annotation\<close>, \<^verbatim>\<open>no_data_fire\<close>, \<^verbatim>\<open>send_resolved\<close>, \<^verbatim>\<open>run_immediately\<close> and
  the sinks' \<^verbatim>\<open>enabled\<close> have \<^verbatim>\<open>default:false\<close>. \<^verbatim>\<open>Updates\<close> with a map writes the given
  values as they are. The \<open>_defaults\<close> functions apply the defaults; the \<open>_row\<close>
  functions drop the association fields, which are not columns.
\<close>

definition default_false :: "bool option \<Rightarrow> bool option" where
  "default_false b = (case b of None \<Rightarrow> Some False | Some v \<Rightarrow> Some v)"

definition alert_defaults :: "Alert \<Rightarrow> Alert" where
  "alert_defaults a = a\<lparr> a_Status := (if a_Status a = [] then ''ENABLED'' else a_Status a) \<rparr>"

definition alert_row :: "Alert \<Rightarrow> Alert" where
  "alert_row a = a\<lparr> a_Configuration := None, a_Schedule := None, a_Tags := [],
     a_Queries := [] \<rparr>"

definition cfg_defaults :: "AlertConfiguration \<Rightarrow> AlertConfiguration" where
  "cfg_defaults c = c\<lparr> cfg_AutoAnnotation := default_false (cfg_AutoAnnotation c),
     cfg_NoDataFire := default_false (cfg_NoDataFire c),
     cfg_SendResolved := default_false (cfg_SendResolved c) \<rparr>"

definition cfg_row :: "AlertConfiguration \<Rightarrow> AlertConfiguration" where
  "cfg_row c = c\<lparr> cfg_ConditionConfig := None, cfg_GroupConfig := None,
     cfg_PolicyConfig := None, cfg_TemplateConfig := None, cfg_SeverityConfigs := [],
     cfg_JoinConfigs := [], cfg_SinkAlerthubConfig := None, cfg_SinkCmsConfig := None,
     cfg_SinkEventStoreConfig := None \<rparr>"

definition sch_defaults :: "AlertSchedule \<Rightarrow> AlertSchedule" where
  "sch_defaults x = x\<lparr> sch_RunImmediately := default_false (sch_RunImmediately x) \<rparr>"

definition sev_row :: "SeverityConfiguration \<Rightarrow> SeverityConfiguration" where
  "sev_row x = x\<lparr> sev_EvalCondition := None \<rparr>"

definition hub_defaults :: "SinkAlerthubConfiguration \<Rightarrow> SinkAlerthubConfiguration" where
  "hub_defaults x = x\<lparr> hub_Enabled := default_false (hub_Enabled x) \<rparr>"

definition cms_defaults :: "SinkCmsConfiguration \<Rightarrow> SinkCmsConfiguration" where
  "cms_defaults x = x\<lparr> cms_Enabled := default_false (cms_Enabled x) \<rparr>"

definition evs_defaults :: "SinkEventStoreConfiguration \<Rightarrow> SinkEventStoreConfiguration" where
  "evs_defaults x = x\<lparr> evs_Enabled := default_false (evs_Enabled x) \<rparr>"

subsection \<open>Statements on one table\<close>

text \<open>
  \<open>gorm_create\<close> is \<^verbatim>\<open>Create\<close> of one struct: identity 0 takes the counter's value; a
  non-zero identity is inserted as given and is refused when the key exists. The result
  carries the struct with its identity filled in, as the ORM writes it back.
  \<open>gorm_create_all\<close> is \<^verbatim>\<open>Create\<close> of a slice, one statement for all rows.
\<close>

definition gorm_create ::
  "('r \<Rightarrow> nat) \<Rightarrow> (nat \<Rightarrow> 'r \<Rightarrow> 'r) \<Rightarrow> 'r \<Rightarrow> 'r table \<Rightarrow> error + ('r \<times> 'r table)" where
  "gorm_create getid setid r t =
     (if getid r = 0 then
        Inr (setid (next_id t) r,
             \<lparr> rows = rows t @ [setid (next_id t) r], next_id = Suc (next_id t) \<rparr>)
      else if getid r \<in> getid ` set (rows t) then Inl ErrDuplicateKey
      else Inr (r, \<lparr> rows = rows t @ [r], next_id = max (next_id t) (Suc (getid r)) \<rparr>))"

fun gorm_create_all ::
  "('r \<Rightarrow> nat) \<Rightarrow> (nat \<Rightarrow> 'r \<Rightarrow> 'r) \<Rightarrow> 'r list \<Rightarrow> 'r table \<Rightarrow> error + ('r list \<times> 'r table)" where
  "gorm_create_all getid setid [] t = Inr ([], t)"
| "gorm_create_all getid setid (r # rs) t =
     (case gorm_create getid setid r t of
        Inl e \<Rightarrow> Inl e
      | Inr (r', t') \<Rightarrow>
          (case gorm_create_all getid setid rs t' of
             Inl e \<Rightarrow> Inl e
           | Inr (rs', t'') \<Rightarrow> Inr (r' # rs', t'')))"

definition delete_where :: "('r \<Rightarrow> bool) \<Rightarrow> 'r table \<Rightarrow> 'r table" where
  "delete_where p t = t\<lparr> rows := filter (\<lambda>r. \<not> p r) (rows t) \<rparr>"

definition update_where :: "('r \<Rightarrow> bool) \<Rightarrow> ('r \<Rightarrow> 'r) \<Rightarrow> 'r table \<Rightarrow> 'r table" where
  "update_where p f t = t\<lparr> rows := map (\<lambda>r. if p r then f r else r) (rows t) \<rparr>"

definition first_where :: "('r \<Rightarrow> bool) \<Rightarrow> 'r table \<Rightarrow> 'r option" where
  "first_where p t = find p (rows t)"

definition select_where :: "('r \<Rightarrow> bool) \<Rightarrow> 'r table \<Rightarrow> 'r list" where
  "select_where p t = filter p (rows t)"

text \<open>A belongs-to \<^verbatim>\<open>Preload\<close>: the row whose key is the foreign key, if there is one.\<close>

definition belongs_to :: "('r \<Rightarrow> nat) \<Rightarrow> nat option \<Rightarrow> 'r table \<Rightarrow> 'r option" where
  "belongs_to getid fk t =
     (case fk of None \<Rightarrow> None | Some i \<Rightarrow> first_where (\<lambda>r. getid r = i) t)"

subsection \<open>Reads (GetByID, GetByName, List, Count)\<close>

text \<open>
  The association tags of the models make \<^verbatim>\<open>Alert.Configuration\<close> and \<^verbatim>\<open>Alert.Schedule\<close>
  belongs-to through \<^verbatim>\<open>ConfigurationID\<close>/\<^verbatim>\<open>ScheduleID\<close>, the four preloaded blocks of a
  Configuration belongs-to through its \<^verbatim>\<open>...ConfigID\<close> columns, and \<^verbatim>\<open>SeverityConfigs\<close>,
  \<^verbatim>\<open>Tags\<close> and \<^verbatim>\<open>Queries\<close> has-many through \<^verbatim>\<open>AlertConfigID\<close>/\<^verbatim>\<open>AlertID\<close>. \<^verbatim>\<open>GetByID\<close> and
  \<^verbatim>\<open>GetByName\<close> name nine preloads; no read preloads \<^verbatim>\<open>JoinConfigs\<close>, the three sinks or
  a severity's \<^verbatim>\<open>EvalCondition\<close>. The reads run outside a transaction; the only error
  modelled for them is the lookup miss.
\<close>

definition preload_configuration_deep :: "database \<Rightarrow> AlertConfiguration \<Rightarrow> AlertConfiguration" where
  "preload_configuration_deep d c = c\<lparr>
     cfg_ConditionConfig := belongs_to cond_ID (cfg_ConditionConfigID c) (condition_configurations d),
     cfg_GroupConfig := belongs_to grp_ID (cfg_GroupConfigID c) (group_configurations d),
     cfg_PolicyConfig := belongs_to pol_ID (cfg_PolicyConfigID c) (policy_configurations d),
     cfg_TemplateConfig := belongs_to tpl_ID (cfg_TemplateConfigID c) (template_configurations d),
     cfg_SeverityConfigs :=
       select_where (\<lambda>r. sev_AlertConfigID r = cfg_ID c) (severity_configurations d) \<rparr>"

definition preload_full :: "database \<Rightarrow> Alert \<Rightarrow> Alert" where
  "preload_full d a = a\<lparr>
     a_Configuration :=
       map_option (preload_configuration_deep d)
         (belongs_to cfg_ID (a_ConfigurationID a) (alert_configurations d)),
     a_Schedule := belongs_to sch_ID (a_ScheduleID a) (alert_schedules d),
     a_Tags := select_where (\<lambda>r. tag_AlertID r = a_ID a) (alert_tags d),
     a_Queries := select_where (\<lambda>r. qry_AlertID r = a_ID a) (alert_queries d) \<rparr>"

definition preload_list :: "database \<Rightarrow> Alert \<Rightarrow> Alert" where
  "preload_list d a = a\<lparr>
     a_Configuration := belongs_to cfg_ID (a_ConfigurationID a) (alert_configurations d),
     a_Schedule := belongs_to sch_ID (a_ScheduleID a) (alert_schedules d),
     a_Tags := select_where (\<lambda>r. tag_AlertID r = a_ID a) (alert_tags d),
     a_Queries := select_where (\<lambda>r. qry_AlertID r = a_ID a) (alert_queries d) \<rparr>"

definition GetByID :: "database \<Rightarrow> nat \<Rightarrow> error + Alert" where
  "GetByID d i =
     (case first_where (\<lambda>r. a_ID r = i) (alerts d) of
        None \<Rightarrow> Inl ErrRecordNotFound
      | Some a \<Rightarrow> Inr (preload_full d a))"

definition GetByName :: "database \<Rightarrow> string \<Rightarrow> error + Alert" where
  "GetByName d name =
     (case first_where (\<lambda>r. a_Name r = name) (alerts d) of
        None \<Rightarrow> Inl ErrRecordNotFound
      | Some a \<Rightarrow> Inr (preload_full d a))"

text \<open>
  \<^verbatim>\<open>List\<close> orders by \<^verbatim>\<open>created_at DESC\<close>; rows are created in insertion order, so the
  page is cut from the reversed table. It returns the page and the total count.
\<close>

definition List_store :: "database \<Rightarrow> nat \<Rightarrow> nat \<Rightarrow> error + (Alert list \<times> int)" where
  "List_store d offset limit =
     Inr (map (preload_list d) (take limit (drop offset (rev (rows (alerts d))))),
          int (length (rows (alerts d))))"

definition Count :: "database \<Rightarrow> error + int" where
  "Count d = Inr (int (length (rows (alerts d))))"

section \<open>The change decision of the pull sync (syncService.needsUpdate)\<close>

text \<open>
  The chain of early returns of \<^verbatim>\<open>needsUpdate\<close>, in the source's order. Each dereference
  (\<open>the\<close>) sits behind the nil test that guards it in the source.
\<close>

definition needsUpdate :: "Alert \<Rightarrow> Alert \<Rightarrow> bool" where
  "needsUpdate existing new =
     (if a_LastModifiedTime existing = None \<or> a_LastModifiedTime new = None then True
      else if the (a_LastModifiedTime existing) \<noteq> the (a_LastModifiedTime new) then True
      else if a_DisplayName existing \<noteq> a_DisplayName new then True
      else if a_Status existing \<noteq> a_Status new then True
      else if a_Description existing = None \<and> a_Description new \<noteq> None then True
      else if a_Description existing \<noteq> None \<and> a_Description new = None then True
      else if a_Description existing \<noteq> None \<and> a_Description new \<noteq> None
              \<and> the (a_Description existing) \<noteq> the (a_Description new) then True
      else False)"

section \<open>Transactions\<close>

text \<open>
  A handle names a table: its tag for the statement log, how to read and replace it in
  the database, the identity column, the column defaults and the projection of a
  struct to its row.
\<close>

record 'r handle =
  h_tbl :: tbl
  h_get :: "database \<Rightarrow> 'r table"
  h_put :: "'r table \<Rightarrow> database \<Rightarrow> database"
  h_id :: "'r \<Rightarrow> nat"
  h_set_id :: "nat \<Rightarrow> 'r \<Rightarrow> 'r"
  h_defaults :: "'r \<Rightarrow> 'r"
  h_row :: "'r \<Rightarrow> 'r"

definition Alerts_h :: "Alert handle" where
  "Alerts_h = \<lparr> h_tbl = Alerts, h_get = alerts, h_put = (\<lambda>t d. d\<lparr> alerts := t \<rparr>),
     h_id = a_ID, h_set_id = (\<lambda>i r. r\<lparr> a_ID := i \<rparr>), h_defaults = alert_defaults, h_row = alert_row \<rparr>"

definition AlertConfigurations_h :: "AlertConfiguration handle" where
  "AlertConfigurations_h = \<lparr> h_tbl = AlertConfigurations, h_get = alert_configurations, h_put = (\<lambda>t d. d\<lparr> alert_configurations := t \<rparr>),
     h_id = cfg_ID, h_set_id = (\<lambda>i r. r\<lparr> cfg_ID := i \<rparr>), h_defaults = cfg_defaults, h_row = cfg_row \<rparr>"

definition AlertSchedules_h :: "AlertSchedule handle" where
  "AlertSchedules_h = \<lparr> h_tbl = AlertSchedules, h_get = alert_schedules, h_put = (\<lambda>t d. d\<lparr> alert_schedules := t \<rparr>),
     h_id = sch_ID, h_set_id = (\<lambda>i r. r\<lparr> sch_ID := i \<rparr>), h_defaults = sch_defaults, h_row = id \<rparr>"

definition AlertTags_h :: "AlertTag handle" where
  "AlertTags_h = \<lparr> h_tbl = AlertTags, h_get = alert_tags, h_put = (\<lambda>t d. d\<lparr> alert_tags := t \<rparr>),
     h_id = tag_ID, h_set_id = (\<lambda>i r. r\<lparr> tag_ID := i \<rparr>), h_defaults = id, h_row = id \<rparr>"

definition AlertQueries_h :: "AlertQuery handle" where
  "AlertQueries_h = \<lparr> h_tbl = AlertQueries, h_get = alert_queries, h_put = (\<lambda>t d. d\<lparr> alert_queries := t \<rparr>),
     h_id = qry_ID, h_set_id = (\<lambda>i r. r\<lparr> qry_ID := i \<rparr>), h_defaults = id, h_row = id \<rparr>"

definition ConditionConfigurations_h :: "ConditionConfiguration handle" where
  "ConditionConfigurations_h = \<lparr> h_tbl = ConditionConfigurations, h_get = condition_configurations, h_put = (\<lambda>t d. d\<lparr> condition_configurations := t \<rparr>),
     h_id = cond_ID, h_set_id = (\<lambda>i r. r\<lparr> cond_ID := i \<rparr>), h_defaults = id, h_row = id \<rparr>"

definition GroupConfigurations_h :: "GroupConfiguration handle" where
  "GroupConfigurations_h = \<lparr> h_tbl = GroupConfigurations, h_get = group_configurations, h_put = (\<lambda>t d. d\<lparr> group_configurations := t \<rparr>),
     h_id = grp_ID, h_set_id = (\<lambda>i r. r\<lparr> grp_ID := i \<rparr>), h_defaults = id, h_row = id \<rparr>"

definition PolicyConfigurations_h :: "PolicyConfiguration handle" where
  "PolicyConfigurations_h = \<lparr> h_tbl = PolicyConfigurations, h_get = policy_configurations, h_put = (\<lambda>t d. d\<lparr> policy_configurations := t \<rparr>),
     h_id = pol_ID, h_set_id = (\<lambda>i r. r\<lparr> pol_ID := i \<rparr>), h_defaults = id, h_row = id \<rparr>"

definition TemplateConfigurations_h :: "TemplateConfiguration handle" where
  "TemplateConfigurations_h = \<lparr> h_tbl = TemplateConfigurations, h_get = template_configurations, h_put = (\<lambda>t d. d\<lparr> template_configurations := t \<rparr>),
     h_id = tpl_ID, h_set_id = (\<lambda>i r. r\<lparr> tpl_ID := i \<rparr>), h_defaults = id, h_row = id \<rparr>"

definition SeverityConfigurations_h :: "SeverityConfiguration handle" where
  "SeverityConfigurations_h = \<lparr> h_tbl = SeverityConfigurations, h_get = severity_configurations, h_put = (\<lambda>t d. d\<lparr> severity_configurations := t \<rparr>),
     h_id = sev_ID, h_set_id = (\<lambda>i r. r\<lparr> sev_ID := i \<rparr>), h_defaults = id, h_row = sev_row \<rparr>"

definition JoinConfigurations_h :: "JoinConfiguration handle" where
  "JoinConfigurations_h = \<lparr> h_tbl = JoinConfigurations, h_get = join_configurations, h_put = (\<lambda>t d. d\<lparr> join_configurations := t \<rparr>),
     h_id = join_ID, h_set_id = (\<lambda>i r. r\<lparr> join_ID := i \<rparr>), h_defaults = id, h_row = id \<rparr>"

definition SinkAlerthubConfigurations_h :: "SinkAlerthubConfiguration handle" where
  "SinkAlerthubConfigurations_h = \<lparr> h_tbl = SinkAlerthubConfigurations, h_get = sink_alerthub_configurations, h_put = (\<lambda>t d. d\<lparr> sink_alerthub_configurations := t \<rparr>),
     h_id = hub_ID, h_set_id = (\<lambda>i r. r\<lparr> hub_ID := i \<rparr>), h_defaults = hub_defaults, h_row = id \<rparr>"

definition SinkCmsConfigurations_h :: "SinkCmsConfiguration handle" where
  "SinkCmsConfigurations_h = \<lparr> h_tbl = SinkCmsConfigurations, h_get = sink_cms_configurations, h_put = (\<lambda>t d. d\<lparr> sink_cms_configurations := t \<rparr>),
     h_id = cms_ID, h_set_id = (\<lambda>i r. r\<lparr> cms_ID := i \<rparr>), h_defaults = cms_defaults, h_row = id \<rparr>"

definition SinkEventStoreConfigurations_h :: "SinkEventStoreConfiguration handle" where
  "SinkEventStoreConfigurations_h = \<lparr> h_tbl = SinkEventStoreConfigurations, h_get = sink_event_store_configurations, h_put = (\<lambda>t d. d\<lparr> sink_event_store_configurations := t \<rparr>),
     h_id = evs_ID, h_set_id = (\<lambda>i r. r\<lparr> evs_ID := i \<rparr>), h_defaults = evs_defaults, h_row = id \<rparr>"

text \<open>
  Inside \<^verbatim>\<open>db.Transaction(func(tx) error {...})\<close> the state is the database as the
  transaction sees it and the log of the statements issued so far. A computation returns
  an error, which ends the transaction body, or a value and the next state. The
  environment is a predicate \<open>fails\<close> on statement positions: statement number \<open>k\<close> of the
  transaction (counted from 0) is refused by the engine when \<open>fails k\<close>.
\<close>

type_synonym faults = "nat \<Rightarrow> bool"

record txstate =
  tx_db :: database
  tx_log :: "sql list"

type_synonym 'a tx = "txstate \<Rightarrow> error + ('a \<times> txstate)"

definition ret :: "'a \<Rightarrow> 'a tx" where
  "ret x s = Inr (x, s)"

definition bind_tx :: "'a tx \<Rightarrow> ('a \<Rightarrow> 'b tx) \<Rightarrow> 'b tx" where
  "bind_tx m f s = (case m s of Inl e \<Rightarrow> Inl e | Inr (x, s') \<Rightarrow> f x s')"

definition fail_tx :: "error \<Rightarrow> 'a tx" where
  "fail_tx e s = Inl e"

text \<open>\<open>wrap msg m\<close> is \<^verbatim>\<open>if err := m; err != nil { return fmt.Errorf("msg: %w", err) }\<close>.\<close>

definition wrap :: "string \<Rightarrow> 'a tx \<Rightarrow> 'a tx" where
  "wrap msg m s = (case m s of Inl e \<Rightarrow> Inl (Wrapped msg e) | Inr r \<Rightarrow> Inr r)"

definition stmt :: "faults \<Rightarrow> sql \<Rightarrow> (database \<Rightarrow> error + ('a \<times> database)) \<Rightarrow> 'a tx" where
  "stmt fails q f s =
     (if fails (length (tx_log s)) then Inl ErrEngine
      else case f (tx_db s) of
             Inl e \<Rightarrow> Inl e
           | Inr (x, d) \<Rightarrow> Inr (x, \<lparr> tx_db = d, tx_log = tx_log s @ [q] \<rparr>))"

text \<open>
  The statements of the ORM. \<open>tx_Create\<close> returns the struct with the defaults applied
  and the identity written back; \<open>tx_CreateAll\<close> is \<^verbatim>\<open>Create\<close> of a slice;
  \<open>tx_Delete\<close> is \<^verbatim>\<open>Where(...).Delete\<close>; \<open>tx_Updates\<close> is \<^verbatim>\<open>Model(...).Where(...).Updates\<close>,
  which succeeds also when no row matches; \<open>tx_First\<close> is \<^verbatim>\<open>Where(...).First\<close>, whose
  miss (\<^verbatim>\<open>gorm.ErrRecordNotFound\<close>) is the value \<open>None\<close> for the caller to test.
\<close>

definition tx_Create :: "faults \<Rightarrow> 'r handle \<Rightarrow> 'r \<Rightarrow> 'r tx" where
  "tx_Create fails h r =
     stmt fails (INSERT (h_tbl h)) (\<lambda>d.
       case gorm_create (h_id h) (h_set_id h) (h_row h (h_defaults h r)) (h_get h d) of
         Inl e \<Rightarrow> Inl e
       | Inr (r', t) \<Rightarrow> Inr (h_set_id h (h_id h r') (h_defaults h r), h_put h t d))"

definition tx_CreateAll :: "faults \<Rightarrow> 'r handle \<Rightarrow> 'r list \<Rightarrow> 'r list tx" where
  "tx_CreateAll fails h rs =
     stmt fails (INSERT (h_tbl h)) (\<lambda>d.
       case gorm_create_all (h_id h) (h_set_id h) (map (\<lambda>r. h_row h (h_defaults h r)) rs)
              (h_get h d) of
         Inl e \<Rightarrow> Inl e
       | Inr (rs', t) \<Rightarrow>
           Inr (map (\<lambda>(r, r'). h_set_id h (h_id h r') (h_defaults h r)) (zip rs rs'),
                h_put h t d))"

definition tx_Delete :: "faults \<Rightarrow> 'r handle \<Rightarrow> ('r \<Rightarrow> bool) \<Rightarrow> unit tx" where
  "tx_Delete fails h p =
     stmt fails (DELETE (h_tbl h)) (\<lambda>d. Inr ((), h_put h (delete_where p (h_get h d)) d))"

definition tx_Updates :: "faults \<Rightarrow> 'r handle \<Rightarrow> ('r \<Rightarrow> bool) \<Rightarrow> ('r \<Rightarrow> 'r) \<Rightarrow> unit tx" where
  "tx_Updates fails h p f =
     stmt fails (UPDATE (h_tbl h)) (\<lambda>d. Inr ((), h_put h (update_where p f (h_get h d)) d))"

definition tx_First :: "faults \<Rightarrow> 'r handle \<Rightarrow> ('r \<Rightarrow> bool) \<Rightarrow> 'r option tx" where
  "tx_First fails h p =
     stmt fails (SELECT (h_tbl h)) (\<lambda>d. Inr (first_where p (h_get h d), d))"

text \<open>
  \<^verbatim>\<open>db.Transaction\<close>: the body runs on the database; when it returns an error the
  transaction is rolled back and the database is the one before; otherwise the commit is
  one more statement that the engine may refuse, with the same effect.
\<close>

definition begin_tx :: "database \<Rightarrow> txstate" where
  "begin_tx d = \<lparr> tx_db = d, tx_log = [] \<rparr>"

definition Transaction :: "faults \<Rightarrow> 'a tx \<Rightarrow> database \<Rightarrow> (error + 'a) \<times> database" where
  "Transaction fails body d =
     (case body (begin_tx d) of
        Inl e \<Rightarrow> (Inl e, d)
      | Inr (x, s) \<Rightarrow>
          if fails (length (tx_log s)) then (Inl ErrEngine, d) else (Inr x, tx_db s))"

section \<open>CreateWithTransaction\<close>

text \<open>
  The body of the transaction, cut at the source's numbered steps. The struct behind
  the pointer \<^verbatim>\<open>alert\<close> is threaded through: each step returns it as the source leaves
  it (\<^verbatim>\<open>alert.ID\<close>, \<^verbatim>\<open>alert.ConfigurationID\<close>, \<^verbatim>\<open>alert.ScheduleID\<close> and what is written through
  \<^verbatim>\<open>originalConfig\<close>, which aliases \<^verbatim>\<open>alert.Configuration\<close>). The debug prints are left out.

  Step 1 inserts \<^verbatim>\<open>cleanAlert\<close>, a fresh struct holding the six scalar fields.
\<close>

definition cleanAlert :: "Alert \<Rightarrow> Alert" where
  "cleanAlert alert =
     zero_Alert\<lparr> a_Name := a_Name alert, a_DisplayName := a_DisplayName alert,
       a_Description := a_Description alert, a_Status := a_Status alert,
       a_CreateTime := a_CreateTime alert,
       a_LastModifiedTime := a_LastModifiedTime alert \<rparr>"

definition create_root :: "faults \<Rightarrow> Alert \<Rightarrow> Alert tx" where
  "create_root fails alert =
     bind_tx (wrap ''failed to create alert'' (tx_Create fails Alerts_h (cleanAlert alert)))
       (\<lambda>created. ret (alert\<lparr> a_ID := a_ID created \<rparr>))"

text \<open>
  Step 3 creates each configuration block that is present, after writing the identity
  of the Configuration row into the block's \<^verbatim>\<open>AlertConfigID\<close>; nothing is written to the
  Configuration's \<^verbatim>\<open>...ConfigID\<close> fields. \<open>create_block\<close> is one such
  \<^verbatim>\<open>if block != nil { tx.Create(block) }\<close>.
\<close>

definition create_block :: "faults \<Rightarrow> string \<Rightarrow> 'r handle \<Rightarrow> 'r option \<Rightarrow> 'r option tx" where
  "create_block fails msg h block =
     (case block of
        None \<Rightarrow> ret None
      | Some b \<Rightarrow> bind_tx (wrap msg (tx_Create fails h b)) (\<lambda>b'. ret (Some b')))"

definition create_blocks :: "faults \<Rightarrow> nat \<Rightarrow> AlertConfiguration \<Rightarrow> AlertConfiguration tx" where
  "create_blocks fails cid originalConfig =
     bind_tx (create_block fails ''failed to create condition configuration'' ConditionConfigurations_h
        (map_option (\<lambda>b. b\<lparr> cond_AlertConfigID := cid \<rparr>) (cfg_ConditionConfig originalConfig))) (\<lambda>cond'.
     bind_tx (create_block fails ''failed to create group configuration'' GroupConfigurations_h
        (map_option (\<lambda>b. b\<lparr> grp_AlertConfigID := cid \<rparr>) (cfg_GroupConfig originalConfig))) (\<lambda>grp'.
     bind_tx (create_block fails ''failed to create policy configuration'' PolicyConfigurations_h
        (map_option (\<lambda>b. b\<lparr> pol_AlertConfigID := cid \<rparr>) (cfg_PolicyConfig originalConfig))) (\<lambda>pol'.
     bind_tx (create_block fails ''failed to create template configuration'' TemplateConfigurations_h
        (map_option (\<lambda>b. b\<lparr> tpl_AlertConfigID := cid \<rparr>) (cfg_TemplateConfig originalConfig))) (\<lambda>tpl'.
     bind_tx (create_block fails ''failed to create sink alerthub configuration'' SinkAlerthubConfigurations_h
        (map_option (\<lambda>b. b\<lparr> hub_AlertConfigID := cid \<rparr>) (cfg_SinkAlerthubConfig originalConfig))) (\<lambda>hub'.
     bind_tx (create_block fails ''failed to create sink cms configuration'' SinkCmsConfigurations_h
        (map_option (\<lambda>b. b\<lparr> cms_AlertConfigID := cid \<rparr>) (cfg_SinkCmsConfig originalConfig))) (\<lambda>cms'.
     bind_tx (create_block fails ''failed to create sink event store configuration'' SinkEventStoreConfigurations_h
        (map_option (\<lambda>b. b\<lparr> evs_AlertConfigID := cid \<rparr>) (cfg_SinkEventStoreConfig originalConfig))) (\<lambda>evs'.
     ret (originalConfig\<lparr> cfg_ConditionConfig := cond', cfg_GroupConfig := grp', cfg_PolicyConfig := pol',
            cfg_TemplateConfig := tpl', cfg_SinkAlerthubConfig := hub',
            cfg_SinkCmsConfig := cms', cfg_SinkEventStoreConfig := evs' \<rparr>))))))))"

text \<open>
  Step 4, first loop: for each severity entry, create its \<^verbatim>\<open>EvalCondition\<close> if present and
  point \<^verbatim>\<open>EvalConditionID\<close> at it, then set \<^verbatim>\<open>AlertConfigID\<close> and reset \<^verbatim>\<open>ID\<close> to 0. The loop
  occurs three times in the source; only the copy in \<^verbatim>\<open>CreateWithTransaction\<close> writes
  \<^verbatim>\<open>AlertConfigID\<close> into the eval condition first, which is the argument \<open>prep\<close>.
\<close>

fun create_eval_conditions ::
  "faults \<Rightarrow> (ConditionConfiguration \<Rightarrow> ConditionConfiguration) \<Rightarrow> nat
     \<Rightarrow> SeverityConfiguration list \<Rightarrow> SeverityConfiguration list tx" where
  "create_eval_conditions fails prep cid [] = ret []"
| "create_eval_conditions fails prep cid (sv # rest) =
     bind_tx
       (case sev_EvalCondition sv of
          None \<Rightarrow> ret sv
        | Some ec \<Rightarrow>
            bind_tx (wrap ''failed to create eval condition''
                       (tx_Create fails ConditionConfigurations_h (prep ec)))
              (\<lambda>ec'. ret (sv\<lparr> sev_EvalCondition := Some ec',
                               sev_EvalConditionID := Some (cond_ID ec') \<rparr>)))
       (\<lambda>sv'. bind_tx (create_eval_conditions fails prep cid rest)
          (\<lambda>rest'. ret (sv'\<lparr> sev_AlertConfigID := cid, sev_ID := 0 \<rparr> # rest')))"

definition create_severities ::
  "faults \<Rightarrow> (ConditionConfiguration \<Rightarrow> ConditionConfiguration) \<Rightarrow> nat
     \<Rightarrow> SeverityConfiguration list \<Rightarrow> SeverityConfiguration list tx" where
  "create_severities fails prep cid severityConfigs =
     (if length severityConfigs > 0 then
        bind_tx (create_eval_conditions fails prep cid severityConfigs) (\<lambda>svs.
          wrap ''failed to create severity configurations''
            (tx_CreateAll fails SeverityConfigurations_h svs))
      else ret severityConfigs)"

definition create_joins :: "faults \<Rightarrow> nat \<Rightarrow> JoinConfiguration list \<Rightarrow> JoinConfiguration list tx" where
  "create_joins fails cid joinConfigs =
     (if length joinConfigs > 0 then
        wrap ''failed to create join configurations''
          (tx_CreateAll fails JoinConfigurations_h
             (map (\<lambda>j. j\<lparr> join_AlertConfigID := cid, join_ID := 0 \<rparr>) joinConfigs))
      else ret joinConfigs)"

text \<open>
  Steps 2 to 4. \<^verbatim>\<open>configToCreate\<close> is a fresh struct with \<^verbatim>\<open>AlertID\<close> and the nine scalar
  fields; its seven \<^verbatim>\<open>...ConfigID\<close> fields are not set. The row it is inserted as is bound
  to \<open>created\<close>, whose identity the source reads as \<^verbatim>\<open>configToCreate.ID\<close>.
\<close>

definition configToCreate :: "nat \<Rightarrow> AlertConfiguration \<Rightarrow> AlertConfiguration" where
  "configToCreate alertID originalConfig =
     \<lparr> cfg_ID = 0, cfg_AlertID = alertID,
       cfg_AutoAnnotation = cfg_AutoAnnotation originalConfig,
       cfg_Dashboard = cfg_Dashboard originalConfig,
       cfg_MuteUntil = cfg_MuteUntil originalConfig,
       cfg_NoDataFire = cfg_NoDataFire originalConfig,
       cfg_NoDataSeverity = cfg_NoDataSeverity originalConfig,
       cfg_Threshold = cfg_Threshold originalConfig,
       cfg_Type = cfg_Type originalConfig,
       cfg_Version = cfg_Version originalConfig,
       cfg_SendResolved = cfg_SendResolved originalConfig,
       cfg_ConditionConfigID = None, cfg_GroupConfigID = None,
       cfg_PolicyConfigID = None, cfg_TemplateConfigID = None,
       cfg_SinkAlerthubConfigID = None, cfg_SinkCmsConfigID = None,
       cfg_SinkEventStoreConfigID = None,
       cfg_ConditionConfig = None, cfg_GroupConfig = None,
       cfg_PolicyConfig = None, cfg_TemplateConfig = None,
       cfg_SeverityConfigs = [], cfg_JoinConfigs = [],
       cfg_SinkAlerthubConfig = None, cfg_SinkCmsConfig = None,
       cfg_SinkEventStoreConfig = None \<rparr>"

definition create_configuration :: "faults \<Rightarrow> Alert \<Rightarrow> Alert tx" where
  "create_configuration fails alert =
     (case a_Configuration alert of
        None \<Rightarrow> ret alert
      | Some originalConfig \<Rightarrow>
          bind_tx (wrap ''failed to create alert configuration''
            (tx_Create fails AlertConfigurations_h
               (configToCreate (a_ID alert) originalConfig)))
          (\<lambda>created.
             bind_tx (create_blocks fails (cfg_ID created)
                        (originalConfig\<lparr> cfg_ID := cfg_ID created \<rparr>)) (\<lambda>oc.
             bind_tx (create_severities fails
                        (\<lambda>ec. ec\<lparr> cond_AlertConfigID := cfg_ID created \<rparr>)
                        (cfg_ID created) (cfg_SeverityConfigs oc)) (\<lambda>svs.
             bind_tx (create_joins fails (cfg_ID created) (cfg_JoinConfigs oc)) (\<lambda>js.
             ret (alert\<lparr> a_ConfigurationID := Some (cfg_ID created),
                    a_Configuration :=
                      Some (oc\<lparr> cfg_SeverityConfigs := svs, cfg_JoinConfigs := js \<rparr>) \<rparr>))))))"

text \<open>Steps 5, 6 and 7 build fresh structs from the incoming Schedule, Tags and Queries.\<close>

definition new_schedule :: "nat \<Rightarrow> AlertSchedule \<Rightarrow> AlertSchedule" where
  "new_schedule alertID x =
     \<lparr> sch_ID = 0, sch_AlertID = alertID, sch_CronExpression = sch_CronExpression x,
       sch_Delay = sch_Delay x, sch_Interval = sch_Interval x,
       sch_RunImmediately = sch_RunImmediately x, sch_TimeZone = sch_TimeZone x,
       sch_Type = sch_Type x \<rparr>"

definition new_tag :: "nat \<Rightarrow> AlertTag \<Rightarrow> AlertTag" where
  "new_tag alertID tag =
     \<lparr> tag_ID = 0, tag_AlertID = alertID, tag_TagType = tag_TagType tag,
       tag_TagKey = tag_TagKey tag, tag_TagValue = tag_TagValue tag \<rparr>"

definition new_query :: "nat \<Rightarrow> AlertQuery \<Rightarrow> AlertQuery" where
  "new_query alertID query =
     \<lparr> qry_ID = 0, qry_AlertID = alertID, qry_ChartTitle = qry_ChartTitle query,
       qry_DashboardId = qry_DashboardId query, qry_End = qry_End query,
       qry_PowerSqlMode = qry_PowerSqlMode query, qry_Project = qry_Project query,
       qry_Query = qry_Query query, qry_Region = qry_Region query,
       qry_RoleArn = qry_RoleArn query, qry_Start = qry_Start query,
       qry_Store = qry_Store query, qry_StoreType = qry_StoreType query,
       qry_TimeSpanType = qry_TimeSpanType query, qry_Ui = qry_Ui query \<rparr>"

definition create_schedule :: "faults \<Rightarrow> Alert \<Rightarrow> Alert tx" where
  "create_schedule fails alert =
     (case a_Schedule alert of
        None \<Rightarrow> ret alert
      | Some originalSchedule \<Rightarrow>
          bind_tx (wrap ''failed to create alert schedule''
            (tx_Create fails AlertSchedules_h (new_schedule (a_ID alert) originalSchedule)))
          (\<lambda>scheduleToCreate. ret (alert\<lparr> a_ScheduleID := Some (sch_ID scheduleToCreate) \<rparr>)))"

definition create_tags :: "faults \<Rightarrow> Alert \<Rightarrow> unit tx" where
  "create_tags fails alert =
     (if length (a_Tags alert) > 0 then
        bind_tx (wrap ''failed to create alert tags''
          (tx_CreateAll fails AlertTags_h (map (new_tag (a_ID alert)) (a_Tags alert))))
          (\<lambda>_. ret ())
      else ret ())"

definition create_queries :: "faults \<Rightarrow> Alert \<Rightarrow> unit tx" where
  "create_queries fails alert =
     (if length (a_Queries alert) > 0 then
        bind_tx (wrap ''failed to create alert queries''
          (tx_CreateAll fails AlertQueries_h (map (new_query (a_ID alert)) (a_Queries alert))))
          (\<lambda>_. ret ())
      else ret ())"

text \<open>
  Step 8 (step 6 of the update): \<^verbatim>\<open>updateData\<close> receives \<^verbatim>\<open>configuration_id\<close> and
  \<^verbatim>\<open>schedule_id\<close> when the struct's pointers are set, and the root row is updated only
  when the map is not empty.
\<close>

definition relation_ids :: "Alert \<Rightarrow> Alert \<Rightarrow> Alert" where
  "relation_ids alert r =
     r\<lparr> a_ConfigurationID :=
           (case a_ConfigurationID alert of None \<Rightarrow> a_ConfigurationID r | Some c \<Rightarrow> Some c),
        a_ScheduleID :=
           (case a_ScheduleID alert of None \<Rightarrow> a_ScheduleID r | Some c \<Rightarrow> Some c) \<rparr>"

definition patch_relation_ids :: "faults \<Rightarrow> Alert \<Rightarrow> unit tx" where
  "patch_relation_ids fails alert =
     (if a_ConfigurationID alert \<noteq> None \<or> a_ScheduleID alert \<noteq> None then
        wrap ''failed to update alert with relation IDs''
          (tx_Updates fails Alerts_h (\<lambda>r. a_ID r = a_ID alert) (relation_ids alert))
      else ret ())"

definition createTx :: "faults \<Rightarrow> Alert \<Rightarrow> Alert tx" where
  "createTx fails alert =
     bind_tx (create_root fails alert) (\<lambda>alert.
     bind_tx (create_configuration fails alert) (\<lambda>alert.
     bind_tx (create_schedule fails alert) (\<lambda>alert.
     bind_tx (create_tags fails alert) (\<lambda>_.
     bind_tx (create_queries fails alert) (\<lambda>_.
     bind_tx (patch_relation_ids fails alert) (\<lambda>_.
     ret alert))))))"

definition CreateWithTransaction :: "faults \<Rightarrow> Alert \<Rightarrow> database \<Rightarrow> (error + Alert) \<times> database" where
  "CreateWithTransaction fails alert d = Transaction fails (createTx fails alert) d"

section \<open>Delete\<close>

text \<open>
  \<^verbatim>\<open>deleteConfigurationAssociations\<close> looks up the identity of the first Configuration row
  of the alert; a miss returns nil, any other error is returned; otherwise the severity
  and join rows of that Configuration are deleted.
\<close>

definition deleteConfigurationAssociations :: "faults \<Rightarrow> nat \<Rightarrow> unit tx" where
  "deleteConfigurationAssociations fails alertID =
     bind_tx (wrap ''failed to get configuration ID''
                (tx_First fails AlertConfigurations_h (\<lambda>r. cfg_AlertID r = alertID))) (\<lambda>found.
       case found of
         None \<Rightarrow> ret ()
       | Some c \<Rightarrow>
           bind_tx (wrap ''failed to delete severity configurations''
                      (tx_Delete fails SeverityConfigurations_h
                         (\<lambda>r. sev_AlertConfigID r = cfg_ID c))) (\<lambda>_.
           wrap ''failed to delete join configurations''
             (tx_Delete fails JoinConfigurations_h (\<lambda>r. join_AlertConfigID r = cfg_ID c))))"

definition deleteTx :: "faults \<Rightarrow> nat \<Rightarrow> unit tx" where
  "deleteTx fails i =
     bind_tx (wrap ''failed to delete configuration associations''
                (deleteConfigurationAssociations fails i)) (\<lambda>_.
     bind_tx (wrap ''failed to delete alert configuration''
                (tx_Delete fails AlertConfigurations_h (\<lambda>r. cfg_AlertID r = i))) (\<lambda>_.
     bind_tx (wrap ''failed to delete alert schedule''
                (tx_Delete fails AlertSchedules_h (\<lambda>r. sch_AlertID r = i))) (\<lambda>_.
     bind_tx (wrap ''failed to delete alert tags''
                (tx_Delete fails AlertTags_h (\<lambda>r. tag_AlertID r = i))) (\<lambda>_.
     bind_tx (wrap ''failed to delete alert queries''
                (tx_Delete fails AlertQueries_h (\<lambda>r. qry_AlertID r = i))) (\<lambda>_.
     wrap ''failed to delete alert'' (tx_Delete fails Alerts_h (\<lambda>r. a_ID r = i)))))))"

definition Delete :: "faults \<Rightarrow> nat \<Rightarrow> database \<Rightarrow> (error + unit) \<times> database" where
  "Delete fails i d = Transaction fails (deleteTx fails i) d"

section \<open>UpdateWithTransaction\<close>

subsection \<open>The upserts of the configuration blocks\<close>

text \<open>
  The seven \<^verbatim>\<open>upsert...Config\<close> functions have one shape. The slot of the block in the
  Configuration row is read (a miss is an error here). When the slot is nil or 0 the
  block is created with identity 0 and the slot is set to the new identity; otherwise
  the row the slot names is updated with the listed columns and the struct takes the
  slot's identity. The arguments of \<open>upsert_block\<close> are the block's name in the messages,
  its table, the slot's getter and setter, and \<open>refresh config row\<close>, the row with the
  columns of the \<^verbatim>\<open>updateData\<close> map taken from \<open>config\<close>.
\<close>

definition upsert_block ::
  "faults \<Rightarrow> string \<Rightarrow> 'r handle \<Rightarrow> (AlertConfiguration \<Rightarrow> nat option)
     \<Rightarrow> (nat \<Rightarrow> AlertConfiguration \<Rightarrow> AlertConfiguration) \<Rightarrow> ('r \<Rightarrow> 'r \<Rightarrow> 'r)
     \<Rightarrow> nat \<Rightarrow> 'r \<Rightarrow> 'r tx" where
  "upsert_block fails name h slot set_slot refresh alertConfigID config =
     bind_tx (wrap (''failed to get existing '' @ name @ '' config ID'')
                (tx_First fails AlertConfigurations_h (\<lambda>r. cfg_ID r = alertConfigID))) (\<lambda>found.
       case found of
         None \<Rightarrow>
           fail_tx (Wrapped (''failed to get existing '' @ name @ '' config ID'')
                      ErrRecordNotFound)
       | Some c \<Rightarrow>
           (if slot c = None \<or> slot c = Some 0 then
              bind_tx (wrap (''failed to create '' @ name @ '' configuration'')
                         (tx_Create fails h (h_set_id h 0 config))) (\<lambda>config'.
              bind_tx (wrap (''failed to update '' @ name @ '' config reference'')
                         (tx_Updates fails AlertConfigurations_h
                            (\<lambda>r. cfg_ID r = alertConfigID) (set_slot (h_id h config')))) (\<lambda>_.
              ret config'))
            else
              bind_tx (wrap (''failed to update '' @ name @ '' configuration'')
                         (tx_Updates fails h (\<lambda>r. h_id h r = the (slot c)) (refresh config))) (\<lambda>_.
              ret (h_set_id h (the (slot c)) config))))"

definition upsertConditionConfig :: "faults \<Rightarrow> nat \<Rightarrow> ConditionConfiguration \<Rightarrow> ConditionConfiguration tx" where
  "upsertConditionConfig fails alertConfigID config =
     upsert_block fails ''condition'' ConditionConfigurations_h cfg_ConditionConfigID
       (\<lambda>i r. r\<lparr> cfg_ConditionConfigID := Some i \<rparr>)
       (\<lambda>config r. r\<lparr> cond_Condition := cond_Condition config, cond_CountCondition := cond_CountCondition config \<rparr>)
       alertConfigID config"

definition upsertGroupConfig :: "faults \<Rightarrow> nat \<Rightarrow> GroupConfiguration \<Rightarrow> GroupConfiguration tx" where
  "upsertGroupConfig fails alertConfigID config =
     upsert_block fails ''group'' GroupConfigurations_h cfg_GroupConfigID
       (\<lambda>i r. r\<lparr> cfg_GroupConfigID := Some i \<rparr>)
       (\<lambda>config r. r\<lparr> grp_Fields := grp_Fields config, grp_Type := grp_Type config \<rparr>)
       alertConfigID config"

definition upsertPolicyConfig :: "faults \<Rightarrow> nat \<Rightarrow> PolicyConfiguration \<Rightarrow> PolicyConfiguration tx" where
  "upsertPolicyConfig fails alertConfigID config =
     upsert_block fails ''policy'' PolicyConfigurations_h cfg_PolicyConfigID
       (\<lambda>i r. r\<lparr> cfg_PolicyConfigID := Some i \<rparr>)
       (\<lambda>config r. r\<lparr> pol_AlertPolicyId := pol_AlertPolicyId config, pol_ActionPolicyId := pol_ActionPolicyId config, pol_RepeatInterval := pol_RepeatInterval config \<rparr>)
       alertConfigID config"

definition upsertTemplateConfig :: "faults \<Rightarrow> nat \<Rightarrow> TemplateConfiguration \<Rightarrow> TemplateConfiguration tx" where
  "upsertTemplateConfig fails alertConfigID config =
     upsert_block fails ''template'' TemplateConfigurations_h cfg_TemplateConfigID
       (\<lambda>i r. r\<lparr> cfg_TemplateConfigID := Some i \<rparr>)
       (\<lambda>config r. r\<lparr> tpl_TemplateId := tpl_TemplateId config, tpl_Lang := tpl_Lang config, tpl_Type := tpl_Type config, tpl_Version := tpl_Version config, tpl_Aonotations := tpl_Aonotations config, tpl_Tokens := tpl_Tokens config \<rparr>)
       alertConfigID config"

definition upsertSinkAlerthubConfig :: "faults \<Rightarrow> nat \<Rightarrow> SinkAlerthubConfiguration \<Rightarrow> SinkAlerthubConfiguration tx" where
  "upsertSinkAlerthubConfig fails alertConfigID config =
     upsert_block fails ''sink alerthub'' SinkAlerthubConfigurations_h cfg_SinkAlerthubConfigID
       (\<lambda>i r. r\<lparr> cfg_SinkAlerthubConfigID := Some i \<rparr>)
       (\<lambda>config r. r\<lparr> hub_Enabled := hub_Enabled config \<rparr>)
       alertConfigID config"

definition upsertSinkCmsConfig :: "faults \<Rightarrow> nat \<Rightarrow> SinkCmsConfiguration \<Rightarrow> SinkCmsConfiguration tx" where
  "upsertSinkCmsConfig fails alertConfigID config =
     upsert_block fails ''sink cms'' SinkCmsConfigurations_h cfg_SinkCmsConfigID
       (\<lambda>i r. r\<lparr> cfg_SinkCmsConfigID := Some i \<rparr>)
       (\<lambda>config r. r\<lparr> cms_Enabled := cms_Enabled config \<rparr>)
       alertConfigID config"

definition upsertSinkEventStoreConfig :: "faults \<Rightarrow> nat \<Rightarrow> SinkEventStoreConfiguration \<Rightarrow> SinkEventStoreConfiguration tx" where
  "upsertSinkEventStoreConfig fails alertConfigID config =
     upsert_block fails ''sink event store'' SinkEventStoreConfigurations_h cfg_SinkEventStoreConfigID
       (\<lambda>i r. r\<lparr> cfg_SinkEventStoreConfigID := Some i \<rparr>)
       (\<lambda>config r. r\<lparr> evs_Enabled := evs_Enabled config, evs_Endpoint := evs_Endpoint config, evs_EventStore := evs_EventStore config, evs_Project := evs_Project config, evs_RoleArn := evs_RoleArn config \<rparr>)
       alertConfigID config"

definition upsert_if_present :: "string \<Rightarrow> ('r \<Rightarrow> 'r tx) \<Rightarrow> 'r option \<Rightarrow> 'r option tx" where
  "upsert_if_present msg upsert block =
     (case block of
        None \<Rightarrow> ret None
      | Some b \<Rightarrow> bind_tx (wrap msg (upsert b)) (\<lambda>b'. ret (Some b')))"

definition upsert_blocks :: "faults \<Rightarrow> nat \<Rightarrow> AlertConfiguration \<Rightarrow> AlertConfiguration tx" where
  "upsert_blocks fails existingConfigID config =
     bind_tx (upsert_if_present ''failed to upsert condition configuration''
        (upsertConditionConfig fails existingConfigID) (cfg_ConditionConfig config)) (\<lambda>cond'.
     bind_tx (upsert_if_present ''failed to upsert group configuration''
        (upsertGroupConfig fails existingConfigID) (cfg_GroupConfig config)) (\<lambda>grp'.
     bind_tx (upsert_if_present ''failed to upsert policy configuration''
        (upsertPolicyConfig fails existingConfigID) (cfg_PolicyConfig config)) (\<lambda>pol'.
     bind_tx (upsert_if_present ''failed to upsert template configuration''
        (upsertTemplateConfig fails existingConfigID) (cfg_TemplateConfig config)) (\<lambda>tpl'.
     bind_tx (upsert_if_present ''failed to upsert sink alerthub configuration''
        (upsertSinkAlerthubConfig fails existingConfigID) (cfg_SinkAlerthubConfig config)) (\<lambda>hub'.
     bind_tx (upsert_if_present ''failed to upsert sink cms configuration''
        (upsertSinkCmsConfig fails existingConfigID) (cfg_SinkCmsConfig config)) (\<lambda>cms'.
     bind_tx (upsert_if_present ''failed to upsert sink event store configuration''
        (upsertSinkEventStoreConfig fails existingConfigID) (cfg_SinkEventStoreConfig config)) (\<lambda>evs'.
     ret (config\<lparr> cfg_ConditionConfig := cond', cfg_GroupConfig := grp', cfg_PolicyConfig := pol',
            cfg_TemplateConfig := tpl', cfg_SinkAlerthubConfig := hub',
            cfg_SinkCmsConfig := cms', cfg_SinkEventStoreConfig := evs' \<rparr>))))))))"

subsection \<open>recreateConfiguration and updateConfiguration\<close>

text \<open>
  \<^verbatim>\<open>recreateConfiguration\<close> runs when the alert has no Configuration row: it creates the
  blocks that are present (without writing \<^verbatim>\<open>AlertConfigID\<close> into them), stores their
  identities in the \<^verbatim>\<open>...ConfigID\<close> fields of its \<^verbatim>\<open>configToCreate\<close>, which starts from the
  same scalar fields as the one of the create, creates the Configuration row and then the
  severity and join rows.
\<close>

definition recreate_blocks :: "faults \<Rightarrow> AlertConfiguration \<Rightarrow> AlertConfiguration tx" where
  "recreate_blocks fails config =
     bind_tx (create_block fails ''failed to create condition configuration'' ConditionConfigurations_h
        (cfg_ConditionConfig config)) (\<lambda>cond'.
     bind_tx (create_block fails ''failed to create group configuration'' GroupConfigurations_h
        (cfg_GroupConfig config)) (\<lambda>grp'.
     bind_tx (create_block fails ''failed to create policy configuration'' PolicyConfigurations_h
        (cfg_PolicyConfig config)) (\<lambda>pol'.
     bind_tx (create_block fails ''failed to create template configuration'' TemplateConfigurations_h
        (cfg_TemplateConfig config)) (\<lambda>tpl'.
     bind_tx (create_block fails ''failed to create sink alerthub configuration'' SinkAlerthubConfigurations_h
        (cfg_SinkAlerthubConfig config)) (\<lambda>hub'.
     bind_tx (create_block fails ''failed to create sink cms configuration'' SinkCmsConfigurations_h
        (cfg_SinkCmsConfig config)) (\<lambda>cms'.
     bind_tx (create_block fails ''failed to create sink event store configuration'' SinkEventStoreConfigurations_h
        (cfg_SinkEventStoreConfig config)) (\<lambda>evs'.
     ret (config\<lparr> cfg_ConditionConfig := cond', cfg_GroupConfig := grp', cfg_PolicyConfig := pol',
            cfg_TemplateConfig := tpl', cfg_SinkAlerthubConfig := hub',
            cfg_SinkCmsConfig := cms', cfg_SinkEventStoreConfig := evs' \<rparr>))))))))"

definition recreateConfiguration :: "faults \<Rightarrow> Alert \<Rightarrow> Alert tx" where
  "recreateConfiguration fails alert =
     (case a_Configuration alert of
        None \<Rightarrow> ret alert
      | Some config \<Rightarrow>
          bind_tx (recreate_blocks fails config) (\<lambda>config.
          bind_tx (wrap ''failed to create alert configuration''
            (tx_Create fails AlertConfigurations_h
               ((configToCreate (a_ID alert) config)
                  \<lparr> cfg_ConditionConfigID := map_option cond_ID (cfg_ConditionConfig config),
                    cfg_GroupConfigID := map_option grp_ID (cfg_GroupConfig config),
                    cfg_PolicyConfigID := map_option pol_ID (cfg_PolicyConfig config),
                    cfg_TemplateConfigID := map_option tpl_ID (cfg_TemplateConfig config),
                    cfg_SinkAlerthubConfigID :=
                      map_option hub_ID (cfg_SinkAlerthubConfig config),
                    cfg_SinkCmsConfigID := map_option cms_ID (cfg_SinkCmsConfig config),
                    cfg_SinkEventStoreConfigID :=
                      map_option evs_ID (cfg_SinkEventStoreConfig config) \<rparr>)))
          (\<lambda>created.
             bind_tx (create_severities fails (\<lambda>ec. ec) (cfg_ID created)
                        (cfg_SeverityConfigs config)) (\<lambda>svs.
             bind_tx (create_joins fails (cfg_ID created) (cfg_JoinConfigs config)) (\<lambda>js.
             ret (alert\<lparr> a_ConfigurationID := Some (cfg_ID created),
                    a_Configuration :=
                      Some (config\<lparr> cfg_SeverityConfigs := svs,
                                     cfg_JoinConfigs := js \<rparr>) \<rparr>))))))"

text \<open>
  \<^verbatim>\<open>updateConfiguration\<close>: without a Configuration row, recreate; otherwise update the nine
  scalar columns of the row, upsert each block that is present, and replace the
  severity and join rows when the incoming slice is not empty.
\<close>

definition cfg_scalars_from :: "AlertConfiguration \<Rightarrow> AlertConfiguration \<Rightarrow> AlertConfiguration" where
  "cfg_scalars_from config r =
     r\<lparr> cfg_AutoAnnotation := cfg_AutoAnnotation config, cfg_Dashboard := cfg_Dashboard config,
        cfg_MuteUntil := cfg_MuteUntil config, cfg_NoDataFire := cfg_NoDataFire config,
        cfg_NoDataSeverity := cfg_NoDataSeverity config, cfg_Threshold := cfg_Threshold config,
        cfg_Type := cfg_Type config, cfg_Version := cfg_Version config,
        cfg_SendResolved := cfg_SendResolved config \<rparr>"

definition replace_severities ::
  "faults \<Rightarrow> nat \<Rightarrow> SeverityConfiguration list \<Rightarrow> SeverityConfiguration list tx" where
  "replace_severities fails existingConfigID severityConfigs =
     (if length severityConfigs > 0 then
        bind_tx (wrap ''failed to delete old severity configurations''
                   (tx_Delete fails SeverityConfigurations_h
                      (\<lambda>r. sev_AlertConfigID r = existingConfigID))) (\<lambda>_.
        bind_tx (create_eval_conditions fails (\<lambda>ec. ec) existingConfigID severityConfigs) (\<lambda>svs.
          wrap ''failed to create severity configurations''
            (tx_CreateAll fails SeverityConfigurations_h svs)))
      else ret severityConfigs)"

definition replace_joins ::
  "faults \<Rightarrow> nat \<Rightarrow> JoinConfiguration list \<Rightarrow> JoinConfiguration list tx" where
  "replace_joins fails existingConfigID joinConfigs =
     (if length joinConfigs > 0 then
        bind_tx (wrap ''failed to delete old join configurations''
                   (tx_Delete fails JoinConfigurations_h
                      (\<lambda>r. join_AlertConfigID r = existingConfigID))) (\<lambda>_.
          wrap ''failed to create join configurations''
            (tx_CreateAll fails JoinConfigurations_h
               (map (\<lambda>j. j\<lparr> join_AlertConfigID := existingConfigID, join_ID := 0 \<rparr>)
                  joinConfigs)))
      else ret joinConfigs)"

definition updateConfiguration :: "faults \<Rightarrow> Alert \<Rightarrow> Alert tx" where
  "updateConfiguration fails alert =
     (case a_Configuration alert of
        None \<Rightarrow> ret alert
      | Some config \<Rightarrow>
          bind_tx (wrap ''failed to get existing configuration ID''
                     (tx_First fails AlertConfigurations_h
                        (\<lambda>r. cfg_AlertID r = a_ID alert))) (\<lambda>found.
            case found of
              None \<Rightarrow> recreateConfiguration fails alert
            | Some existing \<Rightarrow>
                bind_tx (wrap ''failed to update alert configuration''
                           (tx_Updates fails AlertConfigurations_h
                              (\<lambda>r. cfg_ID r = cfg_ID existing) (cfg_scalars_from config))) (\<lambda>_.
                bind_tx (upsert_blocks fails (cfg_ID existing) config) (\<lambda>config.
                bind_tx (replace_severities fails (cfg_ID existing)
                           (cfg_SeverityConfigs config)) (\<lambda>svs.
                bind_tx (replace_joins fails (cfg_ID existing) (cfg_JoinConfigs config)) (\<lambda>js.
                ret (alert\<lparr> a_ConfigurationID := Some (cfg_ID existing),
                       a_Configuration :=
                         Some (config\<lparr> cfg_SeverityConfigs := svs,
                                        cfg_JoinConfigs := js \<rparr>) \<rparr>)))))))"

subsection \<open>The transaction body\<close>

definition update_root :: "faults \<Rightarrow> Alert \<Rightarrow> unit tx" where
  "update_root fails alert =
     wrap ''failed to update alert''
       (tx_Updates fails Alerts_h (\<lambda>r. a_ID r = a_ID alert)
          (\<lambda>r. r\<lparr> a_DisplayName := a_DisplayName alert, a_Description := a_Description alert,
                  a_Status := a_Status alert,
                  a_LastModifiedTime := a_LastModifiedTime alert \<rparr>))"

definition update_configuration_step :: "faults \<Rightarrow> Alert \<Rightarrow> Alert tx" where
  "update_configuration_step fails alert =
     (if a_Configuration alert \<noteq> None then
        bind_tx (wrap ''failed to delete old configuration associations''
                   (deleteConfigurationAssociations fails (a_ID alert))) (\<lambda>_.
          wrap ''failed to update configuration'' (updateConfiguration fails alert))
      else ret alert)"

definition replace_schedule :: "faults \<Rightarrow> Alert \<Rightarrow> Alert tx" where
  "replace_schedule fails alert =
     (case a_Schedule alert of
        None \<Rightarrow> ret alert
      | Some schedule \<Rightarrow>
          bind_tx (wrap ''failed to delete old schedule''
                     (tx_Delete fails AlertSchedules_h (\<lambda>r. sch_AlertID r = a_ID alert))) (\<lambda>_.
          bind_tx (wrap ''failed to create new schedule''
                     (tx_Create fails AlertSchedules_h (new_schedule (a_ID alert) schedule)))
            (\<lambda>scheduleToCreate.
               ret (alert\<lparr> a_ScheduleID := Some (sch_ID scheduleToCreate) \<rparr>))))"

definition replace_tags :: "faults \<Rightarrow> Alert \<Rightarrow> unit tx" where
  "replace_tags fails alert =
     (if length (a_Tags alert) > 0 then
        bind_tx (wrap ''failed to delete old tags''
                   (tx_Delete fails AlertTags_h (\<lambda>r. tag_AlertID r = a_ID alert))) (\<lambda>_.
        bind_tx (wrap ''failed to create new tags''
                   (tx_CreateAll fails AlertTags_h
                      (map (new_tag (a_ID alert)) (a_Tags alert)))) (\<lambda>_.
        ret ()))
      else ret ())"

definition replace_queries :: "faults \<Rightarrow> Alert \<Rightarrow> unit tx" where
  "replace_queries fails alert =
     (if length (a_Queries alert) > 0 then
        bind_tx (wrap ''failed to delete old queries''
                   (tx_Delete fails AlertQueries_h (\<lambda>r. qry_AlertID r = a_ID alert))) (\<lambda>_.
        bind_tx (wrap ''failed to create new queries''
                   (tx_CreateAll fails AlertQueries_h
                      (map (new_query (a_ID alert)) (a_Queries alert)))) (\<lambda>_.
        ret ()))
      else ret ())"

definition updateTx :: "faults \<Rightarrow> Alert \<Rightarrow> Alert tx" where
  "updateTx fails alert =
     (if a_ID alert = 0 then fail_tx (Errorf ''alert ID is required for update'')
      else
        bind_tx (update_root fails alert) (\<lambda>_.
        bind_tx (update_configuration_step fails alert) (\<lambda>alert.
        bind_tx (replace_schedule fails alert) (\<lambda>alert.
        bind_tx (replace_tags fails alert) (\<lambda>_.
        bind_tx (replace_queries fails alert) (\<lambda>_.
        bind_tx (patch_relation_ids fails alert) (\<lambda>_.
        ret alert)))))))"

definition UpdateWithTransaction :: "faults \<Rightarrow> Alert \<Rightarrow> database \<Rightarrow> (error + Alert) \<times> database" where
  "UpdateWithTransaction fails alert d = Transaction fails (updateTx fails alert) d"

section \<open>The sync service\<close>

subsection \<open>Status (syncService.GetSyncStatus)\<close>

record SyncStatus =
  ss_LastSyncTime :: string
  ss_SLSAlertCount :: int
  ss_DBAlertCount :: int
  ss_SyncedCount :: int
  ss_FailedCount :: int
  ss_Status :: string
  ss_LastError :: "error option"

text \<open>
  \<^verbatim>\<open>GetSyncStatus\<close> calls \<^verbatim>\<open>slsService.GetAlerts\<close> and then \<^verbatim>\<open>alertStore.Count\<close>, once each;
  the two results are the arguments. The Go variable \<^verbatim>\<open>err\<close> is declared by the first
  call and assigned again by \<^verbatim>\<open>dbCount, err := s.alertStore.Count(ctx)\<close> in the same scope;
  the two bindings of \<open>err\<close> below are those two assignments, and the final test reads
  the second.
\<close>

definition GetSyncStatus :: "error + Alert list \<Rightarrow> error + int \<Rightarrow> error + SyncStatus" where
  "GetSyncStatus getAlerts count =
     (let err = (case getAlerts of Inl e \<Rightarrow> Some e | Inr _ \<Rightarrow> None);
          slsCount = (if err = None
                      then (case getAlerts of Inr slsAlerts \<Rightarrow> int (length slsAlerts) | Inl _ \<Rightarrow> 0)
                      else 0);
          err = (case count of Inl e \<Rightarrow> Some e | Inr _ \<Rightarrow> None)
      in case count of
           Inl e \<Rightarrow> Inl (Wrapped ''failed to count database alerts'' e)
         | Inr dbCount \<Rightarrow>
             (let status = \<lparr> ss_LastSyncTime = [], ss_SLSAlertCount = slsCount,
                    ss_DBAlertCount = dbCount, ss_SyncedCount = 0, ss_FailedCount = 0,
                    ss_Status = ''unknown'', ss_LastError = None \<rparr>
              in if err \<noteq> None
                 then Inr (status\<lparr> ss_Status := ''sls_connection_failed'', ss_LastError := err \<rparr>)
                 else Inr (status\<lparr> ss_Status := ''healthy'' \<rparr>)))"

subsection \<open>Push to the remote (syncService.SyncDatabaseToSLS)\<close>

text \<open>
  The remote gateway is the interface \<^verbatim>\<open>SLSService\<close>: a record of its operations over a
  remote state \<open>'w\<close>. A lookup returns the alert or an error; create and update return an
  optional error and the remote state after the call.
\<close>

record 'w SLSService =
  sls_GetAlertByName :: "'w \<Rightarrow> string \<Rightarrow> error + Alert"
  sls_CreateAlert :: "'w \<Rightarrow> Alert \<Rightarrow> error option \<times> 'w"
  sls_UpdateAlert :: "'w \<Rightarrow> Alert \<Rightarrow> error option \<times> 'w"

text \<open>
  The loop over \<^verbatim>\<open>dbAlerts\<close>. The accumulator holds \<^verbatim>\<open>syncedCount\<close>, \<^verbatim>\<open>failedCount\<close> and
  \<^verbatim>\<open>lastError\<close>; a failed item is counted and the loop continues.
\<close>

fun push_each ::
  "'w SLSService \<Rightarrow> Alert list \<Rightarrow> 'w \<Rightarrow> nat \<times> nat \<times> error option
     \<Rightarrow> 'w \<times> nat \<times> nat \<times> error option" where
  "push_each svc [] w acc = (w, acc)"
| "push_each svc (dbAlert # rest) w (syncedCount, failedCount, lastError) =
     (case sls_GetAlertByName svc w (a_Name dbAlert) of
        Inr existingSLSAlert \<Rightarrow>
          (case sls_UpdateAlert svc w dbAlert of
             (Some err, w') \<Rightarrow> push_each svc rest w' (syncedCount, Suc failedCount, Some err)
           | (None, w') \<Rightarrow> push_each svc rest w' (Suc syncedCount, failedCount, lastError))
      | Inl _ \<Rightarrow>
          (case sls_CreateAlert svc w dbAlert of
             (Some err, w') \<Rightarrow> push_each svc rest w' (syncedCount, Suc failedCount, Some err)
           | (None, w') \<Rightarrow> push_each svc rest w' (Suc syncedCount, failedCount, lastError)))"

definition SyncDatabaseToSLS :: "'w SLSService \<Rightarrow> database \<Rightarrow> 'w \<Rightarrow> error option \<times> 'w" where
  "SyncDatabaseToSLS svc d w =
     (case List_store d 0 1000 of
        Inl err \<Rightarrow> (Some (Wrapped ''failed to get alerts from database'' err), w)
      | Inr (dbAlerts, _) \<Rightarrow>
          (case push_each svc dbAlerts w (0, 0, None) of
             (w', syncedCount, failedCount, lastError) \<Rightarrow>
               (if failedCount > 0 then (Some (SyncFailures failedCount lastError), w')
                else (None, w'))))"

text \<open>
  An in-memory remote for running the sync on concrete inputs: the remote state is the
  list of alerts; the lookup scans it by name as \<^verbatim>\<open>slsService.GetAlertByName\<close> scans the
  result of \<^verbatim>\<open>GetAlerts\<close>; create appends, update replaces the alert of that name; no call
  fails.
\<close>

definition memory_remote :: "Alert list SLSService" where
  "memory_remote = \<lparr>
     sls_GetAlertByName = (\<lambda>w name.
       case find (\<lambda>alert. a_Name alert = name) w of
         Some alert \<Rightarrow> Inr alert
       | None \<Rightarrow> Inl (Errorf ''alert not found in SLS'')),
     sls_CreateAlert = (\<lambda>w alert. (None, w @ [alert])),
     sls_UpdateAlert = (\<lambda>w alert.
       (None, map (\<lambda>x. if a_Name x = a_Name alert then alert else x) w)) \<rparr>"

text \<open>
  A local store holding \<open>n\<close> root rows and nothing else: row \<open>i\<close> (identities 1 to \<open>n\<close>,
  oldest first) is named by \<open>i\<close> letters \<^verbatim>\<open>a\<close>.
\<close>

definition numbered_alert :: "nat \<Rightarrow> Alert" where
  "numbered_alert i = zero_Alert\<lparr> a_ID := i, a_Name := replicate i CHR ''a'',
     a_DisplayName := ''A'', a_Status := ''ENABLED'' \<rparr>"

definition db_with_alerts :: "nat \<Rightarrow> database" where
  "db_with_alerts n = empty_db\<lparr> alerts :=
     \<lparr> rows = map numbered_alert [1..<Suc n], next_id = Suc n \<rparr> \<rparr>"

section \<open>Concrete inputs\<close>

text \<open>
  The environment in which no statement is refused, and an aggregate with a
  Configuration (a condition block, an Alerthub sink, one severity entry with an eval
  condition, one join entry), a Schedule, a Tag and a Query, for running the operations.
  \<open>sample_db\<close> is the empty database after creating it.
\<close>

definition no_faults :: faults where
  "no_faults = (\<lambda>_. False)"

definition sample_configuration :: AlertConfiguration where
  "sample_configuration =
     \<lparr> cfg_ID = 0, cfg_AlertID = 0, cfg_AutoAnnotation = Some True,
       cfg_Dashboard = Some ''dash'', cfg_MuteUntil = None, cfg_NoDataFire = Some False,
       cfg_NoDataSeverity = None, cfg_Threshold = Some 3, cfg_Type = Some ''default'',
       cfg_Version = Some ''2.0'', cfg_SendResolved = Some False,
       cfg_ConditionConfigID = None, cfg_GroupConfigID = None, cfg_PolicyConfigID = None,
       cfg_TemplateConfigID = None, cfg_SinkAlerthubConfigID = None,
       cfg_SinkCmsConfigID = None, cfg_SinkEventStoreConfigID = None,
       cfg_ConditionConfig =
         Some \<lparr> cond_ID = 0, cond_AlertConfigID = 0, cond_Condition = Some ''cnt > 0'',
                cond_CountCondition = None \<rparr>,
       cfg_GroupConfig = None, cfg_PolicyConfig = None, cfg_TemplateConfig = None,
       cfg_SeverityConfigs =
         [\<lparr> sev_ID = 0, sev_AlertConfigID = 0, sev_Severity = Some 8,
            sev_EvalConditionID = None,
            sev_EvalCondition =
              Some \<lparr> cond_ID = 0, cond_AlertConfigID = 0, cond_Condition = Some ''x > 1'',
                     cond_CountCondition = None \<rparr> \<rparr>],
       cfg_JoinConfigs =
         [\<lparr> join_ID = 0, join_AlertConfigID = 0, join_JoinType = Some ''left'',
            join_JoinConfig = Some ''{}'' \<rparr>],
       cfg_SinkAlerthubConfig =
         Some \<lparr> hub_ID = 0, hub_AlertConfigID = 0, hub_Enabled = Some True \<rparr>,
       cfg_SinkCmsConfig = None, cfg_SinkEventStoreConfig = None \<rparr>"

definition sample_schedule :: AlertSchedule where
  "sample_schedule =
     \<lparr> sch_ID = 0, sch_AlertID = 0, sch_CronExpression = None, sch_Delay = None,
       sch_Interval = Some ''1m'', sch_RunImmediately = Some True, sch_TimeZone = None,
       sch_Type = ''FixedRate'' \<rparr>"

definition sample_tag :: AlertTag where
  "sample_tag =
     \<lparr> tag_ID = 0, tag_AlertID = 0, tag_TagType = ''label'', tag_TagKey = ''team'',
       tag_TagValue = Some ''sre'' \<rparr>"

definition sample_query :: AlertQuery where
  "sample_query =
     \<lparr> qry_ID = 0, qry_AlertID = 0, qry_ChartTitle = None, qry_DashboardId = None,
       qry_End = None, qry_PowerSqlMode = None, qry_Project = Some ''p'',
       qry_Query = ''* | select count(1) as cnt'', qry_Region = None, qry_RoleArn = None,
       qry_Start = None, qry_Store = Some ''logs'', qry_StoreType = None,
       qry_TimeSpanType = None, qry_Ui = None \<rparr>"

definition sample_alert :: Alert where
  "sample_alert = zero_Alert\<lparr> a_Name := ''cpu'', a_DisplayName := ''CPU'',
     a_Status := ''ENABLED'', a_LastModifiedTime := Some 100,
     a_Configuration := Some sample_configuration, a_Schedule := Some sample_schedule,
     a_Tags := [sample_tag], a_Queries := [sample_query] \<rparr>"

definition sample_db :: database where
  "sample_db = snd (CreateWithTransaction no_faults sample_alert empty_db)"


text \<open>An update input that carries only root fields.\<close>

definition rename_only :: Alert where
  "rename_only = zero_Alert\<lparr> a_ID := 1, a_Name := ''cpu'', a_DisplayName := ''CPU load'',
     a_Status := ''DISABLED'', a_LastModifiedTime := Some 200 \<rparr>"


section \<open>Vocabulary for the proofs\<close>

text \<open>
  \<open>keeps R m\<close>: every successful run of \<open>m\<close> relates the state before to the state after
  by \<open>R\<close>. Two relations are used: \<open>unrefused fails\<close>, the log grew and none of the
  positions it grew by is refused by \<open>fails\<close>; and \<open>same_on g\<close>, the part \<open>g\<close> of the database
  is unchanged.
\<close>

definition keeps :: "(txstate \<Rightarrow> txstate \<Rightarrow> bool) \<Rightarrow> 'a tx \<Rightarrow> bool" where
  "keeps R m \<longleftrightarrow> (\<forall>s x s'. m s = Inr (x, s') \<longrightarrow> R s s')"

definition unrefused :: "faults \<Rightarrow> txstate \<Rightarrow> txstate \<Rightarrow> bool" where
  "unrefused fails s s' \<longleftrightarrow>
     (\<exists>l. tx_log s' = tx_log s @ l \<and> (\<forall>k < length l. \<not> fails (length (tx_log s) + k)))"

definition same_on :: "(database \<Rightarrow> 'b) \<Rightarrow> txstate \<Rightarrow> txstate \<Rightarrow> bool" where
  "same_on g s s' \<longleftrightarrow> g (tx_db s') = g (tx_db s)"

text \<open>
  \<open>untouched g h\<close>: replacing the table of handle \<open>h\<close> does not change the part \<open>g\<close> of
  the database. \<open>untouched_by_configuration g\<close>: this holds for the ten tables that the
  Configuration steps write (the Configuration rows, the seven blocks, the severity and
  join rows).
\<close>

definition untouched :: "(database \<Rightarrow> 'b) \<Rightarrow> 'r handle \<Rightarrow> bool" where
  "untouched g h \<longleftrightarrow> (\<forall>t d. g (h_put h t d) = g d)"

definition untouched_by_configuration :: "(database \<Rightarrow> 'b) \<Rightarrow> bool" where
  "untouched_by_configuration g \<longleftrightarrow>
     untouched g AlertConfigurations_h \<and> untouched g ConditionConfigurations_h
     \<and> untouched g GroupConfigurations_h \<and> untouched g PolicyConfigurations_h
     \<and> untouched g TemplateConfigurations_h \<and> untouched g SinkAlerthubConfigurations_h
     \<and> untouched g SinkCmsConfigurations_h \<and> untouched g SinkEventStoreConfigurations_h
     \<and> untouched g SeverityConfigurations_h \<and> untouched g JoinConfigurations_h"

text \<open>
  \<open>numbered setid n rs\<close>: the rows \<open>rs\<close> with the consecutive identities \<open>n\<close>, \<open>n + 1\<close>, ...
  as an insert of a slice of new rows assigns them.
\<close>

definition numbered :: "(nat \<Rightarrow> 'r \<Rightarrow> 'r) \<Rightarrow> nat \<Rightarrow> 'r list \<Rightarrow> 'r list" where
  "numbered setid n rs = map (\<lambda>(i, r). setid i r) (zip [n..<n + length rs] rs)"

text \<open>
  \<open>logs l m\<close>: every successful run of \<open>m\<close> appends exactly the statements \<open>l\<close> to the
  log. \<open>create_statements alert\<close> is the list of statements that the body of
  \<^verbatim>\<open>CreateWithTransaction\<close> issues for an aggregate, read off its steps: one insert per
  present part, the eval condition of each severity entry before the insert of the
  severity rows, and the final update of the root row when a relation identity is set.
\<close>

definition logs :: "sql list \<Rightarrow> 'a tx \<Rightarrow> bool" where
  "logs l m \<longleftrightarrow> (\<forall>s x s'. m s = Inr (x, s') \<longrightarrow> tx_log s' = tx_log s @ l)"

definition insert_if :: "bool \<Rightarrow> tbl \<Rightarrow> sql list" where
  "insert_if present t = (if present then [INSERT t] else [])"

definition configuration_statements :: "AlertConfiguration \<Rightarrow> sql list" where
  "configuration_statements c =
     [INSERT AlertConfigurations]
     @ insert_if (cfg_ConditionConfig c \<noteq> None) ConditionConfigurations
     @ insert_if (cfg_GroupConfig c \<noteq> None) GroupConfigurations
     @ insert_if (cfg_PolicyConfig c \<noteq> None) PolicyConfigurations
     @ insert_if (cfg_TemplateConfig c \<noteq> None) TemplateConfigurations
     @ insert_if (cfg_SinkAlerthubConfig c \<noteq> None) SinkAlerthubConfigurations
     @ insert_if (cfg_SinkCmsConfig c \<noteq> None) SinkCmsConfigurations
     @ insert_if (cfg_SinkEventStoreConfig c \<noteq> None) SinkEventStoreConfigurations
     @ (if cfg_SeverityConfigs c = [] then []
        else concat (map (\<lambda>sv. insert_if (sev_EvalCondition sv \<noteq> None) ConditionConfigurations)
                      (cfg_SeverityConfigs c))
             @ [INSERT SeverityConfigurations])
     @ insert_if (cfg_JoinConfigs c \<noteq> []) JoinConfigurations"

definition create_statements :: "Alert \<Rightarrow> sql list" where
  "create_statements alert =
     [INSERT Alerts]
     @ (case a_Configuration alert of None \<Rightarrow> [] | Some c \<Rightarrow> configuration_statements c)
     @ insert_if (a_Schedule alert \<noteq> None) AlertSchedules
     @ insert_if (a_Tags alert \<noteq> []) AlertTags
     @ insert_if (a_Queries alert \<noteq> []) AlertQueries
     @ (if a_Configuration alert \<noteq> None \<or> a_ConfigurationID alert \<noteq> None
           \<or> a_Schedule alert \<noteq> None \<or> a_ScheduleID alert \<noteq> None
        then [UPDATE Alerts] else [])"

text \<open>
  The error that a run of \<^verbatim>\<open>CreateWithTransaction\<close> returns when the engine refuses a
  statement. \<open>create_messages alert\<close> lists, in the order of \<open>create_statements alert\<close>, the
  message that the source wraps around the error of each statement. \<open>blame fails n msgs\<close>
  is the message of the first refused statement, when the statements of \<open>msgs\<close> are issued
  from position \<open>n\<close> on. \<open>faulty msgs M\<close> relates the runs of a computation \<open>M\<close> under every
  environment to its undisturbed run: when the undisturbed run fails, every run fails;
  when it succeeds it issues \<open>length msgs\<close> statements, and a run under \<open>fails\<close> is either
  the same run or, when a statement is refused, the error of the first refused statement
  wrapped in its message.
\<close>

fun blame :: "faults \<Rightarrow> nat \<Rightarrow> string list \<Rightarrow> string option" where
  "blame fails n [] = None"
| "blame fails n (msg # msgs) = (if fails n then Some msg else blame fails (Suc n) msgs)"

definition faulty :: "string list \<Rightarrow> (faults \<Rightarrow> 'a tx) \<Rightarrow> bool" where
  "faulty msgs M \<longleftrightarrow>
     (\<forall>fails s.
        case M no_faults s of
          Inl e \<Rightarrow> isl (M fails s)
        | Inr (x, s0) \<Rightarrow>
            length (tx_log s0) = length (tx_log s) + length msgs
            \<and> M fails s =
                (case blame fails (length (tx_log s)) msgs of
                   None \<Rightarrow> Inr (x, s0)
                 | Some msg \<Rightarrow> Inl (Wrapped msg ErrEngine)))"

definition message_if :: "bool \<Rightarrow> string \<Rightarrow> string list" where
  "message_if present msg = (if present then [msg] else [])"

definition configuration_messages :: "AlertConfiguration \<Rightarrow> string list" where
  "configuration_messages c =
     [''failed to create alert configuration'']
     @ message_if (cfg_ConditionConfig c \<noteq> None) ''failed to create condition configuration''
     @ message_if (cfg_GroupConfig c \<noteq> None) ''failed to create group configuration''
     @ message_if (cfg_PolicyConfig c \<noteq> None) ''failed to create policy configuration''
     @ message_if (cfg_TemplateConfig c \<noteq> None) ''failed to create template configuration''
     @ message_if (cfg_SinkAlerthubConfig c \<noteq> None) ''failed to create sink alerthub configuration''
     @ message_if (cfg_SinkCmsConfig c \<noteq> None) ''failed to create sink cms configuration''
     @ message_if (cfg_SinkEventStoreConfig c \<noteq> None)
         ''failed to create sink event store configuration''
     @ (if cfg_SeverityConfigs c = [] then []
        else concat (map (\<lambda>sv. message_if (sev_EvalCondition sv \<noteq> None)
                                  ''failed to create eval condition'')
                      (cfg_SeverityConfigs c))
             @ [''failed to create severity configurations''])
     @ message_if (cfg_JoinConfigs c \<noteq> []) ''failed to create join configurations''"

definition create_messages :: "Alert \<Rightarrow> string list" where
  "create_messages alert =
     [''failed to create alert'']
     @ (case a_Configuration alert of None \<Rightarrow> [] | Some c \<Rightarrow> configuration_messages c)
     @ message_if (a_Schedule alert \<noteq> None) ''failed to create alert schedule''
     @ message_if (a_Tags alert \<noteq> []) ''failed to create alert tags''
     @ message_if (a_Queries alert \<noteq> []) ''failed to create alert queries''
     @ message_if (a_Configuration alert \<noteq> None \<or> a_ConfigurationID alert \<noteq> None
                   \<or> a_Schedule alert \<noteq> None \<or> a_ScheduleID alert \<noteq> None)
         ''failed to update alert with relation IDs''"

text \<open>
  \<open>sev_given sv\<close> is what a severity entry carries apart from what Create assigns: its
  severity, whether it has an eval condition, and its \<^verbatim>\<open>EvalConditionID\<close> when it has no
  eval condition (with one, Create overwrites the field with the identity of the Condition
  row it creates). \<open>without_blocks c\<close> is a Configuration without its four preloaded blocks
  and without its seven block foreign keys.

  \<open>issued d\<close>: every identity of an alert, Configuration or Schedule row of the store, and
  every alert or Configuration identity that a Tag, Query or severity row refers to, is
  below the counter of its table, that is, no row names an identity that the store has
  not assigned yet.
\<close>

definition sev_given :: "SeverityConfiguration \<Rightarrow> int option \<times> bool \<times> nat option" where
  "sev_given sv =
     (sev_Severity sv, sev_EvalCondition sv = None,
      if sev_EvalCondition sv = None then sev_EvalConditionID sv else None)"


definition issued :: "database \<Rightarrow> bool" where
  "issued d \<longleftrightarrow>
     (\<forall>r \<in> set (rows (alerts d)). a_ID r < next_id (alerts d))
     \<and> (\<forall>r \<in> set (rows (alert_configurations d)). cfg_ID r < next_id (alert_configurations d))
     \<and> (\<forall>r \<in> set (rows (alert_schedules d)). sch_ID r < next_id (alert_schedules d))
     \<and> (\<forall>r \<in> set (rows (alert_tags d)). tag_AlertID r < next_id (alerts d))
     \<and> (\<forall>r \<in> set (rows (alert_queries d)). qry_AlertID r < next_id (alerts d))
     \<and> (\<forall>r \<in> set (rows (severity_configurations d)).
           sev_AlertConfigID r < next_id (alert_configurations d))"

section \<open>Properties\<close>

subsection \<open>The change decision\<close>

text \<open>
  Claim C7. \<^verbatim>\<open>needsUpdate\<close> answers "update" exactly when one of these holds: a
  \<^verbatim>\<open>LastModifiedTime\<close> is absent on either side, the two \<^verbatim>\<open>LastModifiedTime\<close> values differ,
  \<^verbatim>\<open>DisplayName\<close> differs, \<^verbatim>\<open>Status\<close> differs, or \<^verbatim>\<open>Description\<close> differs in presence or in
  value; otherwise it answers "skip". Two records that agree on \<^verbatim>\<open>LastModifiedTime\<close> = 100,
  on \<^verbatim>\<open>DisplayName\<close> and \<^verbatim>\<open>Status\<close> and both have no description are skipped, and giving
  only the incoming one a description turns the answer into "update".
\<close>

theorem needsUpdate_decision:
  "(needsUpdate existing new \<longleftrightarrow>
      (a_LastModifiedTime existing = None \<or> a_LastModifiedTime new = None)
      \<or> a_LastModifiedTime existing \<noteq> a_LastModifiedTime new
      \<or> a_DisplayName existing \<noteq> a_DisplayName new
      \<or> a_Status existing \<noteq> a_Status new
      \<or> a_Description existing \<noteq> a_Description new)
   \<and> (a_LastModifiedTime existing = Some 100 \<and> a_LastModifiedTime new = Some 100
        \<and> a_DisplayName existing = a_DisplayName new \<and> a_Status existing = a_Status new
        \<and> a_Description existing = None \<and> a_Description new = None
      \<longrightarrow> \<not> needsUpdate existing new
          \<and> needsUpdate existing (new\<lparr>a_Description := Some d\<rparr>))"
  by (cases "a_LastModifiedTime existing"; cases "a_LastModifiedTime new";
      cases "a_Description existing"; cases "a_Description new")
     (auto simp: needsUpdate_def)

theorem needsUpdate_decision_witness:
  "\<not> needsUpdate
       (zero_Alert\<lparr>a_Name := ''n'', a_DisplayName := ''A'', a_Status := ''ENABLED'',
          a_LastModifiedTime := Some 100\<rparr>)
       (zero_Alert\<lparr>a_Name := ''n'', a_DisplayName := ''A'', a_Status := ''ENABLED'',
          a_LastModifiedTime := Some 100\<rparr>)
   \<and> needsUpdate
       (zero_Alert\<lparr>a_Name := ''n'', a_DisplayName := ''A'', a_Status := ''ENABLED'',
          a_LastModifiedTime := Some 100\<rparr>)
       (zero_Alert\<lparr>a_Name := ''n'', a_DisplayName := ''A'', a_Status := ''ENABLED'',
          a_LastModifiedTime := Some 100, a_Description := Some ''changed''\<rparr>)"
  using needsUpdate_decision
    [of "zero_Alert\<lparr>a_Name := ''n'', a_DisplayName := ''A'', a_Status := ''ENABLED'',
          a_LastModifiedTime := Some 100\<rparr>"
        "zero_Alert\<lparr>a_Name := ''n'', a_DisplayName := ''A'', a_Status := ''ENABLED'',
          a_LastModifiedTime := Some 100\<rparr>"
        "''changed''"]
  by (simp add: zero_Alert_def)

subsection \<open>The status report\<close>

text \<open>
  Claim C9. The claim says that \<^verbatim>\<open>GetSyncStatus\<close> reports the failure value, with the
  error recorded, when the remote list operation fails. The code does not: the error
  of \<^verbatim>\<open>GetAlerts\<close> is overwritten by the result of \<^verbatim>\<open>Count\<close> before it is tested, so
  whenever \<^verbatim>\<open>Count\<close> succeeds the report is \<^verbatim>\<open>healthy\<close> with no error and a remote count
  of 0, whatever error the remote fetch returned.
\<close>

theorem GetSyncStatus_remote_failure_reports_healthy:
  "GetSyncStatus (Inl e) (Inr n) =
     Inr \<lparr> ss_LastSyncTime = [], ss_SLSAlertCount = 0, ss_DBAlertCount = n,
           ss_SyncedCount = 0, ss_FailedCount = 0, ss_Status = ''healthy'',
           ss_LastError = None \<rparr>"
  by (simp add: GetSyncStatus_def)

subsection \<open>The push sync reads one page\<close>

lemma name_not_found: "distinct (map a_Name (w @ x # xs)) \<Longrightarrow> find (\<lambda>alert. a_Name alert = a_Name x) w = None"
proof -
  assume "distinct (map a_Name (w @ x # xs))"
  then have "a_Name x \<notin> a_Name ` set w" by simp
  then have "\<forall>y\<in>set w. a_Name y \<noteq> a_Name x" by (metis imageI)
  then show ?thesis by (simp add: find_None_iff)
qed

lemma memory_lookup_miss: "find (\<lambda>alert. a_Name alert = a_Name x) w = None \<Longrightarrow> sls_GetAlertByName memory_remote w (a_Name x) = Inl (Errorf ''alert not found in SLS'')"
    by (simp add: memory_remote_def)

lemma memory_create: "sls_CreateAlert memory_remote w x = (None, w @ [x])"
    by (simp add: memory_remote_def)

lemma push_each_create_step: "sls_GetAlertByName svc w (a_Name x) = Inl e \<Longrightarrow> sls_CreateAlert svc w x = (None, w') \<Longrightarrow>
  push_each svc (x # xs) w (sc, fc, le) = push_each svc xs w' (Suc sc, fc, le)"
  by simp


lemma push_each_memory:
  "distinct (map a_Name (w @ xs)) \<Longrightarrow>
   push_each memory_remote xs w (sc, fc, le) = (w @ xs, sc + length xs, fc, le)"
proof (induction xs arbitrary: w sc)
  case Nil
  then show ?case by simp
next
  case (Cons x xs)
  have d: "distinct (map a_Name ((w @ [x]) @ xs))" using Cons.prems by simp
  have "push_each memory_remote (x # xs) w (sc, fc, le)
        = push_each memory_remote xs (w @ [x]) (Suc sc, fc, le)"
    by (rule push_each_create_step
          [OF memory_lookup_miss [OF name_not_found [OF Cons.prems]] memory_create])
  also have "\<dots> = ((w @ [x]) @ xs, Suc sc + length xs, fc, le)"
    by (rule Cons.IH [OF d])
  finally show ?case by simp
qed

lemma numbered_names:
  "map a_Name (map (preload_list d) (map numbered_alert xs)) = map (\<lambda>i. replicate i CHR ''a'') xs"
  by (simp add: preload_list_def numbered_alert_def zero_Alert_def)

lemma numbered_names_distinct:
  "distinct xs \<Longrightarrow> distinct (map a_Name (map (preload_list d) (map numbered_alert xs)))"
proof -
  assume dx: "distinct xs"
  have "inj (\<lambda>i::nat. replicate i CHR ''a'')"
    by (rule injI) (metis length_replicate)
  then show ?thesis
    unfolding numbered_names using dx
    by (simp add: distinct_map) (rule inj_on_subset [where A = UNIV], simp_all)
qed

lemma newest_page:
  "take l (rev (map numbered_alert [1..<Suc n])) = map numbered_alert (rev [Suc (n - l)..<Suc n])"
proof -
  have "take l (rev (map numbered_alert [1..<Suc n]))
        = rev (drop (length (map numbered_alert [1..<Suc n]) - l) (map numbered_alert [1..<Suc n]))"
    by (rule take_rev)
  also have "\<dots> = rev (map numbered_alert (drop (n - l) [1..<Suc n]))"
    by (simp only: drop_map length_map length_upt diff_Suc_1)
  also have "\<dots> = map numbered_alert (rev [Suc (n - l)..<Suc n])"
    by (simp only: rev_map drop_upt plus_1_eq_Suc)
  finally show ?thesis .
qed

lemma sync_pushes_newest_page:
  "SyncDatabaseToSLS memory_remote (db_with_alerts n) [] =
     (None, map (preload_list (db_with_alerts n)) (map numbered_alert (rev [Suc (n - 1000)..<Suc n])))"
proof -
  have r: "rows (alerts (db_with_alerts n)) = map numbered_alert [1..<Suc n]"
    by (simp add: db_with_alerts_def)
  have dd: "distinct (map a_Name ([] @ map (preload_list (db_with_alerts n)) (map numbered_alert (rev [Suc (n - 1000)..<Suc n]))))"
    using numbered_names_distinct [of "rev [Suc (n - 1000)..<Suc n]" "db_with_alerts n"]
    by (simp del: upt_Suc)
  show ?thesis
    unfolding SyncDatabaseToSLS_def List_store_def r drop_0 newest_page
    by (simp only: sum.case prod.case push_each_memory [OF dd]) simp
qed

lemma sync_skips_oldest_general:
  assumes big: "1000 < n"
  shows "numbered_alert 1 \<in> set (rows (alerts (db_with_alerts n)))
   \<and> fst (SyncDatabaseToSLS memory_remote (db_with_alerts n) []) = None
   \<and> length (snd (SyncDatabaseToSLS memory_remote (db_with_alerts n) [])) = 1000
   \<and> a_Name (numbered_alert 1)
       \<notin> a_Name ` set (snd (SyncDatabaseToSLS memory_remote (db_with_alerts n) []))"
proof -
  have m: "numbered_alert 1 \<in> set (rows (alerts (db_with_alerts n)))"
    using big unfolding db_with_alerts_def by (simp del: upt_Suc)
  have n: "a_Name (numbered_alert 1)
       \<notin> a_Name ` set (snd (SyncDatabaseToSLS memory_remote (db_with_alerts n) []))"
  proof
    assume "a_Name (numbered_alert 1)
       \<in> a_Name ` set (snd (SyncDatabaseToSLS memory_remote (db_with_alerts n) []))"
    then have "a_Name (numbered_alert 1)
       \<in> set (map (\<lambda>i. replicate i CHR ''a'') (rev [Suc (n - 1000)..<Suc n]))"
      unfolding sync_pushes_newest_page snd_conv set_map [symmetric] numbered_names .
    then obtain i :: nat where i: "Suc (n - 1000) \<le> i"
        and eq: "a_Name (numbered_alert 1) = replicate i CHR ''a''"
      by (auto simp del: upt_Suc)
    have "length (a_Name (numbered_alert 1)) = 1"
      by (simp add: numbered_alert_def zero_Alert_def)
    with eq have "i = 1" by simp
    with i big show False by simp
  qed
  have l: "length (snd (SyncDatabaseToSLS memory_remote (db_with_alerts n) [])) = 1000"
    unfolding sync_pushes_newest_page using big by (simp del: upt_Suc)
  have e: "fst (SyncDatabaseToSLS memory_remote (db_with_alerts n) []) = None"
    unfolding sync_pushes_newest_page by simp
  show ?thesis using m n l e by blast
qed

text \<open>
  Claim C8. The claim says that \<^verbatim>\<open>SyncDatabaseToSLS\<close> pushes every local aggregate. The
  code reads the single page \<^verbatim>\<open>List(ctx, 0, 1000)\<close>: with 1001 local alerts and an empty
  remote that accepts every call, the sync reports no error, the remote holds 1000
  alerts afterwards, and the oldest local alert is not among them.
\<close>

theorem SyncDatabaseToSLS_skips_oldest:
  "numbered_alert 1 \<in> set (rows (alerts (db_with_alerts 1001)))
   \<and> fst (SyncDatabaseToSLS memory_remote (db_with_alerts 1001) []) = None
   \<and> length (snd (SyncDatabaseToSLS memory_remote (db_with_alerts 1001) [])) = 1000
   \<and> a_Name (numbered_alert 1)
       \<notin> a_Name ` set (snd (SyncDatabaseToSLS memory_remote (db_with_alerts 1001) []))"
  by (rule sync_skips_oldest_general) simp


subsection \<open>Successful runs of the transaction primitives\<close>

lemma ret_Inr [simp]: "(ret x s = Inr r) = (r = (x, s))"
  by (auto simp: ret_def)

lemma fail_tx_Inr [simp]: "(fail_tx e s = Inr r) = False"
  by (simp add: fail_tx_def)

lemma bind_tx_Inr: "(bind_tx m f s = Inr r) = (\<exists>x s1. m s = Inr (x, s1) \<and> f x s1 = Inr r)"
  by (cases "m s") (auto simp: bind_tx_def)

lemma wrap_Inr [simp]: "(wrap msg m s = Inr r) = (m s = Inr r)"
  by (cases "m s") (auto simp: wrap_def)

lemma stmt_Inr:
  "(stmt fails q f s = Inr (x, s')) =
     (\<not> fails (length (tx_log s)) \<and>
      (\<exists>d. f (tx_db s) = Inr (x, d) \<and> s' = \<lparr> tx_db = d, tx_log = tx_log s @ [q] \<rparr>))"
  by (cases "f (tx_db s)") (auto simp: stmt_def)

lemma tx_Delete_Inr:
  "(tx_Delete fails h p s = Inr (u, s')) =
     (\<not> fails (length (tx_log s)) \<and>
      s' = \<lparr> tx_db = h_put h (delete_where p (h_get h (tx_db s))) (tx_db s),
             tx_log = tx_log s @ [DELETE (h_tbl h)] \<rparr>)"
  by (auto simp: tx_Delete_def stmt_Inr)

lemma tx_Updates_Inr:
  "(tx_Updates fails h p f s = Inr (u, s')) =
     (\<not> fails (length (tx_log s)) \<and>
      s' = \<lparr> tx_db = h_put h (update_where p f (h_get h (tx_db s))) (tx_db s),
             tx_log = tx_log s @ [UPDATE (h_tbl h)] \<rparr>)"
  by (auto simp: tx_Updates_def stmt_Inr)

lemma tx_First_Inr:
  "(tx_First fails h p s = Inr (x, s')) =
     (\<not> fails (length (tx_log s)) \<and> x = first_where p (h_get h (tx_db s)) \<and>
      s' = \<lparr> tx_db = tx_db s, tx_log = tx_log s @ [SELECT (h_tbl h)] \<rparr>)"
  by (auto simp: tx_First_def stmt_Inr)

lemma deleteConfigurationAssociations_Inr:
  assumes "deleteConfigurationAssociations fails i s = Inr (u, s')"
  shows "s' = (case first_where (\<lambda>r. cfg_AlertID r = i) (alert_configurations (tx_db s)) of
            None \<Rightarrow> \<lparr> tx_db = tx_db s, tx_log = tx_log s @ [SELECT AlertConfigurations] \<rparr>
          | Some c \<Rightarrow> \<lparr> tx_db = (tx_db s)\<lparr>
                 severity_configurations := delete_where (\<lambda>r. sev_AlertConfigID r = cfg_ID c) (severity_configurations (tx_db s)),
                 join_configurations := delete_where (\<lambda>r. join_AlertConfigID r = cfg_ID c) (join_configurations (tx_db s)) \<rparr>,
               tx_log = tx_log s @ [SELECT AlertConfigurations, DELETE SeverityConfigurations, DELETE JoinConfigurations] \<rparr>)"
  using assms
  by (simp add: deleteConfigurationAssociations_def bind_tx_Inr tx_First_Inr tx_Delete_Inr
        AlertConfigurations_h_def SeverityConfigurations_h_def JoinConfigurations_h_def
      split: option.splits)


lemmas handle_defs =
  Alerts_h_def AlertConfigurations_h_def AlertSchedules_h_def AlertTags_h_def
  AlertQueries_h_def ConditionConfigurations_h_def GroupConfigurations_h_def
  PolicyConfigurations_h_def TemplateConfigurations_h_def SeverityConfigurations_h_def
  JoinConfigurations_h_def SinkAlerthubConfigurations_h_def SinkCmsConfigurations_h_def
  SinkEventStoreConfigurations_h_def

lemma Transaction_Inr:
  "(Transaction fails body d = (Inr x, d')) =
     (\<exists>s. body (begin_tx d) = Inr (x, s) \<and> \<not> fails (length (tx_log s)) \<and> d' = tx_db s)"
  by (cases "body (begin_tx d)") (auto simp: Transaction_def split: if_splits)

lemma Transaction_Inl:
  "Transaction fails body d = (Inl e, d') \<Longrightarrow> d' = d"
  by (cases "body (begin_tx d)") (auto simp: Transaction_def split: if_splits)

lemma deleteTx_Inr:
  assumes "deleteTx fails i s = Inr (u, s')"
  shows "\<exists>s1. deleteConfigurationAssociations fails i s = Inr ((), s1) \<and>
     s' = \<lparr> tx_db = (tx_db s1)\<lparr>
               alert_configurations :=
                 delete_where (\<lambda>r. cfg_AlertID r = i) (alert_configurations (tx_db s1)),
               alert_schedules := delete_where (\<lambda>r. sch_AlertID r = i) (alert_schedules (tx_db s1)),
               alert_tags := delete_where (\<lambda>r. tag_AlertID r = i) (alert_tags (tx_db s1)),
               alert_queries := delete_where (\<lambda>r. qry_AlertID r = i) (alert_queries (tx_db s1)),
               alerts := delete_where (\<lambda>r. a_ID r = i) (alerts (tx_db s1)) \<rparr>,
            tx_log = tx_log s1 @ [DELETE AlertConfigurations, DELETE AlertSchedules,
                       DELETE AlertTags, DELETE AlertQueries, DELETE Alerts] \<rparr>"
  using assms
  by (clarsimp simp: deleteTx_def bind_tx_Inr tx_Delete_Inr handle_defs)

lemma first_where_delete_where [simp]:
  "first_where p (delete_where p t) = None"
  by (simp add: first_where_def delete_where_def find_None_iff)

lemma rows_delete_where [simp]: "rows (delete_where p t) = filter (\<lambda>r. \<not> p r) (rows t)"
  by (simp add: delete_where_def)

lemma first_where_Some: "first_where p t = Some c \<Longrightarrow> p c \<and> c \<in> set (rows t)"
  unfolding first_where_def by (metis find_Some_iff nth_mem)

lemma first_where_None: "first_where p t = None \<Longrightarrow> c \<in> set (rows t) \<Longrightarrow> \<not> p c"
  unfolding first_where_def by (simp add: find_None_iff)


subsection \<open>Relations kept by every successful run\<close>

lemma keepsI: "(\<And>s x s'. m s = Inr (x, s') \<Longrightarrow> R s s') \<Longrightarrow> keeps R m"
  unfolding keeps_def by blast

lemma keepsD: "keeps R m \<Longrightarrow> m s = Inr (x, s') \<Longrightarrow> R s s'"
  unfolding keeps_def by blast

lemma keeps_ret: "reflp R \<Longrightarrow> keeps R (ret x)"
  unfolding keeps_def ret_def by (simp add: reflpD)

lemma keeps_fail: "keeps R (fail_tx e)"
  unfolding keeps_def fail_tx_def by simp

lemma keeps_wrap: "keeps R m \<Longrightarrow> keeps R (wrap msg m)"
  unfolding keeps_def wrap_def by (simp split: sum.splits)

lemma keeps_bind:
  assumes "transp R" and "keeps R m" and "\<And>x. keeps R (f x)"
  shows "keeps R (bind_tx m f)"
proof (rule keepsI)
  fix s x s'
  assume "bind_tx m f s = Inr (x, s')"
  then obtain y s1 where m: "m s = Inr (y, s1)" and f: "f y s1 = Inr (x, s')"
    unfolding bind_tx_def by (cases "m s") auto
  from keepsD [OF assms(2) m] keepsD [OF assms(3) f] assms(1) show "R s s'"
    by (rule transpD [rotated 1])
qed

lemma keeps_case_option:
  "keeps R a \<Longrightarrow> (\<And>x. keeps R (f x)) \<Longrightarrow> keeps R (case opt of None \<Rightarrow> a | Some x \<Rightarrow> f x)"
  by (cases opt) simp_all

lemma keeps_if: "keeps R a \<Longrightarrow> keeps R b \<Longrightarrow> keeps R (if c then a else b)"
  by simp

lemma reflp_unrefused: "reflp (unrefused fails)"
  unfolding reflp_def unrefused_def by simp

lemma transp_unrefused: "transp (unrefused fails)"
proof (rule transpI)
  fix s1 s2 s3
  assume "unrefused fails s1 s2" and "unrefused fails s2 s3"
  then obtain l1 l2 where l1: "tx_log s2 = tx_log s1 @ l1"
      and f1: "\<forall>k < length l1. \<not> fails (length (tx_log s1) + k)"
      and l2: "tx_log s3 = tx_log s2 @ l2"
      and f2: "\<forall>k < length l2. \<not> fails (length (tx_log s2) + k)"
    unfolding unrefused_def by blast
  have "\<forall>k < length (l1 @ l2). \<not> fails (length (tx_log s1) + k)"
  proof (intro allI impI)
    fix k assume k: "k < length (l1 @ l2)"
    show "\<not> fails (length (tx_log s1) + k)"
    proof (cases "k < length l1")
      case True with f1 show ?thesis by simp
    next
      case False
      with k have "k - length l1 < length l2" by simp
      with f2 have "\<not> fails (length (tx_log s2) + (k - length l1))" by simp
      with False l1 show ?thesis by simp
    qed
  qed
  with l1 l2 show "unrefused fails s1 s3" unfolding unrefused_def by simp
qed

lemma reflp_same_on: "reflp (same_on g)"
  unfolding reflp_def same_on_def by simp

lemma transp_same_on: "transp (same_on g)"
  unfolding transp_def same_on_def by simp

lemma keeps_unrefused_stmt: "keeps (unrefused fails) (stmt fails q f)"
  unfolding keeps_def stmt_def unrefused_def
  by (simp split: if_splits sum.splits prod.splits)

lemma keeps_same_on_stmt:
  "(\<And>d x d'. f d = Inr (x, d') \<Longrightarrow> g d' = g d) \<Longrightarrow> keeps (same_on g) (stmt fails q f)"
  unfolding keeps_def stmt_def same_on_def
  by (simp split: if_splits sum.splits prod.splits)


lemma unrefused_tx_Create: "keeps (unrefused fails) (tx_Create fails h r)"
  unfolding tx_Create_def by (rule keeps_unrefused_stmt)

lemma unrefused_tx_CreateAll: "keeps (unrefused fails) (tx_CreateAll fails h rs)"
  unfolding tx_CreateAll_def by (rule keeps_unrefused_stmt)

lemma unrefused_tx_Delete: "keeps (unrefused fails) (tx_Delete fails h p)"
  unfolding tx_Delete_def by (rule keeps_unrefused_stmt)

lemma unrefused_tx_Updates: "keeps (unrefused fails) (tx_Updates fails h p f)"
  unfolding tx_Updates_def by (rule keeps_unrefused_stmt)

lemma unrefused_tx_First: "keeps (unrefused fails) (tx_First fails h p)"
  unfolding tx_First_def by (rule keeps_unrefused_stmt)

lemmas unrefused_intros =
  keeps_bind [OF transp_unrefused] keeps_ret [OF reflp_unrefused] keeps_wrap keeps_fail
  keeps_case_option keeps_if unrefused_tx_Create unrefused_tx_CreateAll
  unrefused_tx_Delete unrefused_tx_Updates unrefused_tx_First

lemma unrefused_create_root: "keeps (unrefused fails) (create_root fails alert)"
  unfolding create_root_def by (intro unrefused_intros)

lemma unrefused_create_block: "keeps (unrefused fails) (create_block fails msg h b)"
  unfolding create_block_def by (intro unrefused_intros)

lemma unrefused_create_blocks: "keeps (unrefused fails) (create_blocks fails cid oc)"
  unfolding create_blocks_def by (intro unrefused_intros unrefused_create_block)

lemma unrefused_create_eval_conditions:
  "keeps (unrefused fails) (create_eval_conditions fails prep cid svs)"
proof (induction svs)
  case Nil
  show ?case by (simp add: unrefused_intros)
next
  case (Cons sv rest)
  show ?case unfolding create_eval_conditions.simps by (intro unrefused_intros Cons.IH)
qed

lemma unrefused_create_severities:
  "keeps (unrefused fails) (create_severities fails prep cid svs)"
  unfolding create_severities_def by (intro unrefused_intros unrefused_create_eval_conditions)

lemma unrefused_create_joins: "keeps (unrefused fails) (create_joins fails cid js)"
  unfolding create_joins_def by (intro unrefused_intros)

lemma unrefused_create_configuration:
  "keeps (unrefused fails) (create_configuration fails alert)"
  unfolding create_configuration_def
  by (intro unrefused_intros unrefused_create_blocks unrefused_create_severities
        unrefused_create_joins)

lemma unrefused_create_schedule: "keeps (unrefused fails) (create_schedule fails alert)"
  unfolding create_schedule_def by (intro unrefused_intros)

lemma unrefused_create_tags: "keeps (unrefused fails) (create_tags fails alert)"
  unfolding create_tags_def by (intro unrefused_intros)

lemma unrefused_create_queries: "keeps (unrefused fails) (create_queries fails alert)"
  unfolding create_queries_def by (intro unrefused_intros)

lemma unrefused_patch_relation_ids: "keeps (unrefused fails) (patch_relation_ids fails alert)"
  unfolding patch_relation_ids_def by (intro unrefused_intros)

lemma unrefused_createTx: "keeps (unrefused fails) (createTx fails alert)"
  unfolding createTx_def
  by (intro unrefused_intros unrefused_create_root unrefused_create_configuration
        unrefused_create_schedule unrefused_create_tags unrefused_create_queries
        unrefused_patch_relation_ids)

lemma unrefused_from_begin:
  assumes "unrefused fails (begin_tx d) s" and "\<not> fails (length (tx_log s))"
  shows "\<forall>k \<le> length (tx_log s). \<not> fails k"
proof (intro allI impI)
  fix k assume k: "k \<le> length (tx_log s)"
  from assms(1) obtain l where l: "tx_log s = l" and f: "\<forall>k < length l. \<not> fails k"
    unfolding unrefused_def begin_tx_def by auto
  show "\<not> fails k"
  proof (cases "k < length l")
    case True with f show ?thesis by simp
  next
    case False with k l have "k = length (tx_log s)" by simp
    with assms(2) show ?thesis by simp
  qed
qed


subsection \<open>Delete\<close>

text \<open>
  What a successful \<^verbatim>\<open>Delete(id)\<close> leaves in each table: the rows of the alert are removed
  from the root, Configuration, Schedule, Tag and Query tables and every other row of
  these tables is kept; the severity and join rows removed are those of the first
  Configuration row found for the alert, and no others; the seven block tables are as
  before; the alert is no longer found.
\<close>

lemma Delete_tables:
  assumes ok: "Delete fails i d = (Inr u, d')"
  shows "alerts d' = delete_where (\<lambda>r. a_ID r = i) (alerts d)"
    and "alert_configurations d' = delete_where (\<lambda>r. cfg_AlertID r = i) (alert_configurations d)"
    and "alert_schedules d' = delete_where (\<lambda>r. sch_AlertID r = i) (alert_schedules d)"
    and "alert_tags d' = delete_where (\<lambda>r. tag_AlertID r = i) (alert_tags d)"
    and "alert_queries d' = delete_where (\<lambda>r. qry_AlertID r = i) (alert_queries d)"
    and "severity_configurations d' =
           (case first_where (\<lambda>r. cfg_AlertID r = i) (alert_configurations d) of
              None \<Rightarrow> severity_configurations d
            | Some c \<Rightarrow> delete_where (\<lambda>r. sev_AlertConfigID r = cfg_ID c)
                          (severity_configurations d))"
    and "join_configurations d' =
           (case first_where (\<lambda>r. cfg_AlertID r = i) (alert_configurations d) of
              None \<Rightarrow> join_configurations d
            | Some c \<Rightarrow> delete_where (\<lambda>r. join_AlertConfigID r = cfg_ID c)
                          (join_configurations d))"
    and "condition_configurations d' = condition_configurations d"
    and "group_configurations d' = group_configurations d"
    and "policy_configurations d' = policy_configurations d"
    and "template_configurations d' = template_configurations d"
    and "sink_alerthub_configurations d' = sink_alerthub_configurations d"
    and "sink_cms_configurations d' = sink_cms_configurations d"
    and "sink_event_store_configurations d' = sink_event_store_configurations d"
    and "GetByID d' i = Inl ErrRecordNotFound"
proof -
  from ok obtain s where body: "deleteTx fails i (begin_tx d) = Inr (u, s)" and d': "d' = tx_db s"
    unfolding Delete_def Transaction_Inr by blast
  from deleteTx_Inr [OF body] obtain s1
    where assoc: "deleteConfigurationAssociations fails i (begin_tx d) = Inr ((), s1)"
      and s: "s = \<lparr> tx_db = (tx_db s1)\<lparr>
               alert_configurations :=
                 delete_where (\<lambda>r. cfg_AlertID r = i) (alert_configurations (tx_db s1)),
               alert_schedules := delete_where (\<lambda>r. sch_AlertID r = i) (alert_schedules (tx_db s1)),
               alert_tags := delete_where (\<lambda>r. tag_AlertID r = i) (alert_tags (tx_db s1)),
               alert_queries := delete_where (\<lambda>r. qry_AlertID r = i) (alert_queries (tx_db s1)),
               alerts := delete_where (\<lambda>r. a_ID r = i) (alerts (tx_db s1)) \<rparr>,
            tx_log = tx_log s1 @ [DELETE AlertConfigurations, DELETE AlertSchedules,
                       DELETE AlertTags, DELETE AlertQueries, DELETE Alerts] \<rparr>"
    by blast
  note s1 = deleteConfigurationAssociations_Inr [OF assoc]
  show "alerts d' = delete_where (\<lambda>r. a_ID r = i) (alerts d)"
    "alert_configurations d' = delete_where (\<lambda>r. cfg_AlertID r = i) (alert_configurations d)"
    "alert_schedules d' = delete_where (\<lambda>r. sch_AlertID r = i) (alert_schedules d)"
    "alert_tags d' = delete_where (\<lambda>r. tag_AlertID r = i) (alert_tags d)"
    "alert_queries d' = delete_where (\<lambda>r. qry_AlertID r = i) (alert_queries d)"
    "severity_configurations d' =
           (case first_where (\<lambda>r. cfg_AlertID r = i) (alert_configurations d) of
              None \<Rightarrow> severity_configurations d
            | Some c \<Rightarrow> delete_where (\<lambda>r. sev_AlertConfigID r = cfg_ID c)
                          (severity_configurations d))"
    "join_configurations d' =
           (case first_where (\<lambda>r. cfg_AlertID r = i) (alert_configurations d) of
              None \<Rightarrow> join_configurations d
            | Some c \<Rightarrow> delete_where (\<lambda>r. join_AlertConfigID r = cfg_ID c)
                          (join_configurations d))"
    "condition_configurations d' = condition_configurations d"
    "group_configurations d' = group_configurations d"
    "policy_configurations d' = policy_configurations d"
    "template_configurations d' = template_configurations d"
    "sink_alerthub_configurations d' = sink_alerthub_configurations d"
    "sink_cms_configurations d' = sink_cms_configurations d"
    "sink_event_store_configurations d' = sink_event_store_configurations d"
    unfolding d' s s1 by (simp_all add: begin_tx_def split: option.splits)
  show "GetByID d' i = Inl ErrRecordNotFound"
    unfolding d' s by (simp add: GetByID_def)
qed


subsection \<open>Upserting a block whose slot is occupied\<close>


lemma rows_update_where [simp]:
  "rows (update_where p f t) = map (\<lambda>r. if p r then f r else r) (rows t)"
  by (simp add: update_where_def)

lemma next_id_update_where [simp]: "next_id (update_where p f t) = next_id t"
  by (simp add: update_where_def)


















subsection \<open>Tables that a step does not write\<close>

lemma same_on_tx_Create: "untouched g h \<Longrightarrow> keeps (same_on g) (tx_Create fails h r)"
  unfolding tx_Create_def untouched_def
  by (rule keeps_same_on_stmt) (simp split: sum.splits prod.splits)

lemma same_on_tx_CreateAll: "untouched g h \<Longrightarrow> keeps (same_on g) (tx_CreateAll fails h rs)"
  unfolding tx_CreateAll_def untouched_def
  by (rule keeps_same_on_stmt) (simp split: sum.splits prod.splits)

lemma same_on_tx_Delete: "untouched g h \<Longrightarrow> keeps (same_on g) (tx_Delete fails h p)"
  unfolding tx_Delete_def untouched_def
  by (rule keeps_same_on_stmt) clarsimp

lemma same_on_tx_Updates: "untouched g h \<Longrightarrow> keeps (same_on g) (tx_Updates fails h p f)"
  unfolding tx_Updates_def untouched_def
  by (rule keeps_same_on_stmt) clarsimp

lemma same_on_tx_First: "keeps (same_on g) (tx_First fails h p)"
  unfolding tx_First_def
  by (rule keeps_same_on_stmt) simp

lemmas same_on_intros =
  keeps_bind [OF transp_same_on] keeps_ret [OF reflp_same_on] keeps_wrap keeps_fail
  keeps_case_option keeps_if same_on_tx_Create same_on_tx_CreateAll
  same_on_tx_Delete same_on_tx_Updates same_on_tx_First

lemma same_on_create_block:
  "untouched g h \<Longrightarrow> keeps (same_on g) (create_block fails msg h b)"
  unfolding create_block_def by (intro same_on_intros)

lemma same_on_create_eval_conditions:
  assumes "untouched g ConditionConfigurations_h"
  shows "keeps (same_on g) (create_eval_conditions fails prep cid svs)"
proof (induction svs)
  case Nil
  show ?case by (simp add: same_on_intros)
next
  case (Cons sv rest)
  show ?case unfolding create_eval_conditions.simps by (intro same_on_intros Cons.IH assms)
qed

lemma same_on_create_severities:
  assumes "untouched g ConditionConfigurations_h" and "untouched g SeverityConfigurations_h"
  shows "keeps (same_on g) (create_severities fails prep cid svs)"
  unfolding create_severities_def
  by (intro same_on_intros same_on_create_eval_conditions assms)

lemma same_on_create_joins:
  assumes "untouched g JoinConfigurations_h"
  shows "keeps (same_on g) (create_joins fails cid js)"
  unfolding create_joins_def by (intro same_on_intros assms)

lemma same_on_replace_severities:
  assumes "untouched g ConditionConfigurations_h" and "untouched g SeverityConfigurations_h"
  shows "keeps (same_on g) (replace_severities fails cid svs)"
  unfolding replace_severities_def
  by (intro same_on_intros same_on_create_eval_conditions assms)

lemma same_on_replace_joins:
  assumes "untouched g JoinConfigurations_h"
  shows "keeps (same_on g) (replace_joins fails cid js)"
  unfolding replace_joins_def by (intro same_on_intros assms)

lemma same_on_upsert_block:
  assumes "untouched g h" and "untouched g AlertConfigurations_h"
  shows "keeps (same_on g) (upsert_block fails name h slot set_slot refresh cid config)"
  unfolding upsert_block_def by (intro same_on_intros assms)

lemma same_on_upsert_if_present:
  "(\<And>b. keeps (same_on g) (upsert b)) \<Longrightarrow> keeps (same_on g) (upsert_if_present msg upsert block)"
  unfolding upsert_if_present_def by (intro same_on_intros)

lemma untouched_by_configurationD:
  assumes "untouched_by_configuration g"
  shows "untouched g AlertConfigurations_h" "untouched g ConditionConfigurations_h"
    "untouched g GroupConfigurations_h" "untouched g PolicyConfigurations_h"
    "untouched g TemplateConfigurations_h" "untouched g SinkAlerthubConfigurations_h"
    "untouched g SinkCmsConfigurations_h" "untouched g SinkEventStoreConfigurations_h"
    "untouched g SeverityConfigurations_h" "untouched g JoinConfigurations_h"
  using assms unfolding untouched_by_configuration_def by simp_all

lemma same_on_upsert_blocks:
  assumes "untouched_by_configuration g"
  shows "keeps (same_on g) (upsert_blocks fails cid config)"
  unfolding upsert_blocks_def upsertConditionConfig_def upsertGroupConfig_def upsertPolicyConfig_def upsertTemplateConfig_def upsertSinkAlerthubConfig_def upsertSinkCmsConfig_def upsertSinkEventStoreConfig_def
  by (intro same_on_intros same_on_upsert_if_present same_on_upsert_block
        untouched_by_configurationD [OF assms])

lemma same_on_recreate_blocks:
  assumes "untouched_by_configuration g"
  shows "keeps (same_on g) (recreate_blocks fails config)"
  unfolding recreate_blocks_def
  by (intro same_on_intros same_on_create_block untouched_by_configurationD [OF assms])

lemma same_on_create_blocks:
  assumes "untouched_by_configuration g"
  shows "keeps (same_on g) (create_blocks fails cid config)"
  unfolding create_blocks_def
  by (intro same_on_intros same_on_create_block untouched_by_configurationD [OF assms])

lemma same_on_recreateConfiguration:
  assumes "untouched_by_configuration g"
  shows "keeps (same_on g) (recreateConfiguration fails alert)"
  unfolding recreateConfiguration_def
  by (intro same_on_intros same_on_recreate_blocks same_on_create_severities
        same_on_create_joins assms untouched_by_configurationD [OF assms])

lemma same_on_deleteConfigurationAssociations:
  assumes "untouched_by_configuration g"
  shows "keeps (same_on g) (deleteConfigurationAssociations fails i)"
  unfolding deleteConfigurationAssociations_def
  by (intro same_on_intros untouched_by_configurationD [OF assms])

lemma same_on_updateConfiguration:
  assumes "untouched_by_configuration g"
  shows "keeps (same_on g) (updateConfiguration fails alert)"
  unfolding updateConfiguration_def
  by (intro same_on_intros same_on_recreateConfiguration same_on_upsert_blocks
        same_on_replace_severities same_on_replace_joins assms
        untouched_by_configurationD [OF assms])

lemma same_on_update_configuration_step:
  assumes "untouched_by_configuration g"
  shows "keeps (same_on g) (update_configuration_step fails alert)"
  unfolding update_configuration_step_def
  by (intro same_on_intros same_on_deleteConfigurationAssociations
        same_on_updateConfiguration assms)

lemma same_on_create_configuration:
  assumes "untouched_by_configuration g"
  shows "keeps (same_on g) (create_configuration fails alert)"
  unfolding create_configuration_def
  by (intro same_on_intros same_on_create_blocks same_on_create_severities
        same_on_create_joins assms untouched_by_configurationD [OF assms])

lemma same_on_update_root:
  "untouched g Alerts_h \<Longrightarrow> keeps (same_on g) (update_root fails alert)"
  unfolding update_root_def by (intro same_on_intros)

lemma same_on_patch_relation_ids:
  "untouched g Alerts_h \<Longrightarrow> keeps (same_on g) (patch_relation_ids fails alert)"
  unfolding patch_relation_ids_def by (intro same_on_intros)

lemma same_on_create_root:
  "untouched g Alerts_h \<Longrightarrow> keeps (same_on g) (create_root fails alert)"
  unfolding create_root_def by (intro same_on_intros)

lemma same_on_replace_schedule:
  "untouched g AlertSchedules_h \<Longrightarrow> keeps (same_on g) (replace_schedule fails alert)"
  unfolding replace_schedule_def by (intro same_on_intros)

lemma same_on_create_schedule:
  "untouched g AlertSchedules_h \<Longrightarrow> keeps (same_on g) (create_schedule fails alert)"
  unfolding create_schedule_def by (intro same_on_intros)

lemma same_on_replace_tags:
  "untouched g AlertTags_h \<Longrightarrow> keeps (same_on g) (replace_tags fails alert)"
  unfolding replace_tags_def by (intro same_on_intros)

lemma same_on_create_tags:
  "untouched g AlertTags_h \<Longrightarrow> keeps (same_on g) (create_tags fails alert)"
  unfolding create_tags_def by (intro same_on_intros)

lemma same_on_replace_queries:
  "untouched g AlertQueries_h \<Longrightarrow> keeps (same_on g) (replace_queries fails alert)"
  unfolding replace_queries_def by (intro same_on_intros)

lemma same_on_create_queries:
  "untouched g AlertQueries_h \<Longrightarrow> keeps (same_on g) (create_queries fails alert)"
  unfolding create_queries_def by (intro same_on_intros)

subsection \<open>Update leaves alone what its input does not carry\<close>

lemma updateTx_steps:
  assumes "updateTx fails alert s = Inr (x, s')"
  obtains s1 a2 s2 s3 s4 s5
  where "a_ID alert \<noteq> 0"
    and "update_root fails alert s = Inr ((), s1)"
    and "update_configuration_step fails alert s1 = Inr (a2, s2)"
    and "replace_schedule fails a2 s2 = Inr (x, s3)"
    and "replace_tags fails x s3 = Inr ((), s4)"
    and "replace_queries fails x s4 = Inr ((), s5)"
    and "patch_relation_ids fails x s5 = Inr ((), s')"
  using assms
  by (cases "a_ID alert = 0") (auto simp: updateTx_def bind_tx_Inr)

lemma update_configuration_step_alert:
  assumes "update_configuration_step fails alert s = Inr (a2, s2)"
  shows "a_ID a2 = a_ID alert \<and> a_Schedule a2 = a_Schedule alert \<and> a_Tags a2 = a_Tags alert
         \<and> a_Queries a2 = a_Queries alert \<and> a_ScheduleID a2 = a_ScheduleID alert
         \<and> (a_Configuration alert = None \<longrightarrow> a2 = alert \<and> s2 = s)"
  using assms
  by (cases "a_Configuration alert")
     (auto simp: update_configuration_step_def updateConfiguration_def
        recreateConfiguration_def bind_tx_Inr split: option.splits)

lemma replace_schedule_alert:
  assumes "replace_schedule fails a2 s2 = Inr (a3, s3)"
  shows "a_ID a3 = a_ID a2 \<and> a_Tags a3 = a_Tags a2 \<and> a_Queries a3 = a_Queries a2
         \<and> a_Configuration a3 = a_Configuration a2
         \<and> a_ConfigurationID a3 = a_ConfigurationID a2
         \<and> (a_Schedule a2 = None \<longrightarrow> a3 = a2 \<and> s3 = s2)"
  using assms
  by (cases "a_Schedule a2") (auto simp: replace_schedule_def bind_tx_Inr)

lemma replace_tags_empty:
  "a_Tags a = [] \<Longrightarrow> replace_tags fails a s = Inr (u, s') \<Longrightarrow> s' = s"
  by (simp add: replace_tags_def)

lemma replace_queries_empty:
  "a_Queries a = [] \<Longrightarrow> replace_queries fails a s = Inr (u, s') \<Longrightarrow> s' = s"
  by (simp add: replace_queries_def)

lemma same_on_updateTx:
  assumes root: "untouched g Alerts_h"
    and cfg: "a_Configuration alert = None \<or> untouched_by_configuration g"
    and sch: "a_Schedule alert = None \<or> untouched g AlertSchedules_h"
    and tags: "a_Tags alert = [] \<or> untouched g AlertTags_h"
    and qrys: "a_Queries alert = [] \<or> untouched g AlertQueries_h"
  shows "keeps (same_on g) (updateTx fails alert)"
proof (rule keepsI)
  fix s x s'
  assume "updateTx fails alert s = Inr (x, s')"
  then obtain s1 a2 s2 s3 s4 s5
    where r1: "update_root fails alert s = Inr ((), s1)"
      and r2: "update_configuration_step fails alert s1 = Inr (a2, s2)"
      and r3: "replace_schedule fails a2 s2 = Inr (x, s3)"
      and r4: "replace_tags fails x s3 = Inr ((), s4)"
      and r5: "replace_queries fails x s4 = Inr ((), s5)"
      and r6: "patch_relation_ids fails x s5 = Inr ((), s')"
    by (rule updateTx_steps)
  note a2 = update_configuration_step_alert [OF r2]
  note a3 = replace_schedule_alert [OF r3]
  have e1: "same_on g s s1" by (rule keepsD [OF same_on_update_root [OF root] r1])
  have e2: "same_on g s1 s2"
  proof (cases "a_Configuration alert = None")
    case True with a2 show ?thesis by (simp add: same_on_def)
  next
    case False
    with cfg have "untouched_by_configuration g" by simp
    then show ?thesis by (rule keepsD [OF same_on_update_configuration_step r2])
  qed
  have e3: "same_on g s2 s3"
  proof (cases "a_Schedule alert = None")
    case True with a2 a3 show ?thesis by (simp add: same_on_def)
  next
    case False
    with sch have "untouched g AlertSchedules_h" by simp
    then show ?thesis by (rule keepsD [OF same_on_replace_schedule r3])
  qed
  have e4: "same_on g s3 s4"
  proof (cases "a_Tags alert = []")
    case True
    with a2 a3 have "a_Tags x = []" by simp
    from replace_tags_empty [OF this r4] show ?thesis by (simp add: same_on_def)
  next
    case False
    with tags have "untouched g AlertTags_h" by simp
    then show ?thesis by (rule keepsD [OF same_on_replace_tags r4])
  qed
  have e5: "same_on g s4 s5"
  proof (cases "a_Queries alert = []")
    case True
    with a2 a3 have "a_Queries x = []" by simp
    from replace_queries_empty [OF this r5] show ?thesis by (simp add: same_on_def)
  next
    case False
    with qrys have "untouched g AlertQueries_h" by simp
    then show ?thesis by (rule keepsD [OF same_on_replace_queries r5])
  qed
  have e6: "same_on g s5 s'" by (rule keepsD [OF same_on_patch_relation_ids [OF root] r6])
  from e1 e2 e3 e4 e5 e6 show "same_on g s s'" by (simp add: same_on_def)
qed

lemma Transaction_same_on:
  assumes "keeps (same_on g) body" and "Transaction fails body d = (res, d')"
  shows "g d' = g d"
proof (cases res)
  case (Inl e)
  with assms(2) have "d' = d" by (simp add: Transaction_Inl)
  then show ?thesis by simp
next
  case (Inr x)
  with assms(2) obtain s where b: "body (begin_tx d) = Inr (x, s)" and d': "d' = tx_db s"
    by (auto simp: Transaction_Inr)
  from keepsD [OF assms(1) b] d' show ?thesis by (simp add: same_on_def begin_tx_def)
qed

lemma untouched_simps:
  "untouched alert_configurations Alerts_h" "untouched alert_configurations AlertSchedules_h"
  "untouched alert_configurations AlertTags_h" "untouched alert_configurations AlertQueries_h"
  "untouched severity_configurations Alerts_h" "untouched severity_configurations AlertSchedules_h"
  "untouched severity_configurations AlertTags_h" "untouched severity_configurations AlertQueries_h"
  "untouched join_configurations Alerts_h" "untouched join_configurations AlertSchedules_h"
  "untouched join_configurations AlertTags_h" "untouched join_configurations AlertQueries_h"
  "untouched condition_configurations Alerts_h" "untouched condition_configurations AlertSchedules_h"
  "untouched condition_configurations AlertTags_h" "untouched condition_configurations AlertQueries_h"
  "untouched group_configurations Alerts_h" "untouched group_configurations AlertSchedules_h"
  "untouched group_configurations AlertTags_h" "untouched group_configurations AlertQueries_h"
  "untouched policy_configurations Alerts_h" "untouched policy_configurations AlertSchedules_h"
  "untouched policy_configurations AlertTags_h" "untouched policy_configurations AlertQueries_h"
  "untouched template_configurations Alerts_h" "untouched template_configurations AlertSchedules_h"
  "untouched template_configurations AlertTags_h" "untouched template_configurations AlertQueries_h"
  "untouched sink_alerthub_configurations Alerts_h" "untouched sink_alerthub_configurations AlertSchedules_h"
  "untouched sink_alerthub_configurations AlertTags_h" "untouched sink_alerthub_configurations AlertQueries_h"
  "untouched sink_cms_configurations Alerts_h" "untouched sink_cms_configurations AlertSchedules_h"
  "untouched sink_cms_configurations AlertTags_h" "untouched sink_cms_configurations AlertQueries_h"
  "untouched sink_event_store_configurations Alerts_h" "untouched sink_event_store_configurations AlertSchedules_h"
  "untouched sink_event_store_configurations AlertTags_h" "untouched sink_event_store_configurations AlertQueries_h"
  "untouched alert_schedules Alerts_h" "untouched alert_schedules AlertTags_h" "untouched alert_schedules AlertQueries_h"
  "untouched alert_tags Alerts_h" "untouched alert_tags AlertSchedules_h" "untouched alert_tags AlertQueries_h"
  "untouched alert_queries Alerts_h" "untouched alert_queries AlertSchedules_h" "untouched alert_queries AlertTags_h"
  "untouched alerts AlertSchedules_h" "untouched alerts AlertTags_h" "untouched alerts AlertQueries_h"
  by (simp_all add: untouched_def handle_defs)

lemma untouched_by_configuration_simps:
  "untouched_by_configuration alerts" "untouched_by_configuration alert_schedules"
  "untouched_by_configuration alert_tags" "untouched_by_configuration alert_queries"
  by (simp_all add: untouched_by_configuration_def untouched_def handle_defs)

text \<open>
  Claim C10. Whatever \<^verbatim>\<open>UpdateWithTransaction\<close> returns: when the input's Configuration
  is nil, the Configuration rows, the severity and join rows and the seven block tables
  are as before; when its Schedule is nil, the Schedule rows are as before; when its Tags
  are empty, the Tag rows are as before; when its Queries are empty, the Query rows are
  as before.
\<close>

theorem UpdateWithTransaction_frame:
  assumes run: "UpdateWithTransaction fails alert d = (res, d')"
  shows "(a_Configuration alert = None \<longrightarrow>
            alert_configurations d' = alert_configurations d
            \<and> severity_configurations d' = severity_configurations d
            \<and> join_configurations d' = join_configurations d
            \<and> condition_configurations d' = condition_configurations d
            \<and> group_configurations d' = group_configurations d
            \<and> policy_configurations d' = policy_configurations d
            \<and> template_configurations d' = template_configurations d
            \<and> sink_alerthub_configurations d' = sink_alerthub_configurations d
            \<and> sink_cms_configurations d' = sink_cms_configurations d
            \<and> sink_event_store_configurations d' = sink_event_store_configurations d)
       \<and> (a_Schedule alert = None \<longrightarrow> alert_schedules d' = alert_schedules d)
       \<and> (a_Tags alert = [] \<longrightarrow> alert_tags d' = alert_tags d)
       \<and> (a_Queries alert = [] \<longrightarrow> alert_queries d' = alert_queries d)"
proof -
  note t = Transaction_same_on [OF _ run [unfolded UpdateWithTransaction_def]]
  have c: "a_Configuration alert = None \<Longrightarrow> untouched g Alerts_h \<Longrightarrow>
           untouched g AlertSchedules_h \<Longrightarrow> untouched g AlertTags_h \<Longrightarrow>
           untouched g AlertQueries_h \<Longrightarrow> g d' = g d" for g :: "database \<Rightarrow> 'b table"
    by (rule t, rule same_on_updateTx) simp_all
  have s: "a_Schedule alert = None \<Longrightarrow> alert_schedules d' = alert_schedules d"
    by (rule t, rule same_on_updateTx)
       (simp_all add: untouched_simps untouched_by_configuration_simps)
  have tg: "a_Tags alert = [] \<Longrightarrow> alert_tags d' = alert_tags d"
    by (rule t, rule same_on_updateTx)
       (simp_all add: untouched_simps untouched_by_configuration_simps)
  have q: "a_Queries alert = [] \<Longrightarrow> alert_queries d' = alert_queries d"
    by (rule t, rule same_on_updateTx)
       (simp_all add: untouched_simps untouched_by_configuration_simps)
  show ?thesis
    by (intro conjI impI c s tg q untouched_simps)
qed

theorem UpdateWithTransaction_frame_witness:
  "a_Configuration rename_only = None \<and> a_Schedule rename_only = None
   \<and> a_Tags rename_only = [] \<and> a_Queries rename_only = []
   \<and> map a_DisplayName (rows (alerts (snd (UpdateWithTransaction no_faults rename_only sample_db))))
       = [''CPU load'']
   \<and> rows (alert_tags sample_db) \<noteq> []
   \<and> alert_configurations (snd (UpdateWithTransaction no_faults rename_only sample_db))
       = alert_configurations sample_db
   \<and> alert_schedules (snd (UpdateWithTransaction no_faults rename_only sample_db))
       = alert_schedules sample_db
   \<and> alert_tags (snd (UpdateWithTransaction no_faults rename_only sample_db))
       = alert_tags sample_db
   \<and> alert_queries (snd (UpdateWithTransaction no_faults rename_only sample_db))
       = alert_queries sample_db"
proof -
  have h: "UpdateWithTransaction no_faults rename_only sample_db
           = (fst (UpdateWithTransaction no_faults rename_only sample_db),
              snd (UpdateWithTransaction no_faults rename_only sample_db))"
    by (rule prod.collapse [symmetric])
  have c: "a_Configuration rename_only = None" and s: "a_Schedule rename_only = None"
    and t: "a_Tags rename_only = []" and q: "a_Queries rename_only = []"
    by (simp_all add: rename_only_def zero_Alert_def)
  have n: "map a_DisplayName
             (rows (alerts (snd (UpdateWithTransaction no_faults rename_only sample_db))))
           = [''CPU load'']"
    by code_simp
  have r: "rows (alert_tags sample_db) \<noteq> []" by code_simp
  note f = UpdateWithTransaction_frame [OF h]
  note f1 = f [THEN conjunct1, THEN mp, OF c, THEN conjunct1]
  note f2 = f [THEN conjunct2, THEN conjunct1, THEN mp, OF s]
  note f3 = f [THEN conjunct2, THEN conjunct2, THEN conjunct1, THEN mp, OF t]
  note f4 = f [THEN conjunct2, THEN conjunct2, THEN conjunct2, THEN mp, OF q]
  show ?thesis by (intro conjI c s t q n r f1 f2 f3 f4)
qed

subsection \<open>Inserts that assign identities\<close>

lemma next_id_delete_where [simp]: "next_id (delete_where p t) = next_id t"
  by (simp add: delete_where_def)

lemma gorm_create_all_auto:
  assumes zero: "\<forall>r \<in> set rs. getid r = 0"
  shows "gorm_create_all getid setid rs t =
           Inr (map (\<lambda>(i, r). setid i r) (zip [next_id t..<next_id t + length rs] rs),
                \<lparr> rows = rows t @ map (\<lambda>(i, r). setid i r)
                                       (zip [next_id t..<next_id t + length rs] rs),
                  next_id = next_id t + length rs \<rparr>)"
  using zero
proof (induction rs arbitrary: t)
  case Nil
  show ?case by simp
next
  case (Cons r rs)
  let ?t' = "\<lparr> rows = rows t @ [setid (next_id t) r], next_id = Suc (next_id t) \<rparr>"
  have first: "gorm_create getid setid r t = Inr (setid (next_id t) r, ?t')"
    using Cons.prems by (simp add: gorm_create_def)
  have rest: "gorm_create_all getid setid rs ?t' =
           Inr (map (\<lambda>(i, r). setid i r) (zip [next_id ?t'..<next_id ?t' + length rs] rs),
                \<lparr> rows = rows ?t' @ map (\<lambda>(i, r). setid i r)
                                       (zip [next_id ?t'..<next_id ?t' + length rs] rs),
                  next_id = next_id ?t' + length rs \<rparr>)"
    using Cons.prems by (intro Cons.IH) simp
  have upt: "[next_id t..<next_id t + length (r # rs)]
             = next_id t # [Suc (next_id t)..<Suc (next_id t) + length rs]"
  proof -
    have "[next_id t..<next_id t + length (r # rs)]
          = next_id t # [Suc (next_id t)..<next_id t + length (r # rs)]"
      by (rule upt_conv_Cons) simp
    moreover have "next_id t + length (r # rs) = Suc (next_id t) + length rs" by simp
    ultimately show ?thesis by (simp only:)
  qed
  show ?case
    unfolding gorm_create_all.simps first upt using rest by simp
qed

lemma tx_CreateAll_Inr_auto:
  assumes zero: "\<forall>r \<in> set rs. h_id h (h_row h (h_defaults h r)) = 0"
    and run: "tx_CreateAll fails h rs s = Inr (x, s')"
  shows "tx_db s' = h_put h
           \<lparr> rows = rows (h_get h (tx_db s))
                    @ numbered (h_set_id h) (next_id (h_get h (tx_db s)))
                        (map (\<lambda>r. h_row h (h_defaults h r)) rs),
             next_id = next_id (h_get h (tx_db s)) + length rs \<rparr> (tx_db s)
         \<and> tx_log s' = tx_log s @ [INSERT (h_tbl h)]"
proof -
  have z: "\<forall>r \<in> set (map (\<lambda>r. h_row h (h_defaults h r)) rs). h_id h r = 0"
    using zero by simp
  from run show ?thesis
    unfolding tx_CreateAll_def stmt_Inr gorm_create_all_auto [OF z]
    by (auto simp: numbered_def)
qed


lemma tx_Create_Inr_auto:
  assumes zero: "h_id h (h_row h (h_defaults h r)) = 0"
    and lens: "\<And>i r. h_id h (h_set_id h i r) = i"
    and run: "tx_Create fails h r s = Inr (x, s')"
  shows "tx_db s' = h_put h
           \<lparr> rows = rows (h_get h (tx_db s))
                    @ [h_set_id h (next_id (h_get h (tx_db s))) (h_row h (h_defaults h r))],
             next_id = Suc (next_id (h_get h (tx_db s))) \<rparr> (tx_db s)
         \<and> tx_log s' = tx_log s @ [INSERT (h_tbl h)]
         \<and> x = h_set_id h (next_id (h_get h (tx_db s))) (h_defaults h r)"
  using run zero
  unfolding tx_Create_def stmt_Inr gorm_create_def
  by (auto simp: lens)

lemma replace_tags_effect:
  assumes "replace_tags fails a s = Inr (u, s')"
  shows "tx_db s' =
           (if a_Tags a = [] then tx_db s
            else (tx_db s)\<lparr> alert_tags :=
                   \<lparr> rows = filter (\<lambda>r. tag_AlertID r \<noteq> a_ID a) (rows (alert_tags (tx_db s)))
                            @ numbered (\<lambda>i r. r\<lparr> tag_ID := i \<rparr>) (next_id (alert_tags (tx_db s)))
                                (map (new_tag (a_ID a)) (a_Tags a)),
                     next_id = next_id (alert_tags (tx_db s)) + length (a_Tags a) \<rparr> \<rparr>)"
proof (cases "a_Tags a = []")
  case True
  with assms show ?thesis by (simp add: replace_tags_def)
next
  case False
  with assms obtain s1
    where del: "tx_Delete fails AlertTags_h (\<lambda>r. tag_AlertID r = a_ID a) s = Inr ((), s1)"
      and ins: "\<exists>x. tx_CreateAll fails AlertTags_h (map (new_tag (a_ID a)) (a_Tags a)) s1
                     = Inr (x, s')"
    by (auto simp: replace_tags_def bind_tx_Inr)
  from ins obtain x
    where ins': "tx_CreateAll fails AlertTags_h (map (new_tag (a_ID a)) (a_Tags a)) s1 = Inr (x, s')"
    by blast
  have z: "\<forall>r \<in> set (map (new_tag (a_ID a)) (a_Tags a)).
             h_id AlertTags_h (h_row AlertTags_h (h_defaults AlertTags_h r)) = 0"
    by (simp add: AlertTags_h_def new_tag_def)
  from tx_CreateAll_Inr_auto [OF z ins'] del False show ?thesis
    by (simp add: tx_Delete_Inr AlertTags_h_def)
qed

lemma replace_queries_effect:
  assumes "replace_queries fails a s = Inr (u, s')"
  shows "tx_db s' =
           (if a_Queries a = [] then tx_db s
            else (tx_db s)\<lparr> alert_queries :=
                   \<lparr> rows = filter (\<lambda>r. qry_AlertID r \<noteq> a_ID a) (rows (alert_queries (tx_db s)))
                            @ numbered (\<lambda>i r. r\<lparr> qry_ID := i \<rparr>) (next_id (alert_queries (tx_db s)))
                                (map (new_query (a_ID a)) (a_Queries a)),
                     next_id = next_id (alert_queries (tx_db s)) + length (a_Queries a) \<rparr> \<rparr>)"
proof (cases "a_Queries a = []")
  case True
  with assms show ?thesis by (simp add: replace_queries_def)
next
  case False
  with assms obtain s1
    where del: "tx_Delete fails AlertQueries_h (\<lambda>r. qry_AlertID r = a_ID a) s = Inr ((), s1)"
      and ins: "\<exists>x. tx_CreateAll fails AlertQueries_h (map (new_query (a_ID a)) (a_Queries a)) s1
                     = Inr (x, s')"
    by (auto simp: replace_queries_def bind_tx_Inr)
  from ins obtain x
    where ins': "tx_CreateAll fails AlertQueries_h (map (new_query (a_ID a)) (a_Queries a)) s1
                 = Inr (x, s')"
    by blast
  have z: "\<forall>r \<in> set (map (new_query (a_ID a)) (a_Queries a)).
             h_id AlertQueries_h (h_row AlertQueries_h (h_defaults AlertQueries_h r)) = 0"
    by (simp add: AlertQueries_h_def new_query_def)
  from tx_CreateAll_Inr_auto [OF z ins'] del False show ?thesis
    by (simp add: tx_Delete_Inr AlertQueries_h_def)
qed

lemma replace_schedule_effect:
  assumes "replace_schedule fails a s = Inr (a', s')"
  shows "tx_db s' =
           (case a_Schedule a of
              None \<Rightarrow> tx_db s
            | Some sch \<Rightarrow> (tx_db s)\<lparr> alert_schedules :=
                   \<lparr> rows = filter (\<lambda>r. sch_AlertID r \<noteq> a_ID a) (rows (alert_schedules (tx_db s)))
                            @ [(sch_defaults (new_schedule (a_ID a) sch))
                                 \<lparr> sch_ID := next_id (alert_schedules (tx_db s)) \<rparr>],
                     next_id = Suc (next_id (alert_schedules (tx_db s))) \<rparr> \<rparr>)"
proof (cases "a_Schedule a")
  case None
  with assms show ?thesis by (simp add: replace_schedule_def)
next
  case (Some sch)
  with assms obtain s1 x
    where del: "tx_Delete fails AlertSchedules_h (\<lambda>r. sch_AlertID r = a_ID a) s = Inr ((), s1)"
      and ins: "tx_Create fails AlertSchedules_h (new_schedule (a_ID a) sch) s1 = Inr (x, s')"
    by (auto simp: replace_schedule_def bind_tx_Inr)
  have z: "h_id AlertSchedules_h (h_row AlertSchedules_h
             (h_defaults AlertSchedules_h (new_schedule (a_ID a) sch))) = 0"
    by (simp add: AlertSchedules_h_def new_schedule_def sch_defaults_def)
  have l: "\<And>i r. h_id AlertSchedules_h (h_set_id AlertSchedules_h i r) = i"
    by (simp add: AlertSchedules_h_def)
  from tx_Create_Inr_auto [OF z l ins] del Some show ?thesis
    by (simp add: tx_Delete_Inr AlertSchedules_h_def)
qed

lemma length_numbered [simp]: "length (numbered setid n rs) = length rs"
  by (simp add: numbered_def)

lemma in_numberedD:
  assumes "x \<in> set (numbered setid n rs)"
  obtains i r where "r \<in> set rs" and "x = setid i r"
proof -
  from assms obtain i r where "(i, r) \<in> set (zip [n..<n + length rs] rs)" and "x = setid i r"
    unfolding numbered_def by auto
  moreover then have "r \<in> set rs" by (meson set_zip_rightD)
  ultimately show ?thesis using that by blast
qed

lemma map_numbered:
  assumes "\<And>i r. r \<in> set rs \<Longrightarrow> f (setid i r) = g r"
  shows "map f (numbered setid n rs) = map g rs"
proof -
  have "map f (numbered setid n rs)
        = map (\<lambda>p. f (setid (fst p) (snd p))) (zip [n..<n + length rs] rs)"
    by (simp add: numbered_def case_prod_unfold comp_def)
  also have "\<dots> = map (\<lambda>p. g (snd p)) (zip [n..<n + length rs] rs)"
  proof (rule map_cong [OF refl])
    fix p assume "p \<in> set (zip [n..<n + length rs] rs)"
    then have "(fst p, snd p) \<in> set (zip [n..<n + length rs] rs)" by simp
    then have "snd p \<in> set rs" by (rule set_zip_rightD)
    then show "f (setid (fst p) (snd p)) = g (snd p)" by (rule assms)
  qed
  also have "\<dots> = map g rs"
  proof -
    have ms: "map snd (zip [n..<n + length rs] rs) = rs" by (rule map_snd_zip) simp
    have "map (\<lambda>p. g (snd p)) (zip [n..<n + length rs] rs)
          = map g (map snd (zip [n..<n + length rs] rs))"
      by (simp only: map_map comp_def)
    then show ?thesis by (simp only: ms)
  qed
  finally show ?thesis .
qed

lemma filter_numbered_all:
  assumes "\<And>i r. r \<in> set rs \<Longrightarrow> P (setid i r)"
  shows "filter P (numbered setid n rs) = numbered setid n rs"
proof (rule filter_True)
  show "\<forall>x \<in> set (numbered setid n rs). P x"
  proof
    fix x assume "x \<in> set (numbered setid n rs)"
    then obtain i r where "r \<in> set rs" and "x = setid i r" by (rule in_numberedD)
    with assms show "P x" by simp
  qed
qed

lemma filter_filter_neg [simp]: "filter P (filter (\<lambda>r. \<not> P r) xs) = []"
  by (induction xs) simp_all

subsection \<open>Update replaces the Schedule, Tags and Queries it is given\<close>

lemma updateTx_tables:
  assumes run: "updateTx fails alert s = Inr (x, s')"
  shows "alert_schedules (tx_db s') =
           (case a_Schedule alert of
              None \<Rightarrow> alert_schedules (tx_db s)
            | Some sch \<Rightarrow>
                \<lparr> rows = filter (\<lambda>r. sch_AlertID r \<noteq> a_ID alert)
                           (rows (alert_schedules (tx_db s)))
                         @ [(sch_defaults (new_schedule (a_ID alert) sch))
                              \<lparr> sch_ID := next_id (alert_schedules (tx_db s)) \<rparr>],
                  next_id = Suc (next_id (alert_schedules (tx_db s))) \<rparr>)"
    and "alert_tags (tx_db s') =
           (if a_Tags alert = [] then alert_tags (tx_db s)
            else \<lparr> rows = filter (\<lambda>r. tag_AlertID r \<noteq> a_ID alert) (rows (alert_tags (tx_db s)))
                        @ numbered (\<lambda>i r. r\<lparr> tag_ID := i \<rparr>) (next_id (alert_tags (tx_db s)))
                            (map (new_tag (a_ID alert)) (a_Tags alert)),
                   next_id = next_id (alert_tags (tx_db s)) + length (a_Tags alert) \<rparr>)"
    and "alert_queries (tx_db s') =
           (if a_Queries alert = [] then alert_queries (tx_db s)
            else \<lparr> rows = filter (\<lambda>r. qry_AlertID r \<noteq> a_ID alert)
                           (rows (alert_queries (tx_db s)))
                        @ numbered (\<lambda>i r. r\<lparr> qry_ID := i \<rparr>) (next_id (alert_queries (tx_db s)))
                            (map (new_query (a_ID alert)) (a_Queries alert)),
                   next_id = next_id (alert_queries (tx_db s)) + length (a_Queries alert) \<rparr>)"
proof -
  from run obtain s1 a2 s2 s3 s4 s5
    where r1: "update_root fails alert s = Inr ((), s1)"
      and r2: "update_configuration_step fails alert s1 = Inr (a2, s2)"
      and r3: "replace_schedule fails a2 s2 = Inr (x, s3)"
      and r4: "replace_tags fails x s3 = Inr ((), s4)"
      and r5: "replace_queries fails x s4 = Inr ((), s5)"
      and r6: "patch_relation_ids fails x s5 = Inr ((), s')"
    by (rule updateTx_steps)
  note a2 = update_configuration_step_alert [OF r2]
  note a3 = replace_schedule_alert [OF r3]
  have f1: "g (tx_db s1) = g (tx_db s)" if "untouched g Alerts_h" for g :: "database \<Rightarrow> 'b"
    using keepsD [OF same_on_update_root [OF that] r1] by (simp add: same_on_def)
  have f2: "g (tx_db s2) = g (tx_db s1)" if "untouched_by_configuration g"
    for g :: "database \<Rightarrow> 'b"
    using keepsD [OF same_on_update_configuration_step [OF that] r2] by (simp add: same_on_def)
  have f6: "g (tx_db s') = g (tx_db s5)" if "untouched g Alerts_h" for g :: "database \<Rightarrow> 'b"
    using keepsD [OF same_on_patch_relation_ids [OF that] r6] by (simp add: same_on_def)
  note e3 = replace_schedule_effect [OF r3]
  note e4 = replace_tags_effect [OF r4]
  note e5 = replace_queries_effect [OF r5]
  have x: "a_ID x = a_ID alert" "a_Tags x = a_Tags alert" "a_Queries x = a_Queries alert"
    and a2': "a_ID a2 = a_ID alert" "a_Schedule a2 = a_Schedule alert"
    using a2 a3 by simp_all
  have pre_sch: "alert_schedules (tx_db s2) = alert_schedules (tx_db s)"
    using f1 [of alert_schedules] f2 [of alert_schedules]
    by (simp add: untouched_simps untouched_by_configuration_simps)
  have post_sch: "alert_schedules (tx_db s') = alert_schedules (tx_db s3)"
    using f6 [of alert_schedules] e4 e5 by (simp add: untouched_simps)
  show "alert_schedules (tx_db s') =
           (case a_Schedule alert of
              None \<Rightarrow> alert_schedules (tx_db s)
            | Some sch \<Rightarrow>
                \<lparr> rows = filter (\<lambda>r. sch_AlertID r \<noteq> a_ID alert)
                           (rows (alert_schedules (tx_db s)))
                         @ [(sch_defaults (new_schedule (a_ID alert) sch))
                              \<lparr> sch_ID := next_id (alert_schedules (tx_db s)) \<rparr>],
                  next_id = Suc (next_id (alert_schedules (tx_db s))) \<rparr>)"
    unfolding post_sch e3 a2' using pre_sch by (simp split: option.splits)
  have pre_tag: "alert_tags (tx_db s3) = alert_tags (tx_db s)"
    using f1 [of alert_tags] f2 [of alert_tags] e3
    by (simp add: untouched_simps untouched_by_configuration_simps split: option.splits)
  have post_tag: "alert_tags (tx_db s') = alert_tags (tx_db s4)"
    using f6 [of alert_tags] e5 by (simp add: untouched_simps)
  show "alert_tags (tx_db s') =
           (if a_Tags alert = [] then alert_tags (tx_db s)
            else \<lparr> rows = filter (\<lambda>r. tag_AlertID r \<noteq> a_ID alert) (rows (alert_tags (tx_db s)))
                        @ numbered (\<lambda>i r. r\<lparr> tag_ID := i \<rparr>) (next_id (alert_tags (tx_db s)))
                            (map (new_tag (a_ID alert)) (a_Tags alert)),
                   next_id = next_id (alert_tags (tx_db s)) + length (a_Tags alert) \<rparr>)"
    unfolding post_tag e4 x using pre_tag by simp
  have pre_qry: "alert_queries (tx_db s4) = alert_queries (tx_db s)"
    using f1 [of alert_queries] f2 [of alert_queries] e3 e4
    by (simp add: untouched_simps untouched_by_configuration_simps split: option.splits)
  have post_qry: "alert_queries (tx_db s') = alert_queries (tx_db s5)"
    using f6 [of alert_queries] by (simp add: untouched_simps)
  show "alert_queries (tx_db s') =
           (if a_Queries alert = [] then alert_queries (tx_db s)
            else \<lparr> rows = filter (\<lambda>r. qry_AlertID r \<noteq> a_ID alert)
                           (rows (alert_queries (tx_db s)))
                        @ numbered (\<lambda>i r. r\<lparr> qry_ID := i \<rparr>) (next_id (alert_queries (tx_db s)))
                            (map (new_query (a_ID alert)) (a_Queries alert)),
                   next_id = next_id (alert_queries (tx_db s)) + length (a_Queries alert) \<rparr>)"
    unfolding post_qry e5 x using pre_qry by simp
qed

lemma select_replaced_tags:
  "map (\<lambda>r. r\<lparr> tag_ID := 0 \<rparr>)
     (select_where (\<lambda>r. tag_AlertID r = i)
        \<lparr> rows = filter (\<lambda>r. tag_AlertID r \<noteq> i) old
                 @ numbered (\<lambda>i r. r\<lparr> tag_ID := i \<rparr>) n (map (new_tag i) ts),
          next_id = m \<rparr>)
   = map (new_tag i) ts"
proof -
  have keep: "filter (\<lambda>r. tag_AlertID r = i)
                (numbered (\<lambda>i r. r\<lparr> tag_ID := i \<rparr>) n (map (new_tag i) ts))
              = numbered (\<lambda>i r. r\<lparr> tag_ID := i \<rparr>) n (map (new_tag i) ts)"
    by (rule filter_numbered_all) (auto simp: new_tag_def)
  have erase: "map (\<lambda>r. r\<lparr> tag_ID := 0 \<rparr>)
                 (numbered (\<lambda>i r. r\<lparr> tag_ID := i \<rparr>) n (map (new_tag i) ts))
               = map (\<lambda>r. r) (map (new_tag i) ts)"
    by (rule map_numbered) (auto simp: new_tag_def)
  show ?thesis
    by (simp add: select_where_def keep erase)
qed

lemma select_replaced_queries:
  "map (\<lambda>r. r\<lparr> qry_ID := 0 \<rparr>)
     (select_where (\<lambda>r. qry_AlertID r = i)
        \<lparr> rows = filter (\<lambda>r. qry_AlertID r \<noteq> i) old
                 @ numbered (\<lambda>i r. r\<lparr> qry_ID := i \<rparr>) n (map (new_query i) qs),
          next_id = m \<rparr>)
   = map (new_query i) qs"
proof -
  have keep: "filter (\<lambda>r. qry_AlertID r = i)
                (numbered (\<lambda>i r. r\<lparr> qry_ID := i \<rparr>) n (map (new_query i) qs))
              = numbered (\<lambda>i r. r\<lparr> qry_ID := i \<rparr>) n (map (new_query i) qs)"
    by (rule filter_numbered_all) (auto simp: new_query_def)
  have erase: "map (\<lambda>r. r\<lparr> qry_ID := 0 \<rparr>)
                 (numbered (\<lambda>i r. r\<lparr> qry_ID := i \<rparr>) n (map (new_query i) qs))
               = map (\<lambda>r. r) (map (new_query i) qs)"
    by (rule map_numbered) (auto simp: new_query_def)
  show ?thesis
    by (simp add: select_where_def keep erase)
qed

lemma select_replaced_schedule:
  "map (\<lambda>r. r\<lparr> sch_ID := 0 \<rparr>)
     (select_where (\<lambda>r. sch_AlertID r = i)
        \<lparr> rows = filter (\<lambda>r. sch_AlertID r \<noteq> i) old
                 @ [(sch_defaults (new_schedule i sch))\<lparr> sch_ID := n \<rparr>],
          next_id = m \<rparr>)
   = [sch_defaults (new_schedule i sch)]"
  by (simp add: select_where_def sch_defaults_def new_schedule_def)

lemma UpdateWithTransaction_Inr:
  assumes "UpdateWithTransaction fails alert d = (Inr alert', d')"
  obtains s where "updateTx fails alert (begin_tx d) = Inr (alert', s)" and "d' = tx_db s"
  using assms unfolding UpdateWithTransaction_def Transaction_Inr by blast

lemma tx_db_begin_tx [simp]: "tx_db (begin_tx d) = d"
  by (simp add: begin_tx_def)

lemma UpdateWithTransaction_tags:
  assumes "UpdateWithTransaction fails alert d = (Inr alert', d')"
  shows "alert_tags d' =
           (if a_Tags alert = [] then alert_tags d
            else \<lparr> rows = filter (\<lambda>r. tag_AlertID r \<noteq> a_ID alert) (rows (alert_tags d))
                        @ numbered (\<lambda>i r. r\<lparr> tag_ID := i \<rparr>) (next_id (alert_tags d))
                            (map (new_tag (a_ID alert)) (a_Tags alert)),
                   next_id = next_id (alert_tags d) + length (a_Tags alert) \<rparr>)"
proof -
  from assms obtain s where b: "updateTx fails alert (begin_tx d) = Inr (alert', s)"
    and d': "d' = tx_db s" by (rule UpdateWithTransaction_Inr)
  show ?thesis unfolding d' by (rule updateTx_tables(2) [OF b, unfolded tx_db_begin_tx])
qed

lemma UpdateWithTransaction_queries:
  assumes "UpdateWithTransaction fails alert d = (Inr alert', d')"
  shows "alert_queries d' =
           (if a_Queries alert = [] then alert_queries d
            else \<lparr> rows = filter (\<lambda>r. qry_AlertID r \<noteq> a_ID alert) (rows (alert_queries d))
                        @ numbered (\<lambda>i r. r\<lparr> qry_ID := i \<rparr>) (next_id (alert_queries d))
                            (map (new_query (a_ID alert)) (a_Queries alert)),
                   next_id = next_id (alert_queries d) + length (a_Queries alert) \<rparr>)"
proof -
  from assms obtain s where b: "updateTx fails alert (begin_tx d) = Inr (alert', s)"
    and d': "d' = tx_db s" by (rule UpdateWithTransaction_Inr)
  show ?thesis unfolding d' by (rule updateTx_tables(3) [OF b, unfolded tx_db_begin_tx])
qed

lemma UpdateWithTransaction_schedules:
  assumes "UpdateWithTransaction fails alert d = (Inr alert', d')"
  shows "alert_schedules d' =
           (case a_Schedule alert of
              None \<Rightarrow> alert_schedules d
            | Some sch \<Rightarrow>
                \<lparr> rows = filter (\<lambda>r. sch_AlertID r \<noteq> a_ID alert) (rows (alert_schedules d))
                         @ [(sch_defaults (new_schedule (a_ID alert) sch))
                              \<lparr> sch_ID := next_id (alert_schedules d) \<rparr>],
                  next_id = Suc (next_id (alert_schedules d)) \<rparr>)"
proof -
  from assms obtain s where b: "updateTx fails alert (begin_tx d) = Inr (alert', s)"
    and d': "d' = tx_db s" by (rule UpdateWithTransaction_Inr)
  show ?thesis unfolding d' by (rule updateTx_tables(1) [OF b, unfolded tx_db_begin_tx])
qed

lemma UpdateWithTransaction_twice_tags:
  assumes r1: "UpdateWithTransaction fails alert d = (Inr alert', d')"
    and r2: "UpdateWithTransaction fails2 alert2 d' = (Inr a2, d2)"
    and same: "a_ID alert2 = a_ID alert" "a_Tags alert2 = a_Tags alert"
  shows "map (\<lambda>r. r\<lparr> tag_ID := 0 \<rparr>)
           (select_where (\<lambda>r. tag_AlertID r = a_ID alert) (alert_tags d2))
         = map (\<lambda>r. r\<lparr> tag_ID := 0 \<rparr>)
             (select_where (\<lambda>r. tag_AlertID r = a_ID alert) (alert_tags d'))"
proof (cases "a_Tags alert = []")
  case True
  with UpdateWithTransaction_tags [OF r2] same show ?thesis by simp
next
  case False
  have "map (\<lambda>r. r\<lparr> tag_ID := 0 \<rparr>)
           (select_where (\<lambda>r. tag_AlertID r = a_ID alert) (alert_tags d2))
        = map (new_tag (a_ID alert)) (a_Tags alert)"
    using UpdateWithTransaction_tags [OF r2] same False
    by (simp only: if_False select_replaced_tags)
  moreover have "map (\<lambda>r. r\<lparr> tag_ID := 0 \<rparr>)
           (select_where (\<lambda>r. tag_AlertID r = a_ID alert) (alert_tags d'))
        = map (new_tag (a_ID alert)) (a_Tags alert)"
    using UpdateWithTransaction_tags [OF r1] False
    by (simp only: if_False select_replaced_tags)
  ultimately show ?thesis by simp
qed

text \<open>
  Claim C5, as stated, says that every update replaces the Schedule, Tag and Query rows
  by the incoming ones. An update whose Schedule is nil and whose Tags and Queries are
  empty succeeds and leaves the alert's Schedule, Tag and Query rows in place: the rows
  read back are the ones created before, not the (empty) incoming collections.
\<close>

theorem UpdateWithTransaction_keeps_rows_on_empty_input_counterexample:
  "fst (UpdateWithTransaction no_faults rename_only sample_db) = Inr rename_only
   \<and> a_Schedule rename_only = None \<and> a_Tags rename_only = [] \<and> a_Queries rename_only = []
   \<and> map (\<lambda>r. r\<lparr> sch_ID := 0 \<rparr>)
        (select_where (\<lambda>r. sch_AlertID r = a_ID rename_only)
           (alert_schedules (snd (UpdateWithTransaction no_faults rename_only sample_db))))
       = [new_schedule 1 sample_schedule]
   \<and> map (\<lambda>r. r\<lparr> tag_ID := 0 \<rparr>)
        (select_where (\<lambda>r. tag_AlertID r = a_ID rename_only)
           (alert_tags (snd (UpdateWithTransaction no_faults rename_only sample_db))))
       = [new_tag 1 sample_tag]
   \<and> map (\<lambda>r. r\<lparr> qry_ID := 0 \<rparr>)
        (select_where (\<lambda>r. qry_AlertID r = a_ID rename_only)
           (alert_queries (snd (UpdateWithTransaction no_faults rename_only sample_db))))
       = [new_query 1 sample_query]"
  by code_simp


text \<open>
  Claim C5, amended. After a successful \<^verbatim>\<open>UpdateWithTransaction\<close>: when the input has a
  Schedule, the alert's Schedule rows are exactly one new row built from it, and without
  one the table is unchanged; when the input's Tags are not empty, the alert's Tag rows
  are exactly new rows built from them, in order, and with empty Tags the table is
  unchanged; the same for Queries. Rows of other alerts are kept. Consequently a second
  successful update of the same alert with the same Tags leaves the same Tag rows, up to
  the fresh identities of recreated rows, with no duplication.
\<close>

theorem UpdateWithTransaction_replaces:
  assumes run: "UpdateWithTransaction fails alert d = (Inr alert', d')"
  shows "alert_schedules d' =
           (case a_Schedule alert of
              None \<Rightarrow> alert_schedules d
            | Some sch \<Rightarrow>
                \<lparr> rows = filter (\<lambda>r. sch_AlertID r \<noteq> a_ID alert) (rows (alert_schedules d))
                         @ [(sch_defaults (new_schedule (a_ID alert) sch))
                              \<lparr> sch_ID := next_id (alert_schedules d) \<rparr>],
                  next_id = Suc (next_id (alert_schedules d)) \<rparr>)
    \<and> alert_tags d' =
           (if a_Tags alert = [] then alert_tags d
            else \<lparr> rows = filter (\<lambda>r. tag_AlertID r \<noteq> a_ID alert) (rows (alert_tags d))
                        @ numbered (\<lambda>i r. r\<lparr> tag_ID := i \<rparr>) (next_id (alert_tags d))
                            (map (new_tag (a_ID alert)) (a_Tags alert)),
                   next_id = next_id (alert_tags d) + length (a_Tags alert) \<rparr>)
    \<and> alert_queries d' =
           (if a_Queries alert = [] then alert_queries d
            else \<lparr> rows = filter (\<lambda>r. qry_AlertID r \<noteq> a_ID alert) (rows (alert_queries d))
                        @ numbered (\<lambda>i r. r\<lparr> qry_ID := i \<rparr>) (next_id (alert_queries d))
                            (map (new_query (a_ID alert)) (a_Queries alert)),
                   next_id = next_id (alert_queries d) + length (a_Queries alert) \<rparr>)
    \<and> (\<forall>sch. a_Schedule alert = Some sch \<longrightarrow>
          map (\<lambda>r. r\<lparr> sch_ID := 0 \<rparr>)
            (select_where (\<lambda>r. sch_AlertID r = a_ID alert) (alert_schedules d'))
          = [sch_defaults (new_schedule (a_ID alert) sch)])
    \<and> (a_Tags alert \<noteq> [] \<longrightarrow>
          map (\<lambda>r. r\<lparr> tag_ID := 0 \<rparr>)
            (select_where (\<lambda>r. tag_AlertID r = a_ID alert) (alert_tags d'))
          = map (new_tag (a_ID alert)) (a_Tags alert))
    \<and> (a_Queries alert \<noteq> [] \<longrightarrow>
          map (\<lambda>r. r\<lparr> qry_ID := 0 \<rparr>)
            (select_where (\<lambda>r. qry_AlertID r = a_ID alert) (alert_queries d'))
          = map (new_query (a_ID alert)) (a_Queries alert))
    \<and> (\<forall>fails2 alert2 a2 d2.
          UpdateWithTransaction fails2 alert2 d' = (Inr a2, d2)
          \<and> a_ID alert2 = a_ID alert \<and> a_Tags alert2 = a_Tags alert \<longrightarrow>
          map (\<lambda>r. r\<lparr> tag_ID := 0 \<rparr>)
            (select_where (\<lambda>r. tag_AlertID r = a_ID alert) (alert_tags d2))
          = map (\<lambda>r. r\<lparr> tag_ID := 0 \<rparr>)
              (select_where (\<lambda>r. tag_AlertID r = a_ID alert) (alert_tags d')))"
proof -
  note s = UpdateWithTransaction_schedules [OF run]
  note t = UpdateWithTransaction_tags [OF run]
  note q = UpdateWithTransaction_queries [OF run]
  have s': "\<forall>sch. a_Schedule alert = Some sch \<longrightarrow>
          map (\<lambda>r. r\<lparr> sch_ID := 0 \<rparr>)
            (select_where (\<lambda>r. sch_AlertID r = a_ID alert) (alert_schedules d'))
          = [sch_defaults (new_schedule (a_ID alert) sch)]"
  proof (intro allI impI)
    fix sch assume "a_Schedule alert = Some sch"
    with s show "map (\<lambda>r. r\<lparr> sch_ID := 0 \<rparr>)
            (select_where (\<lambda>r. sch_AlertID r = a_ID alert) (alert_schedules d'))
          = [sch_defaults (new_schedule (a_ID alert) sch)]"
      by (simp only: option.case select_replaced_schedule)
  qed
  have t': "a_Tags alert \<noteq> [] \<longrightarrow>
          map (\<lambda>r. r\<lparr> tag_ID := 0 \<rparr>)
            (select_where (\<lambda>r. tag_AlertID r = a_ID alert) (alert_tags d'))
          = map (new_tag (a_ID alert)) (a_Tags alert)"
    using t by (simp only: select_replaced_tags if_False simp_thms split: if_splits)
  have q': "a_Queries alert \<noteq> [] \<longrightarrow>
          map (\<lambda>r. r\<lparr> qry_ID := 0 \<rparr>)
            (select_where (\<lambda>r. qry_AlertID r = a_ID alert) (alert_queries d'))
          = map (new_query (a_ID alert)) (a_Queries alert)"
    using q by (simp only: select_replaced_queries if_False simp_thms split: if_splits)
  have twice: "\<forall>fails2 alert2 a2 d2.
          UpdateWithTransaction fails2 alert2 d' = (Inr a2, d2)
          \<and> a_ID alert2 = a_ID alert \<and> a_Tags alert2 = a_Tags alert \<longrightarrow>
          map (\<lambda>r. r\<lparr> tag_ID := 0 \<rparr>)
            (select_where (\<lambda>r. tag_AlertID r = a_ID alert) (alert_tags d2))
          = map (\<lambda>r. r\<lparr> tag_ID := 0 \<rparr>)
              (select_where (\<lambda>r. tag_AlertID r = a_ID alert) (alert_tags d'))"
    by (intro allI impI, elim conjE) (rule UpdateWithTransaction_twice_tags [OF run])
  show ?thesis by (intro conjI s t q s' t' q' twice)
qed

theorem UpdateWithTransaction_replaces_witness:
  "\<not> isl (fst (UpdateWithTransaction no_faults (sample_alert\<lparr> a_ID := 1 \<rparr>) sample_db))
   \<and> a_Tags (sample_alert\<lparr> a_ID := 1 \<rparr>) \<noteq> []
   \<and> map (\<lambda>r. r\<lparr> tag_ID := 0 \<rparr>)
        (select_where (\<lambda>r. tag_AlertID r = a_ID (sample_alert\<lparr> a_ID := 1 \<rparr>))
           (alert_tags (snd (UpdateWithTransaction no_faults (sample_alert\<lparr> a_ID := 1 \<rparr>) sample_db))))
       = map (new_tag (a_ID (sample_alert\<lparr> a_ID := 1 \<rparr>))) (a_Tags (sample_alert\<lparr> a_ID := 1 \<rparr>))
   \<and> map tag_ID (rows (alert_tags sample_db)) = [1]
   \<and> map tag_ID
        (rows (alert_tags (snd (UpdateWithTransaction no_faults (sample_alert\<lparr> a_ID := 1 \<rparr>) sample_db))))
       = [2]"
proof -
  let ?a = "sample_alert\<lparr> a_ID := 1 \<rparr>"
  let ?u = "UpdateWithTransaction no_faults ?a sample_db"
  have ok: "\<not> isl (fst ?u)" by code_simp
  have h: "?u = (Inr (projr (fst ?u)), snd ?u)"
    using ok by (simp add: prod_eq_iff)
  have ne: "a_Tags ?a \<noteq> []" by code_simp
  have i1: "map tag_ID (rows (alert_tags sample_db)) = [1]" by code_simp
  have i2: "map tag_ID (rows (alert_tags (snd ?u))) = [2]" by code_simp
  note t = UpdateWithTransaction_replaces
    [OF h, THEN conjunct2, THEN conjunct2, THEN conjunct2, THEN conjunct2, THEN conjunct1,
     THEN mp, OF ne]
  show ?thesis by (intro conjI ok ne t i1 i2)
qed

subsection \<open>The statements of a successful Create\<close>

lemma logsI: "(\<And>s x s'. m s = Inr (x, s') \<Longrightarrow> tx_log s' = tx_log s @ l) \<Longrightarrow> logs l m"
  unfolding logs_def by blast

lemma logsD: "logs l m \<Longrightarrow> m s = Inr (x, s') \<Longrightarrow> tx_log s' = tx_log s @ l"
  unfolding logs_def by blast

lemma logs_ret: "logs [] (ret x)"
  unfolding logs_def by simp

lemma logs_wrap: "logs l m \<Longrightarrow> logs l (wrap msg m)"
  unfolding logs_def by simp

lemma logs_bind:
  assumes "logs l1 m" and "\<And>x. logs l2 (f x)"
  shows "logs (l1 @ l2) (bind_tx m f)"
proof (rule logsI)
  fix s x s'
  assume "bind_tx m f s = Inr (x, s')"
  then obtain y s1 where m: "m s = Inr (y, s1)" and f: "f y s1 = Inr (x, s')"
    unfolding bind_tx_Inr by blast
  from logsD [OF assms(1) m] logsD [OF assms(2) f] show "tx_log s' = tx_log s @ l1 @ l2"
    by simp
qed

lemma logs_stmt: "logs [q] (stmt fails q f)"
  unfolding logs_def stmt_def by (simp split: if_splits sum.splits prod.splits)

lemma logs_tx_Create: "logs [INSERT (h_tbl h)] (tx_Create fails h r)"
  unfolding tx_Create_def by (rule logs_stmt)

lemma logs_tx_CreateAll: "logs [INSERT (h_tbl h)] (tx_CreateAll fails h rs)"
  unfolding tx_CreateAll_def by (rule logs_stmt)

lemma logs_tx_Updates: "logs [UPDATE (h_tbl h)] (tx_Updates fails h p f)"
  unfolding tx_Updates_def by (rule logs_stmt)

lemma logs_create_block:
  "logs (insert_if (block \<noteq> None) (h_tbl h)) (create_block fails msg h block)"
proof (cases block)
  case None
  then show ?thesis by (simp add: create_block_def insert_if_def logs_ret)
next
  case (Some b)
  have "logs ([INSERT (h_tbl h)] @ []) (create_block fails msg h (Some b))"
    unfolding create_block_def option.case
    by (intro logs_bind logs_wrap logs_tx_Create logs_ret)
  with Some show ?thesis by (simp add: insert_if_def)
qed

lemma logs_bind_run:
  assumes "logs l1 m" and "\<And>x s1 s2. m s1 = Inr (x, s2) \<Longrightarrow> logs l2 (f x)"
  shows "logs (l1 @ l2) (bind_tx m f)"
proof (rule logsI)
  fix s x s'
  assume "bind_tx m f s = Inr (x, s')"
  then obtain y s1 where m: "m s = Inr (y, s1)" and f: "f y s1 = Inr (x, s')"
    unfolding bind_tx_Inr by blast
  from logsD [OF assms(1) m] logsD [OF assms(2) [OF m] f] show "tx_log s' = tx_log s @ l1 @ l2"
    by simp
qed

lemma logs_create_block_map:
  assumes "h_tbl h = t"
  shows "logs (insert_if (block \<noteq> None) t) (create_block fails msg h (map_option f block))"
  using logs_create_block [of "map_option f block" h fails msg] assms by simp

lemma logs_create_blocks:
  "logs (insert_if (cfg_ConditionConfig oc \<noteq> None) ConditionConfigurations
         @ insert_if (cfg_GroupConfig oc \<noteq> None) GroupConfigurations
         @ insert_if (cfg_PolicyConfig oc \<noteq> None) PolicyConfigurations
         @ insert_if (cfg_TemplateConfig oc \<noteq> None) TemplateConfigurations
         @ insert_if (cfg_SinkAlerthubConfig oc \<noteq> None) SinkAlerthubConfigurations
         @ insert_if (cfg_SinkCmsConfig oc \<noteq> None) SinkCmsConfigurations
         @ insert_if (cfg_SinkEventStoreConfig oc \<noteq> None) SinkEventStoreConfigurations
         @ [])
        (create_blocks fails cid oc)"
  unfolding create_blocks_def
  by (intro logs_bind logs_ret logs_create_block_map) (simp_all add: handle_defs)

lemma logs_create_eval_conditions:
  "logs (concat (map (\<lambda>sv. insert_if (sev_EvalCondition sv \<noteq> None) ConditionConfigurations) svs))
        (create_eval_conditions fails prep cid svs)"
proof (induction svs)
  case Nil
  show ?case by (simp add: logs_ret)
next
  case (Cons sv rest)
  let ?rest = "concat (map (\<lambda>sv. insert_if (sev_EvalCondition sv \<noteq> None) ConditionConfigurations) rest)"
  have first: "logs (insert_if (sev_EvalCondition sv \<noteq> None) ConditionConfigurations)
     (case sev_EvalCondition sv of
          None \<Rightarrow> ret sv
        | Some ec \<Rightarrow>
            bind_tx (wrap ''failed to create eval condition''
                       (tx_Create fails ConditionConfigurations_h (prep ec)))
              (\<lambda>ec'. ret (sv\<lparr> sev_EvalCondition := Some ec',
                               sev_EvalConditionID := Some (cond_ID ec') \<rparr>)))"
  proof (cases "sev_EvalCondition sv")
    case None
    then show ?thesis by (simp add: insert_if_def logs_ret)
  next
    case (Some ec)
    have "logs ([INSERT (h_tbl ConditionConfigurations_h)] @ [])
            (bind_tx (wrap ''failed to create eval condition''
                       (tx_Create fails ConditionConfigurations_h (prep ec)))
              (\<lambda>ec'. ret (sv\<lparr> sev_EvalCondition := Some ec',
                               sev_EvalConditionID := Some (cond_ID ec') \<rparr>)))"
      by (intro logs_bind logs_wrap logs_tx_Create logs_ret)
    with Some show ?thesis by (simp add: insert_if_def ConditionConfigurations_h_def)
  qed
  have "logs (insert_if (sev_EvalCondition sv \<noteq> None) ConditionConfigurations @ ?rest @ [])
          (create_eval_conditions fails prep cid (sv # rest))"
    unfolding create_eval_conditions.simps
    by (intro logs_bind first Cons.IH logs_ret)
  then show ?case by simp
qed

lemma logs_create_severities:
  "logs (if svs = [] then []
         else concat (map (\<lambda>sv. insert_if (sev_EvalCondition sv \<noteq> None) ConditionConfigurations) svs)
              @ [INSERT SeverityConfigurations])
        (create_severities fails prep cid svs)"
proof (cases "svs = []")
  case True
  then show ?thesis by (simp add: create_severities_def logs_ret)
next
  case False
  have "logs (concat (map (\<lambda>sv. insert_if (sev_EvalCondition sv \<noteq> None) ConditionConfigurations) svs)
              @ [INSERT (h_tbl SeverityConfigurations_h)])
          (bind_tx (create_eval_conditions fails prep cid svs) (\<lambda>svs.
          wrap ''failed to create severity configurations''
            (tx_CreateAll fails SeverityConfigurations_h svs)))"
    by (intro logs_bind logs_create_eval_conditions logs_wrap logs_tx_CreateAll)
  with False show ?thesis
    by (simp add: create_severities_def SeverityConfigurations_h_def)
qed

lemma logs_create_joins:
  "logs (insert_if (js \<noteq> []) JoinConfigurations) (create_joins fails cid js)"
proof (cases "js = []")
  case True
  then show ?thesis by (simp add: create_joins_def insert_if_def logs_ret)
next
  case False
  have "logs [INSERT (h_tbl JoinConfigurations_h)]
          (wrap ''failed to create join configurations''
          (tx_CreateAll fails JoinConfigurations_h
             (map (\<lambda>j. j\<lparr> join_AlertConfigID := cid, join_ID := 0 \<rparr>) js)))"
    by (intro logs_wrap logs_tx_CreateAll)
  with False show ?thesis
    by (simp add: create_joins_def insert_if_def JoinConfigurations_h_def)
qed

lemma create_blocks_result:
  assumes "create_blocks fails cid oc s = Inr (oc', s')"
  shows "cfg_SeverityConfigs oc' = cfg_SeverityConfigs oc"
    and "cfg_JoinConfigs oc' = cfg_JoinConfigs oc"
    and "cfg_ID oc' = cfg_ID oc"
  using assms by (auto simp: create_blocks_def bind_tx_Inr)

lemma logs_create_configuration:
  "logs (case a_Configuration alert of None \<Rightarrow> [] | Some c \<Rightarrow> configuration_statements c)
        (create_configuration fails alert)"
proof (cases "a_Configuration alert")
  case None
  then show ?thesis by (simp add: create_configuration_def logs_ret)
next
  case (Some c)
  have blocks: "logs (insert_if (cfg_ConditionConfig c \<noteq> None) ConditionConfigurations
         @ insert_if (cfg_GroupConfig c \<noteq> None) GroupConfigurations
         @ insert_if (cfg_PolicyConfig c \<noteq> None) PolicyConfigurations
         @ insert_if (cfg_TemplateConfig c \<noteq> None) TemplateConfigurations
         @ insert_if (cfg_SinkAlerthubConfig c \<noteq> None) SinkAlerthubConfigurations
         @ insert_if (cfg_SinkCmsConfig c \<noteq> None) SinkCmsConfigurations
         @ insert_if (cfg_SinkEventStoreConfig c \<noteq> None) SinkEventStoreConfigurations
         @ [])
        (create_blocks fails n (c\<lparr> cfg_ID := n \<rparr>))" for n
    using logs_create_blocks [of "c\<lparr> cfg_ID := n \<rparr>" fails n] by simp
  have sev: "logs (if cfg_SeverityConfigs c = [] then []
         else concat (map (\<lambda>sv. insert_if (sev_EvalCondition sv \<noteq> None) ConditionConfigurations)
                (cfg_SeverityConfigs c))
              @ [INSERT SeverityConfigurations])
        (create_severities fails prep n (cfg_SeverityConfigs oc))"
    if "create_blocks fails n (c\<lparr> cfg_ID := n \<rparr>) s1 = Inr (oc, s2)" for prep n oc s1 s2
    using logs_create_severities [of "cfg_SeverityConfigs c" fails prep n]
      create_blocks_result(1) [OF that] by simp
  have joins: "logs (insert_if (cfg_JoinConfigs c \<noteq> []) JoinConfigurations)
        (create_joins fails n (cfg_JoinConfigs oc))"
    if "create_blocks fails n (c\<lparr> cfg_ID := n \<rparr>) s1 = Inr (oc, s2)" for n oc s1 s2
    using logs_create_joins [of "cfg_JoinConfigs c" fails n]
      create_blocks_result(2) [OF that] by simp
  have "logs ([INSERT (h_tbl AlertConfigurations_h)]
         @ (insert_if (cfg_ConditionConfig c \<noteq> None) ConditionConfigurations
         @ insert_if (cfg_GroupConfig c \<noteq> None) GroupConfigurations
         @ insert_if (cfg_PolicyConfig c \<noteq> None) PolicyConfigurations
         @ insert_if (cfg_TemplateConfig c \<noteq> None) TemplateConfigurations
         @ insert_if (cfg_SinkAlerthubConfig c \<noteq> None) SinkAlerthubConfigurations
         @ insert_if (cfg_SinkCmsConfig c \<noteq> None) SinkCmsConfigurations
         @ insert_if (cfg_SinkEventStoreConfig c \<noteq> None) SinkEventStoreConfigurations
         @ [])
         @ (if cfg_SeverityConfigs c = [] then []
            else concat (map (\<lambda>sv. insert_if (sev_EvalCondition sv \<noteq> None) ConditionConfigurations)
                (cfg_SeverityConfigs c))
              @ [INSERT SeverityConfigurations])
         @ insert_if (cfg_JoinConfigs c \<noteq> []) JoinConfigurations
         @ [])
        (create_configuration fails alert)"
    unfolding create_configuration_def Some option.case
    apply (rule logs_bind)
     apply (intro logs_wrap logs_tx_Create)
    apply (rule logs_bind_run)
     apply (rule blocks)
    apply (rule logs_bind)
     apply (erule sev)
    apply (rule logs_bind)
     apply (erule joins)
    apply (rule logs_ret)
    done
  then show ?thesis
    unfolding Some option.case configuration_statements_def
    by (simp add: AlertConfigurations_h_def)
qed

lemma logs_create_root: "logs [INSERT Alerts] (create_root fails alert)"
proof -
  have "logs ([INSERT (h_tbl Alerts_h)] @ []) (create_root fails alert)"
    unfolding create_root_def by (intro logs_bind logs_wrap logs_tx_Create logs_ret)
  then show ?thesis by (simp add: Alerts_h_def)
qed

lemma logs_create_schedule:
  "logs (insert_if (a_Schedule a \<noteq> None) AlertSchedules) (create_schedule fails a)"
proof (cases "a_Schedule a")
  case None
  then show ?thesis by (simp add: create_schedule_def insert_if_def logs_ret)
next
  case (Some sch)
  have "logs ([INSERT (h_tbl AlertSchedules_h)] @ []) (create_schedule fails a)"
    unfolding create_schedule_def Some option.case
    by (intro logs_bind logs_wrap logs_tx_Create logs_ret)
  with Some show ?thesis by (simp add: insert_if_def AlertSchedules_h_def)
qed

lemma logs_create_tags:
  "logs (insert_if (a_Tags a \<noteq> []) AlertTags) (create_tags fails a)"
proof (cases "a_Tags a = []")
  case True
  then show ?thesis by (simp add: create_tags_def insert_if_def logs_ret)
next
  case False
  have "logs ([INSERT (h_tbl AlertTags_h)] @ [])
          (bind_tx (wrap ''failed to create alert tags''
             (tx_CreateAll fails AlertTags_h (map (new_tag (a_ID a)) (a_Tags a))))
             (\<lambda>_. ret ()))"
    by (intro logs_bind logs_wrap logs_tx_CreateAll logs_ret)
  with False show ?thesis by (simp add: create_tags_def insert_if_def AlertTags_h_def)
qed

lemma logs_create_queries:
  "logs (insert_if (a_Queries a \<noteq> []) AlertQueries) (create_queries fails a)"
proof (cases "a_Queries a = []")
  case True
  then show ?thesis by (simp add: create_queries_def insert_if_def logs_ret)
next
  case False
  have "logs ([INSERT (h_tbl AlertQueries_h)] @ [])
          (bind_tx (wrap ''failed to create alert queries''
             (tx_CreateAll fails AlertQueries_h (map (new_query (a_ID a)) (a_Queries a))))
             (\<lambda>_. ret ()))"
    by (intro logs_bind logs_wrap logs_tx_CreateAll logs_ret)
  with False show ?thesis by (simp add: create_queries_def insert_if_def AlertQueries_h_def)
qed

lemma logs_patch_relation_ids:
  "logs (if a_ConfigurationID a \<noteq> None \<or> a_ScheduleID a \<noteq> None then [UPDATE Alerts] else [])
        (patch_relation_ids fails a)"
proof (cases "a_ConfigurationID a \<noteq> None \<or> a_ScheduleID a \<noteq> None")
  case True
  have "logs [UPDATE (h_tbl Alerts_h)]
          (wrap ''failed to update alert with relation IDs''
             (tx_Updates fails Alerts_h (\<lambda>r. a_ID r = a_ID a) (relation_ids a)))"
    by (intro logs_wrap logs_tx_Updates)
  with True show ?thesis by (simp add: patch_relation_ids_def Alerts_h_def)
next
  case False
  then show ?thesis by (simp add: patch_relation_ids_def logs_ret)
qed

subsection \<open>The rows written by each step of Create\<close>

lemma untouched_configuration_tables:
  "untouched alert_configurations ConditionConfigurations_h" "untouched alert_configurations GroupConfigurations_h"
  "untouched alert_configurations PolicyConfigurations_h" "untouched alert_configurations TemplateConfigurations_h"
  "untouched alert_configurations SinkAlerthubConfigurations_h" "untouched alert_configurations SinkCmsConfigurations_h"
  "untouched alert_configurations SinkEventStoreConfigurations_h" "untouched alert_configurations SeverityConfigurations_h"
  "untouched alert_configurations JoinConfigurations_h" "untouched severity_configurations AlertConfigurations_h"
  "untouched severity_configurations ConditionConfigurations_h" "untouched severity_configurations GroupConfigurations_h"
  "untouched severity_configurations PolicyConfigurations_h" "untouched severity_configurations TemplateConfigurations_h"
  "untouched severity_configurations SinkAlerthubConfigurations_h" "untouched severity_configurations SinkCmsConfigurations_h"
  "untouched severity_configurations SinkEventStoreConfigurations_h" "untouched severity_configurations JoinConfigurations_h"
  "untouched join_configurations AlertConfigurations_h" "untouched join_configurations ConditionConfigurations_h"
  "untouched join_configurations GroupConfigurations_h" "untouched join_configurations PolicyConfigurations_h"
  "untouched join_configurations TemplateConfigurations_h" "untouched join_configurations SinkAlerthubConfigurations_h"
  "untouched join_configurations SinkCmsConfigurations_h" "untouched join_configurations SinkEventStoreConfigurations_h"
  "untouched join_configurations SeverityConfigurations_h"
  by (simp_all add: untouched_def handle_defs)

lemma same_on_create_blocks_only:
  assumes "untouched g ConditionConfigurations_h" "untouched g GroupConfigurations_h"
    "untouched g PolicyConfigurations_h" "untouched g TemplateConfigurations_h"
    "untouched g SinkAlerthubConfigurations_h" "untouched g SinkCmsConfigurations_h"
    "untouched g SinkEventStoreConfigurations_h"
  shows "keeps (same_on g) (create_blocks fails cid config)"
  unfolding create_blocks_def
  by (intro same_on_intros same_on_create_block assms)

lemma create_root_Inr:
  assumes "create_root fails alert s = Inr (a1, s1)"
  shows "a1 = alert\<lparr> a_ID := next_id (alerts (tx_db s)) \<rparr>"
    and "tx_db s1 = (tx_db s)\<lparr> alerts :=
           \<lparr> rows = rows (alerts (tx_db s))
                    @ [(alert_row (alert_defaults (cleanAlert alert)))
                         \<lparr> a_ID := next_id (alerts (tx_db s)) \<rparr>],
             next_id = Suc (next_id (alerts (tx_db s))) \<rparr> \<rparr>"
proof -
  from assms obtain x
    where c: "tx_Create fails Alerts_h (cleanAlert alert) s = Inr (x, s1)"
      and a1: "a1 = alert\<lparr> a_ID := a_ID x \<rparr>"
    by (auto simp: create_root_def bind_tx_Inr)
  have z: "h_id Alerts_h (h_row Alerts_h (h_defaults Alerts_h (cleanAlert alert))) = 0"
    by (simp add: Alerts_h_def cleanAlert_def zero_Alert_def alert_defaults_def alert_row_def)
  have l: "\<And>i r. h_id Alerts_h (h_set_id Alerts_h i r) = i"
    by (simp add: Alerts_h_def)
  note e = tx_Create_Inr_auto [OF z l c]
  from e a1 show "a1 = alert\<lparr> a_ID := next_id (alerts (tx_db s)) \<rparr>"
    by (simp add: Alerts_h_def)
  from e show "tx_db s1 = (tx_db s)\<lparr> alerts :=
           \<lparr> rows = rows (alerts (tx_db s))
                    @ [(alert_row (alert_defaults (cleanAlert alert)))
                         \<lparr> a_ID := next_id (alerts (tx_db s)) \<rparr>],
             next_id = Suc (next_id (alerts (tx_db s))) \<rparr> \<rparr>"
    by (simp add: Alerts_h_def)
qed

lemma create_configuration_steps:
  assumes "create_configuration fails alert s = Inr (a', s')"
    and "a_Configuration alert = Some c"
  obtains created s1 oc s2 svs s3 js
  where "tx_Create fails AlertConfigurations_h (configToCreate (a_ID alert) c) s = Inr (created, s1)"
    and "create_blocks fails (cfg_ID created) (c\<lparr> cfg_ID := cfg_ID created \<rparr>) s1 = Inr (oc, s2)"
    and "create_severities fails (\<lambda>ec. ec\<lparr> cond_AlertConfigID := cfg_ID created \<rparr>)
           (cfg_ID created) (cfg_SeverityConfigs oc) s2 = Inr (svs, s3)"
    and "create_joins fails (cfg_ID created) (cfg_JoinConfigs oc) s3 = Inr (js, s')"
    and "a' = alert\<lparr> a_ConfigurationID := Some (cfg_ID created),
                  a_Configuration :=
                    Some (oc\<lparr> cfg_SeverityConfigs := svs, cfg_JoinConfigs := js \<rparr>) \<rparr>"
  using assms by (auto simp: create_configuration_def bind_tx_Inr)

lemma create_configuration_None:
  assumes "create_configuration fails alert s = Inr (a', s')"
    and "a_Configuration alert = None"
  shows "a' = alert" and "s' = s"
  using assms by (simp_all add: create_configuration_def)

lemma create_eval_conditions_result:
  assumes "create_eval_conditions fails prep cid svs s = Inr (xs, s')"
  shows "map sev_given xs = map sev_given svs
         \<and> (\<forall>x \<in> set xs. sev_AlertConfigID x = cid \<and> sev_ID x = 0
                   \<and> (sev_EvalCondition x = None \<or> sev_EvalConditionID x \<noteq> None))"
  using assms
proof (induction svs arbitrary: s xs s')
  case Nil
  then show ?case by simp
next
  case (Cons sv rest)
  from Cons.prems obtain sv' s1 rest'
    where first: "(case sev_EvalCondition sv of
          None \<Rightarrow> ret sv
        | Some ec \<Rightarrow>
            bind_tx (wrap ''failed to create eval condition''
                       (tx_Create fails ConditionConfigurations_h (prep ec)))
              (\<lambda>ec'. ret (sv\<lparr> sev_EvalCondition := Some ec',
                               sev_EvalConditionID := Some (cond_ID ec') \<rparr>))) s = Inr (sv', s1)"
      and rest: "create_eval_conditions fails prep cid rest s1 = Inr (rest', s')"
      and xs: "xs = sv'\<lparr> sev_AlertConfigID := cid, sev_ID := 0 \<rparr> # rest'"
    by (auto simp: bind_tx_Inr)
  from first have "sev_given sv' = sev_given sv
                   \<and> (sev_EvalCondition sv' = None \<or> sev_EvalConditionID sv' \<noteq> None)"
    by (cases "sev_EvalCondition sv") (auto simp: bind_tx_Inr sev_given_def)
  with Cons.IH [OF rest] xs show ?case by (auto simp: sev_given_def)
qed

lemma create_severities_effect:
  assumes "create_severities fails prep cid svs s = Inr (svs', s')"
  shows "\<exists>xs. map sev_given xs = map sev_given svs
           \<and> (\<forall>x \<in> set xs. sev_AlertConfigID x = cid \<and> sev_ID x = 0
                   \<and> (sev_EvalCondition x = None \<or> sev_EvalConditionID x \<noteq> None))
           \<and> severity_configurations (tx_db s') =
               (if svs = [] then severity_configurations (tx_db s)
                else \<lparr> rows = rows (severity_configurations (tx_db s))
                         @ numbered (\<lambda>i r. r\<lparr> sev_ID := i \<rparr>)
                             (next_id (severity_configurations (tx_db s))) (map sev_row xs),
                       next_id = next_id (severity_configurations (tx_db s)) + length svs \<rparr>)"
proof (cases "svs = []")
  case True
  with assms have "s' = s" by (simp add: create_severities_def)
  with True show ?thesis by (intro exI [of _ "[]"]) simp
next
  case False
  with assms obtain xs s1
    where ev: "create_eval_conditions fails prep cid svs s = Inr (xs, s1)"
      and ins: "tx_CreateAll fails SeverityConfigurations_h xs s1 = Inr (svs', s')"
    by (auto simp: create_severities_def bind_tx_Inr)
  note r = create_eval_conditions_result [OF ev]
  have len: "length xs = length svs"
    using r [THEN conjunct1] by (rule map_eq_imp_length_eq)
  have z: "\<forall>r \<in> set xs. h_id SeverityConfigurations_h
             (h_row SeverityConfigurations_h (h_defaults SeverityConfigurations_h r)) = 0"
    using r by (simp add: SeverityConfigurations_h_def sev_row_def)
  have same: "severity_configurations (tx_db s1) = severity_configurations (tx_db s)"
    using keepsD [OF same_on_create_eval_conditions ev, of severity_configurations]
    by (simp add: same_on_def untouched_configuration_tables)
  from tx_CreateAll_Inr_auto [OF z ins] same len False
  have "severity_configurations (tx_db s') =
               (if svs = [] then severity_configurations (tx_db s)
                else \<lparr> rows = rows (severity_configurations (tx_db s))
                         @ numbered (\<lambda>i r. r\<lparr> sev_ID := i \<rparr>)
                             (next_id (severity_configurations (tx_db s))) (map sev_row xs),
                       next_id = next_id (severity_configurations (tx_db s)) + length svs \<rparr>)"
    by (simp add: SeverityConfigurations_h_def)
  with r show ?thesis by blast
qed

lemma create_joins_effect:
  assumes "create_joins fails cid js s = Inr (js', s')"
  shows "join_configurations (tx_db s') =
           (if js = [] then join_configurations (tx_db s)
            else \<lparr> rows = rows (join_configurations (tx_db s))
                     @ numbered (\<lambda>i r. r\<lparr> join_ID := i \<rparr>)
                         (next_id (join_configurations (tx_db s)))
                         (map (\<lambda>j. j\<lparr> join_AlertConfigID := cid, join_ID := 0 \<rparr>) js),
                   next_id = next_id (join_configurations (tx_db s)) + length js \<rparr>)"
proof (cases "js = []")
  case True
  with assms show ?thesis by (simp add: create_joins_def)
next
  case False
  with assms have ins: "tx_CreateAll fails JoinConfigurations_h
             (map (\<lambda>j. j\<lparr> join_AlertConfigID := cid, join_ID := 0 \<rparr>) js) s = Inr (js', s')"
    by (simp add: create_joins_def)
  have z: "\<forall>r \<in> set (map (\<lambda>j. j\<lparr> join_AlertConfigID := cid, join_ID := 0 \<rparr>) js).
             h_id JoinConfigurations_h
               (h_row JoinConfigurations_h (h_defaults JoinConfigurations_h r)) = 0"
    by (simp add: JoinConfigurations_h_def)
  from tx_CreateAll_Inr_auto [OF z ins] False show ?thesis
    by (simp add: JoinConfigurations_h_def)
qed

lemma create_configuration_effect:
  assumes run: "create_configuration fails alert s = Inr (a', s')"
    and cfg: "a_Configuration alert = Some c"
  shows "alert_configurations (tx_db s') =
           \<lparr> rows = rows (alert_configurations (tx_db s))
                    @ [(cfg_row (cfg_defaults (configToCreate (a_ID alert) c)))
                         \<lparr> cfg_ID := next_id (alert_configurations (tx_db s)) \<rparr>],
             next_id = Suc (next_id (alert_configurations (tx_db s))) \<rparr>"
    and "a_ConfigurationID a' = Some (next_id (alert_configurations (tx_db s)))"
    and "\<exists>xs. map sev_given xs = map sev_given (cfg_SeverityConfigs c)
           \<and> (\<forall>x \<in> set xs. sev_AlertConfigID x = next_id (alert_configurations (tx_db s))
                              \<and> sev_ID x = 0
                   \<and> (sev_EvalCondition x = None \<or> sev_EvalConditionID x \<noteq> None))
           \<and> severity_configurations (tx_db s') =
               (if cfg_SeverityConfigs c = [] then severity_configurations (tx_db s)
                else \<lparr> rows = rows (severity_configurations (tx_db s))
                         @ numbered (\<lambda>i r. r\<lparr> sev_ID := i \<rparr>)
                             (next_id (severity_configurations (tx_db s))) (map sev_row xs),
                       next_id = next_id (severity_configurations (tx_db s))
                                 + length (cfg_SeverityConfigs c) \<rparr>)"
    and "join_configurations (tx_db s') =
           (if cfg_JoinConfigs c = [] then join_configurations (tx_db s)
            else \<lparr> rows = rows (join_configurations (tx_db s))
                     @ numbered (\<lambda>i r. r\<lparr> join_ID := i \<rparr>)
                         (next_id (join_configurations (tx_db s)))
                         (map (\<lambda>j. j\<lparr> join_AlertConfigID := next_id (alert_configurations (tx_db s)),
                                      join_ID := 0 \<rparr>) (cfg_JoinConfigs c)),
                   next_id = next_id (join_configurations (tx_db s))
                             + length (cfg_JoinConfigs c) \<rparr>)"
proof -
  from run cfg obtain created s1 oc s2 svs s3 js
    where r1: "tx_Create fails AlertConfigurations_h (configToCreate (a_ID alert) c) s
               = Inr (created, s1)"
      and r2: "create_blocks fails (cfg_ID created) (c\<lparr> cfg_ID := cfg_ID created \<rparr>) s1
               = Inr (oc, s2)"
      and r3: "create_severities fails (\<lambda>ec. ec\<lparr> cond_AlertConfigID := cfg_ID created \<rparr>)
                 (cfg_ID created) (cfg_SeverityConfigs oc) s2 = Inr (svs, s3)"
      and r4: "create_joins fails (cfg_ID created) (cfg_JoinConfigs oc) s3 = Inr (js, s')"
      and a': "a' = alert\<lparr> a_ConfigurationID := Some (cfg_ID created),
                  a_Configuration :=
                    Some (oc\<lparr> cfg_SeverityConfigs := svs, cfg_JoinConfigs := js \<rparr>) \<rparr>"
    by (rule create_configuration_steps)
  let ?n = "next_id (alert_configurations (tx_db s))"
  have z: "h_id AlertConfigurations_h (h_row AlertConfigurations_h
             (h_defaults AlertConfigurations_h (configToCreate (a_ID alert) c))) = 0"
    by (simp add: AlertConfigurations_h_def configToCreate_def cfg_defaults_def cfg_row_def)
  have l: "\<And>i r. h_id AlertConfigurations_h (h_set_id AlertConfigurations_h i r) = i"
    by (simp add: AlertConfigurations_h_def)
  note e1 = tx_Create_Inr_auto [OF z l r1]
  have created: "cfg_ID created = ?n"
    using e1 by (simp add: AlertConfigurations_h_def)
  have t1: "alert_configurations (tx_db s1) =
           \<lparr> rows = rows (alert_configurations (tx_db s))
                    @ [(cfg_row (cfg_defaults (configToCreate (a_ID alert) c)))\<lparr> cfg_ID := ?n \<rparr>],
             next_id = Suc ?n \<rparr>"
    using e1 by (simp add: AlertConfigurations_h_def)
  have o1: "g (tx_db s1) = g (tx_db s)" if "untouched g AlertConfigurations_h"
    for g :: "database \<Rightarrow> 'b"
    using keepsD [OF same_on_tx_Create [OF that] r1] by (simp add: same_on_def)
  have o2: "g (tx_db s2) = g (tx_db s1)"
    if "untouched g ConditionConfigurations_h" "untouched g GroupConfigurations_h"
    "untouched g PolicyConfigurations_h" "untouched g TemplateConfigurations_h"
    "untouched g SinkAlerthubConfigurations_h" "untouched g SinkCmsConfigurations_h"
    "untouched g SinkEventStoreConfigurations_h"
    for g :: "database \<Rightarrow> 'b"
    using keepsD [OF same_on_create_blocks_only [OF that] r2] by (simp add: same_on_def)
  have o3: "g (tx_db s3) = g (tx_db s2)"
    if "untouched g ConditionConfigurations_h" "untouched g SeverityConfigurations_h"
    for g :: "database \<Rightarrow> 'b"
    using keepsD [OF same_on_create_severities [OF that] r3] by (simp add: same_on_def)
  have o4: "g (tx_db s') = g (tx_db s3)" if "untouched g JoinConfigurations_h"
    for g :: "database \<Rightarrow> 'b"
    using keepsD [OF same_on_create_joins [OF that] r4] by (simp add: same_on_def)
  note oc = create_blocks_result [OF r2]
  have "alert_configurations (tx_db s') = alert_configurations (tx_db s1)"
    using o2 [of alert_configurations] o3 [of alert_configurations] o4 [of alert_configurations]
    by (simp add: untouched_configuration_tables)
  with t1 show "alert_configurations (tx_db s') =
           \<lparr> rows = rows (alert_configurations (tx_db s))
                    @ [(cfg_row (cfg_defaults (configToCreate (a_ID alert) c)))\<lparr> cfg_ID := ?n \<rparr>],
             next_id = Suc ?n \<rparr>"
    by simp
  from a' created show "a_ConfigurationID a' = Some ?n" by simp
  have pre_sev: "severity_configurations (tx_db s2) = severity_configurations (tx_db s)"
    using o1 [of severity_configurations] o2 [of severity_configurations]
    by (simp add: untouched_configuration_tables)
  have post_sev: "severity_configurations (tx_db s') = severity_configurations (tx_db s3)"
    using o4 [of severity_configurations] by (simp add: untouched_configuration_tables)
  have oc1: "cfg_SeverityConfigs oc = cfg_SeverityConfigs c"
    and oc2: "cfg_JoinConfigs oc = cfg_JoinConfigs c"
    using oc by simp_all
  from create_severities_effect [OF r3] obtain xs
    where x1: "map sev_given xs = map sev_given (cfg_SeverityConfigs oc)"
      and x2: "\<forall>x \<in> set xs. sev_AlertConfigID x = cfg_ID created \<and> sev_ID x = 0
                   \<and> (sev_EvalCondition x = None \<or> sev_EvalConditionID x \<noteq> None)"
      and x3: "severity_configurations (tx_db s3) =
               (if cfg_SeverityConfigs oc = [] then severity_configurations (tx_db s2)
                else \<lparr> rows = rows (severity_configurations (tx_db s2))
                         @ numbered (\<lambda>i r. r\<lparr> sev_ID := i \<rparr>)
                             (next_id (severity_configurations (tx_db s2))) (map sev_row xs),
                       next_id = next_id (severity_configurations (tx_db s2))
                                 + length (cfg_SeverityConfigs oc) \<rparr>)"
    by blast
  show "\<exists>xs. map sev_given xs = map sev_given (cfg_SeverityConfigs c)
           \<and> (\<forall>x \<in> set xs. sev_AlertConfigID x = ?n \<and> sev_ID x = 0
                   \<and> (sev_EvalCondition x = None \<or> sev_EvalConditionID x \<noteq> None))
           \<and> severity_configurations (tx_db s') =
               (if cfg_SeverityConfigs c = [] then severity_configurations (tx_db s)
                else \<lparr> rows = rows (severity_configurations (tx_db s))
                         @ numbered (\<lambda>i r. r\<lparr> sev_ID := i \<rparr>)
                             (next_id (severity_configurations (tx_db s))) (map sev_row xs),
                       next_id = next_id (severity_configurations (tx_db s))
                                 + length (cfg_SeverityConfigs c) \<rparr>)"
  proof (intro exI conjI)
    show "map sev_given xs = map sev_given (cfg_SeverityConfigs c)"
      using x1 oc1 by simp
    show "\<forall>x \<in> set xs. sev_AlertConfigID x = ?n \<and> sev_ID x = 0
                   \<and> (sev_EvalCondition x = None \<or> sev_EvalConditionID x \<noteq> None)"
      using x2 created by simp
    show "severity_configurations (tx_db s') =
               (if cfg_SeverityConfigs c = [] then severity_configurations (tx_db s)
                else \<lparr> rows = rows (severity_configurations (tx_db s))
                         @ numbered (\<lambda>i r. r\<lparr> sev_ID := i \<rparr>)
                             (next_id (severity_configurations (tx_db s))) (map sev_row xs),
                       next_id = next_id (severity_configurations (tx_db s))
                                 + length (cfg_SeverityConfigs c) \<rparr>)"
      unfolding post_sev x3 oc1 pre_sev by (rule refl)
  qed
  have pre_join: "join_configurations (tx_db s3) = join_configurations (tx_db s)"
    using o1 [of join_configurations] o2 [of join_configurations] o3 [of join_configurations]
    by (simp add: untouched_configuration_tables)
  from create_joins_effect [OF r4]
  show "join_configurations (tx_db s') =
           (if cfg_JoinConfigs c = [] then join_configurations (tx_db s)
            else \<lparr> rows = rows (join_configurations (tx_db s))
                     @ numbered (\<lambda>i r. r\<lparr> join_ID := i \<rparr>)
                         (next_id (join_configurations (tx_db s)))
                         (map (\<lambda>j. j\<lparr> join_AlertConfigID := ?n, join_ID := 0 \<rparr>) (cfg_JoinConfigs c)),
                   next_id = next_id (join_configurations (tx_db s))
                             + length (cfg_JoinConfigs c) \<rparr>)"
    unfolding pre_join oc2 created by simp
qed

lemma create_configuration_alert:
  assumes "create_configuration fails alert s = Inr (a', s')"
  shows "a_ID a' = a_ID alert" and "a_Schedule a' = a_Schedule alert"
    and "a_Tags a' = a_Tags alert" and "a_Queries a' = a_Queries alert"
    and "a_ScheduleID a' = a_ScheduleID alert"
    and "a_Configuration alert = None \<Longrightarrow> a_ConfigurationID a' = a_ConfigurationID alert"
  using assms
  by (cases "a_Configuration alert"; auto simp: create_configuration_def bind_tx_Inr)+

lemma create_schedule_effect:
  assumes "create_schedule fails a s = Inr (a', s')"
  shows "tx_db s' =
           (case a_Schedule a of
              None \<Rightarrow> tx_db s
            | Some sch \<Rightarrow> (tx_db s)\<lparr> alert_schedules :=
                   \<lparr> rows = rows (alert_schedules (tx_db s))
                            @ [(sch_defaults (new_schedule (a_ID a) sch))
                                 \<lparr> sch_ID := next_id (alert_schedules (tx_db s)) \<rparr>],
                     next_id = Suc (next_id (alert_schedules (tx_db s))) \<rparr> \<rparr>)"
    and "a' = (case a_Schedule a of
                 None \<Rightarrow> a
               | Some sch \<Rightarrow> a\<lparr> a_ScheduleID := Some (next_id (alert_schedules (tx_db s))) \<rparr>)"
proof -
  have "tx_db s' =
           (case a_Schedule a of
              None \<Rightarrow> tx_db s
            | Some sch \<Rightarrow> (tx_db s)\<lparr> alert_schedules :=
                   \<lparr> rows = rows (alert_schedules (tx_db s))
                            @ [(sch_defaults (new_schedule (a_ID a) sch))
                                 \<lparr> sch_ID := next_id (alert_schedules (tx_db s)) \<rparr>],
                     next_id = Suc (next_id (alert_schedules (tx_db s))) \<rparr> \<rparr>)
        \<and> a' = (case a_Schedule a of
                 None \<Rightarrow> a
               | Some sch \<Rightarrow> a\<lparr> a_ScheduleID := Some (next_id (alert_schedules (tx_db s))) \<rparr>)"
  proof (cases "a_Schedule a")
    case None
    with assms show ?thesis by (simp add: create_schedule_def)
  next
    case (Some sch)
    with assms obtain x
      where ins: "tx_Create fails AlertSchedules_h (new_schedule (a_ID a) sch) s = Inr (x, s')"
        and a': "a' = a\<lparr> a_ScheduleID := Some (sch_ID x) \<rparr>"
      by (auto simp: create_schedule_def bind_tx_Inr)
    have z: "h_id AlertSchedules_h (h_row AlertSchedules_h
               (h_defaults AlertSchedules_h (new_schedule (a_ID a) sch))) = 0"
      by (simp add: AlertSchedules_h_def new_schedule_def sch_defaults_def)
    have l: "\<And>i r. h_id AlertSchedules_h (h_set_id AlertSchedules_h i r) = i"
      by (simp add: AlertSchedules_h_def)
    from tx_Create_Inr_auto [OF z l ins] a' Some show ?thesis
      by (simp add: AlertSchedules_h_def)
  qed
  then show "tx_db s' =
           (case a_Schedule a of
              None \<Rightarrow> tx_db s
            | Some sch \<Rightarrow> (tx_db s)\<lparr> alert_schedules :=
                   \<lparr> rows = rows (alert_schedules (tx_db s))
                            @ [(sch_defaults (new_schedule (a_ID a) sch))
                                 \<lparr> sch_ID := next_id (alert_schedules (tx_db s)) \<rparr>],
                     next_id = Suc (next_id (alert_schedules (tx_db s))) \<rparr> \<rparr>)"
    and "a' = (case a_Schedule a of
                 None \<Rightarrow> a
               | Some sch \<Rightarrow> a\<lparr> a_ScheduleID := Some (next_id (alert_schedules (tx_db s))) \<rparr>)"
    by simp_all
qed

lemma create_tags_effect:
  assumes "create_tags fails a s = Inr (u, s')"
  shows "tx_db s' =
           (if a_Tags a = [] then tx_db s
            else (tx_db s)\<lparr> alert_tags :=
                   \<lparr> rows = rows (alert_tags (tx_db s))
                            @ numbered (\<lambda>i r. r\<lparr> tag_ID := i \<rparr>) (next_id (alert_tags (tx_db s)))
                                (map (new_tag (a_ID a)) (a_Tags a)),
                     next_id = next_id (alert_tags (tx_db s)) + length (a_Tags a) \<rparr> \<rparr>)"
proof (cases "a_Tags a = []")
  case True
  with assms show ?thesis by (simp add: create_tags_def)
next
  case False
  with assms obtain x
    where ins: "tx_CreateAll fails AlertTags_h (map (new_tag (a_ID a)) (a_Tags a)) s = Inr (x, s')"
    by (auto simp: create_tags_def bind_tx_Inr)
  have z: "\<forall>r \<in> set (map (new_tag (a_ID a)) (a_Tags a)).
             h_id AlertTags_h (h_row AlertTags_h (h_defaults AlertTags_h r)) = 0"
    by (simp add: AlertTags_h_def new_tag_def)
  from tx_CreateAll_Inr_auto [OF z ins] False show ?thesis
    by (simp add: AlertTags_h_def)
qed

lemma create_queries_effect:
  assumes "create_queries fails a s = Inr (u, s')"
  shows "tx_db s' =
           (if a_Queries a = [] then tx_db s
            else (tx_db s)\<lparr> alert_queries :=
                   \<lparr> rows = rows (alert_queries (tx_db s))
                            @ numbered (\<lambda>i r. r\<lparr> qry_ID := i \<rparr>) (next_id (alert_queries (tx_db s)))
                                (map (new_query (a_ID a)) (a_Queries a)),
                     next_id = next_id (alert_queries (tx_db s)) + length (a_Queries a) \<rparr> \<rparr>)"
proof (cases "a_Queries a = []")
  case True
  with assms show ?thesis by (simp add: create_queries_def)
next
  case False
  with assms obtain x
    where ins: "tx_CreateAll fails AlertQueries_h (map (new_query (a_ID a)) (a_Queries a)) s
                = Inr (x, s')"
    by (auto simp: create_queries_def bind_tx_Inr)
  have z: "\<forall>r \<in> set (map (new_query (a_ID a)) (a_Queries a)).
             h_id AlertQueries_h (h_row AlertQueries_h (h_defaults AlertQueries_h r)) = 0"
    by (simp add: AlertQueries_h_def new_query_def)
  from tx_CreateAll_Inr_auto [OF z ins] False show ?thesis
    by (simp add: AlertQueries_h_def)
qed

lemma patch_relation_ids_effect:
  assumes "patch_relation_ids fails a s = Inr (u, s')"
  shows "tx_db s' =
           (if a_ConfigurationID a \<noteq> None \<or> a_ScheduleID a \<noteq> None
            then (tx_db s)\<lparr> alerts :=
                   update_where (\<lambda>r. a_ID r = a_ID a) (relation_ids a) (alerts (tx_db s)) \<rparr>
            else tx_db s)"
  using assms
  by (auto simp: patch_relation_ids_def tx_Updates_Inr Alerts_h_def)

lemma createTx_steps:
  assumes "createTx fails alert s = Inr (alert', s')"
  obtains a1 s1 a2 s2 s3 s4 s5
  where "create_root fails alert s = Inr (a1, s1)"
    and "create_configuration fails a1 s1 = Inr (a2, s2)"
    and "create_schedule fails a2 s2 = Inr (alert', s3)"
    and "create_tags fails alert' s3 = Inr ((), s4)"
    and "create_queries fails alert' s4 = Inr ((), s5)"
    and "patch_relation_ids fails alert' s5 = Inr ((), s')"
  using assms by (auto simp: createTx_def bind_tx_Inr)

subsection \<open>The rows written by a successful Create\<close>

lemma createTx_alert:
  assumes run: "createTx fails alert s = Inr (alert', s')"
  shows "a_ID alert' = next_id (alerts (tx_db s))"
    and "a_ConfigurationID alert' =
           (case a_Configuration alert of
              None \<Rightarrow> a_ConfigurationID alert
            | Some c \<Rightarrow> Some (next_id (alert_configurations (tx_db s))))"
    and "a_ScheduleID alert' =
           (case a_Schedule alert of
              None \<Rightarrow> a_ScheduleID alert
            | Some sch \<Rightarrow> Some (next_id (alert_schedules (tx_db s))))"
proof -
  from run obtain a1 s1 a2 s2 s3 s4 s5
    where r1: "create_root fails alert s = Inr (a1, s1)"
      and r2: "create_configuration fails a1 s1 = Inr (a2, s2)"
      and r3: "create_schedule fails a2 s2 = Inr (alert', s3)"
    by (rule createTx_steps)
  note a1 = create_root_Inr(1) [OF r1]
  note a2 = create_configuration_alert [OF r2]
  note a3 = create_schedule_effect(2) [OF r3]
  have c1: "alert_configurations (tx_db s1) = alert_configurations (tx_db s)"
    using keepsD [OF same_on_create_root r1, of alert_configurations]
    by (simp add: same_on_def untouched_simps)
  have c2: "alert_schedules (tx_db s2) = alert_schedules (tx_db s)"
    using keepsD [OF same_on_create_root r1, of alert_schedules]
      keepsD [OF same_on_create_configuration r2, of alert_schedules]
    by (simp add: same_on_def untouched_simps untouched_by_configuration_simps)
  show "a_ID alert' = next_id (alerts (tx_db s))"
    using a1 a2(1) a3 by (simp split: option.splits)
  show "a_ConfigurationID alert' =
           (case a_Configuration alert of
              None \<Rightarrow> a_ConfigurationID alert
            | Some c \<Rightarrow> Some (next_id (alert_configurations (tx_db s))))"
  proof (cases "a_Configuration alert")
    case None
    with a1 have "a_Configuration a1 = None" by simp
    from a2(6) [OF this] a1 a3 None show ?thesis by (simp split: option.splits)
  next
    case (Some c)
    with a1 have "a_Configuration a1 = Some c" by simp
    from create_configuration_effect(2) [OF r2 this] c1 a3 Some show ?thesis
      by (simp split: option.splits)
  qed
  show "a_ScheduleID alert' =
           (case a_Schedule alert of
              None \<Rightarrow> a_ScheduleID alert
            | Some sch \<Rightarrow> Some (next_id (alert_schedules (tx_db s))))"
    using a1 a2(2,5) a3 c2 by (simp split: option.splits)
qed

lemma createTx_log:
  assumes run: "createTx fails alert s = Inr (alert', s')"
  shows "tx_log s' = tx_log s @ create_statements alert"
proof -
  from run obtain a1 s1 a2 s2 s3 s4 s5
    where r1: "create_root fails alert s = Inr (a1, s1)"
      and r2: "create_configuration fails a1 s1 = Inr (a2, s2)"
      and r3: "create_schedule fails a2 s2 = Inr (alert', s3)"
      and r4: "create_tags fails alert' s3 = Inr ((), s4)"
      and r5: "create_queries fails alert' s4 = Inr ((), s5)"
      and r6: "patch_relation_ids fails alert' s5 = Inr ((), s')"
    by (rule createTx_steps)
  note a1 = create_root_Inr(1) [OF r1]
  note a2 = create_configuration_alert [OF r2]
  note a3 = create_schedule_effect(2) [OF r3]
  note ids = createTx_alert(2,3) [OF run]
  have cfg: "a_Configuration a1 = a_Configuration alert" using a1 by simp
  have sch: "a_Schedule a2 = a_Schedule alert" using a1 a2(2) by simp
  have tags: "a_Tags alert' = a_Tags alert" using a1 a2(3) a3 by (simp split: option.splits)
  have qrys: "a_Queries alert' = a_Queries alert" using a1 a2(4) a3 by (simp split: option.splits)
  have patch: "(a_ConfigurationID alert' \<noteq> None \<or> a_ScheduleID alert' \<noteq> None)
               = (a_Configuration alert \<noteq> None \<or> a_ConfigurationID alert \<noteq> None
                  \<or> a_Schedule alert \<noteq> None \<or> a_ScheduleID alert \<noteq> None)"
    unfolding ids by (auto split: option.splits)
  note l1 = logsD [OF logs_create_root r1]
  note l2 = logsD [OF logs_create_configuration r2, unfolded cfg]
  note l3 = logsD [OF logs_create_schedule r3, unfolded sch]
  note l4 = logsD [OF logs_create_tags r4, unfolded tags]
  note l5 = logsD [OF logs_create_queries r5, unfolded qrys]
  note l6 = logsD [OF logs_patch_relation_ids r6, unfolded patch]
  show ?thesis
    unfolding l6 l5 l4 l3 l2 l1 create_statements_def by simp
qed

lemma createTx_tables:
  assumes run: "createTx fails alert s = Inr (alert', s')"
  shows "alerts (tx_db s') =
           (if a_ConfigurationID alert' \<noteq> None \<or> a_ScheduleID alert' \<noteq> None
            then update_where (\<lambda>r. a_ID r = a_ID alert') (relation_ids alert')
                   \<lparr> rows = rows (alerts (tx_db s))
                            @ [(alert_row (alert_defaults (cleanAlert alert)))
                                 \<lparr> a_ID := next_id (alerts (tx_db s)) \<rparr>],
                     next_id = Suc (next_id (alerts (tx_db s))) \<rparr>
            else \<lparr> rows = rows (alerts (tx_db s))
                          @ [(alert_row (alert_defaults (cleanAlert alert)))
                               \<lparr> a_ID := next_id (alerts (tx_db s)) \<rparr>],
                   next_id = Suc (next_id (alerts (tx_db s))) \<rparr>)"
    and "alert_schedules (tx_db s') =
           (case a_Schedule alert of
              None \<Rightarrow> alert_schedules (tx_db s)
            | Some sch \<Rightarrow>
                \<lparr> rows = rows (alert_schedules (tx_db s))
                         @ [(sch_defaults (new_schedule (a_ID alert') sch))
                              \<lparr> sch_ID := next_id (alert_schedules (tx_db s)) \<rparr>],
                  next_id = Suc (next_id (alert_schedules (tx_db s))) \<rparr>)"
    and "alert_tags (tx_db s') =
           (if a_Tags alert = [] then alert_tags (tx_db s)
            else \<lparr> rows = rows (alert_tags (tx_db s))
                        @ numbered (\<lambda>i r. r\<lparr> tag_ID := i \<rparr>) (next_id (alert_tags (tx_db s)))
                            (map (new_tag (a_ID alert')) (a_Tags alert)),
                   next_id = next_id (alert_tags (tx_db s)) + length (a_Tags alert) \<rparr>)"
    and "alert_queries (tx_db s') =
           (if a_Queries alert = [] then alert_queries (tx_db s)
            else \<lparr> rows = rows (alert_queries (tx_db s))
                        @ numbered (\<lambda>i r. r\<lparr> qry_ID := i \<rparr>) (next_id (alert_queries (tx_db s)))
                            (map (new_query (a_ID alert')) (a_Queries alert)),
                   next_id = next_id (alert_queries (tx_db s)) + length (a_Queries alert) \<rparr>)"
proof -
  from run obtain a1 s1 a2 s2 s3 s4 s5
    where r1: "create_root fails alert s = Inr (a1, s1)"
      and r2: "create_configuration fails a1 s1 = Inr (a2, s2)"
      and r3: "create_schedule fails a2 s2 = Inr (alert', s3)"
      and r4: "create_tags fails alert' s3 = Inr ((), s4)"
      and r5: "create_queries fails alert' s4 = Inr ((), s5)"
      and r6: "patch_relation_ids fails alert' s5 = Inr ((), s')"
    by (rule createTx_steps)
  note a1 = create_root_Inr(1) [OF r1]
  note e1 = create_root_Inr(2) [OF r1]
  note a2 = create_configuration_alert [OF r2]
  note e3 = create_schedule_effect(1) [OF r3]
  note a3 = create_schedule_effect(2) [OF r3]
  note e4 = create_tags_effect [OF r4]
  note e5 = create_queries_effect [OF r5]
  note e6 = patch_relation_ids_effect [OF r6]
  note id = createTx_alert(1) [OF run]
  have f2: "g (tx_db s2) = g (tx_db s1)" if "untouched_by_configuration g"
    for g :: "database \<Rightarrow> 'b"
    using keepsD [OF same_on_create_configuration [OF that] r2] by (simp add: same_on_def)
  have id2: "a_ID a2 = a_ID alert'" using a3 by (simp split: option.splits)
  have sch: "a_Schedule a2 = a_Schedule alert" using a1 a2(2) by simp
  have tags: "a_Tags alert' = a_Tags alert" using a1 a2(3) a3 by (simp split: option.splits)
  have qrys: "a_Queries alert' = a_Queries alert" using a1 a2(4) a3 by (simp split: option.splits)
  have pre_root: "alerts (tx_db s5) =
           \<lparr> rows = rows (alerts (tx_db s))
                    @ [(alert_row (alert_defaults (cleanAlert alert)))
                         \<lparr> a_ID := next_id (alerts (tx_db s)) \<rparr>],
             next_id = Suc (next_id (alerts (tx_db s))) \<rparr>"
    using f2 [of alerts] e1 e3 e4 e5
    by (simp add: untouched_by_configuration_simps split: option.splits)
  show "alerts (tx_db s') =
           (if a_ConfigurationID alert' \<noteq> None \<or> a_ScheduleID alert' \<noteq> None
            then update_where (\<lambda>r. a_ID r = a_ID alert') (relation_ids alert')
                   \<lparr> rows = rows (alerts (tx_db s))
                            @ [(alert_row (alert_defaults (cleanAlert alert)))
                                 \<lparr> a_ID := next_id (alerts (tx_db s)) \<rparr>],
                     next_id = Suc (next_id (alerts (tx_db s))) \<rparr>
            else \<lparr> rows = rows (alerts (tx_db s))
                          @ [(alert_row (alert_defaults (cleanAlert alert)))
                               \<lparr> a_ID := next_id (alerts (tx_db s)) \<rparr>],
                   next_id = Suc (next_id (alerts (tx_db s))) \<rparr>)"
    unfolding e6 using pre_root by simp
  have pre_sch: "alert_schedules (tx_db s2) = alert_schedules (tx_db s)"
    using f2 [of alert_schedules] e1 by (simp add: untouched_by_configuration_simps)
  have post_sch: "alert_schedules (tx_db s') = alert_schedules (tx_db s3)"
    unfolding e6 e5 e4 by simp
  show "alert_schedules (tx_db s') =
           (case a_Schedule alert of
              None \<Rightarrow> alert_schedules (tx_db s)
            | Some sch \<Rightarrow>
                \<lparr> rows = rows (alert_schedules (tx_db s))
                         @ [(sch_defaults (new_schedule (a_ID alert') sch))
                              \<lparr> sch_ID := next_id (alert_schedules (tx_db s)) \<rparr>],
                  next_id = Suc (next_id (alert_schedules (tx_db s))) \<rparr>)"
    unfolding post_sch e3 sch id2 using pre_sch by (simp split: option.splits)
  have pre_tag: "alert_tags (tx_db s3) = alert_tags (tx_db s)"
    using f2 [of alert_tags] e1 e3
    by (simp add: untouched_by_configuration_simps split: option.splits)
  have post_tag: "alert_tags (tx_db s') = alert_tags (tx_db s4)"
    unfolding e6 e5 by simp
  show "alert_tags (tx_db s') =
           (if a_Tags alert = [] then alert_tags (tx_db s)
            else \<lparr> rows = rows (alert_tags (tx_db s))
                        @ numbered (\<lambda>i r. r\<lparr> tag_ID := i \<rparr>) (next_id (alert_tags (tx_db s)))
                            (map (new_tag (a_ID alert')) (a_Tags alert)),
                   next_id = next_id (alert_tags (tx_db s)) + length (a_Tags alert) \<rparr>)"
    unfolding post_tag e4 tags using pre_tag by simp
  have pre_qry: "alert_queries (tx_db s4) = alert_queries (tx_db s)"
    using f2 [of alert_queries] e1 e3 e4
    by (simp add: untouched_by_configuration_simps split: option.splits)
  have post_qry: "alert_queries (tx_db s') = alert_queries (tx_db s5)"
    unfolding e6 by simp
  show "alert_queries (tx_db s') =
           (if a_Queries alert = [] then alert_queries (tx_db s)
            else \<lparr> rows = rows (alert_queries (tx_db s))
                        @ numbered (\<lambda>i r. r\<lparr> qry_ID := i \<rparr>) (next_id (alert_queries (tx_db s)))
                            (map (new_query (a_ID alert')) (a_Queries alert)),
                   next_id = next_id (alert_queries (tx_db s)) + length (a_Queries alert) \<rparr>)"
    unfolding post_qry e5 qrys using pre_qry by simp
qed

lemma createTx_configuration_tables:
  assumes run: "createTx fails alert s = Inr (alert', s')"
    and cfg: "a_Configuration alert = Some c"
  shows "alert_configurations (tx_db s') =
           \<lparr> rows = rows (alert_configurations (tx_db s))
                    @ [(cfg_row (cfg_defaults (configToCreate (a_ID alert') c)))
                         \<lparr> cfg_ID := next_id (alert_configurations (tx_db s)) \<rparr>],
             next_id = Suc (next_id (alert_configurations (tx_db s))) \<rparr>"
    and "\<exists>xs. map sev_given xs = map sev_given (cfg_SeverityConfigs c)
           \<and> (\<forall>x \<in> set xs. sev_AlertConfigID x = next_id (alert_configurations (tx_db s))
                              \<and> sev_ID x = 0
                   \<and> (sev_EvalCondition x = None \<or> sev_EvalConditionID x \<noteq> None))
           \<and> severity_configurations (tx_db s') =
               (if cfg_SeverityConfigs c = [] then severity_configurations (tx_db s)
                else \<lparr> rows = rows (severity_configurations (tx_db s))
                         @ numbered (\<lambda>i r. r\<lparr> sev_ID := i \<rparr>)
                             (next_id (severity_configurations (tx_db s))) (map sev_row xs),
                       next_id = next_id (severity_configurations (tx_db s))
                                 + length (cfg_SeverityConfigs c) \<rparr>)"
    and "join_configurations (tx_db s') =
           (if cfg_JoinConfigs c = [] then join_configurations (tx_db s)
            else \<lparr> rows = rows (join_configurations (tx_db s))
                     @ numbered (\<lambda>i r. r\<lparr> join_ID := i \<rparr>)
                         (next_id (join_configurations (tx_db s)))
                         (map (\<lambda>j. j\<lparr> join_AlertConfigID := next_id (alert_configurations (tx_db s)),
                                      join_ID := 0 \<rparr>) (cfg_JoinConfigs c)),
                   next_id = next_id (join_configurations (tx_db s))
                             + length (cfg_JoinConfigs c) \<rparr>)"
proof -
  from run obtain a1 s1 a2 s2 s3 s4 s5
    where r1: "create_root fails alert s = Inr (a1, s1)"
      and r2: "create_configuration fails a1 s1 = Inr (a2, s2)"
      and r3: "create_schedule fails a2 s2 = Inr (alert', s3)"
      and r4: "create_tags fails alert' s3 = Inr ((), s4)"
      and r5: "create_queries fails alert' s4 = Inr ((), s5)"
      and r6: "patch_relation_ids fails alert' s5 = Inr ((), s')"
    by (rule createTx_steps)
  note a1 = create_root_Inr(1) [OF r1]
  note e1 = create_root_Inr(2) [OF r1]
  note a2 = create_configuration_alert [OF r2]
  note e3 = create_schedule_effect(1) [OF r3]
  note a3 = create_schedule_effect(2) [OF r3]
  note e4 = create_tags_effect [OF r4]
  note e5 = create_queries_effect [OF r5]
  note e6 = patch_relation_ids_effect [OF r6]
  have cfg1: "a_Configuration a1 = Some c" using a1 cfg by simp
  have id1: "a_ID a1 = a_ID alert'" using a2(1) a3 by (simp split: option.splits)
  note e2 = create_configuration_effect [OF r2 cfg1, unfolded id1]
  have pre: "alert_configurations (tx_db s1) = alert_configurations (tx_db s)"
    "severity_configurations (tx_db s1) = severity_configurations (tx_db s)"
    "join_configurations (tx_db s1) = join_configurations (tx_db s)"
    unfolding e1 by simp_all
  have post: "alert_configurations (tx_db s') = alert_configurations (tx_db s2)"
    "severity_configurations (tx_db s') = severity_configurations (tx_db s2)"
    "join_configurations (tx_db s') = join_configurations (tx_db s2)"
    unfolding e6 e5 e4 e3 by (simp_all split: option.splits)
  show "alert_configurations (tx_db s') =
           \<lparr> rows = rows (alert_configurations (tx_db s))
                    @ [(cfg_row (cfg_defaults (configToCreate (a_ID alert') c)))
                         \<lparr> cfg_ID := next_id (alert_configurations (tx_db s)) \<rparr>],
             next_id = Suc (next_id (alert_configurations (tx_db s))) \<rparr>"
    unfolding post e2(1) pre by (rule refl)
  show "\<exists>xs. map sev_given xs = map sev_given (cfg_SeverityConfigs c)
           \<and> (\<forall>x \<in> set xs. sev_AlertConfigID x = next_id (alert_configurations (tx_db s))
                              \<and> sev_ID x = 0
                   \<and> (sev_EvalCondition x = None \<or> sev_EvalConditionID x \<noteq> None))
           \<and> severity_configurations (tx_db s') =
               (if cfg_SeverityConfigs c = [] then severity_configurations (tx_db s)
                else \<lparr> rows = rows (severity_configurations (tx_db s))
                         @ numbered (\<lambda>i r. r\<lparr> sev_ID := i \<rparr>)
                             (next_id (severity_configurations (tx_db s))) (map sev_row xs),
                       next_id = next_id (severity_configurations (tx_db s))
                                 + length (cfg_SeverityConfigs c) \<rparr>)"
    using e2(3) unfolding post pre .
  show "join_configurations (tx_db s') =
           (if cfg_JoinConfigs c = [] then join_configurations (tx_db s)
            else \<lparr> rows = rows (join_configurations (tx_db s))
                     @ numbered (\<lambda>i r. r\<lparr> join_ID := i \<rparr>)
                         (next_id (join_configurations (tx_db s)))
                         (map (\<lambda>j. j\<lparr> join_AlertConfigID := next_id (alert_configurations (tx_db s)),
                                      join_ID := 0 \<rparr>) (cfg_JoinConfigs c)),
                   next_id = next_id (join_configurations (tx_db s))
                             + length (cfg_JoinConfigs c) \<rparr>)"
    using e2(4) unfolding post pre .
qed

subsection \<open>Create leaves the block keys of the Configuration row unset\<close>

lemma CreateWithTransaction_Inr:
  assumes "CreateWithTransaction fails alert d = (Inr alert', d')"
  obtains s where "createTx fails alert (begin_tx d) = Inr (alert', s)" and "d' = tx_db s"
  using assms unfolding CreateWithTransaction_def Transaction_Inr by blast

lemma tx_log_begin_tx [simp]: "tx_log (begin_tx d) = []"
  by (simp add: begin_tx_def)

text \<open>
  Claim C2 says that Create persists the blocks first and then the Configuration row with
  the identities of the blocks in its foreign-key columns. \<^verbatim>\<open>recreateConfiguration\<close> does so,
  the upserts of \<^verbatim>\<open>updateConfiguration\<close> read those columns to find the block to update, and
  \<^verbatim>\<open>GetByID\<close> preloads the blocks through them. \<^verbatim>\<open>CreateWithTransaction\<close> inserts the
  Configuration row second, before the blocks, and never writes the identities of the
  blocks into it. On the sample aggregate, which holds a Condition block and an Alerthub
  sink: the statements are issued in the order below; the block rows exist (identities 1
  and 1, the eval condition is Condition row 2); the Configuration row has no identity in
  \<^verbatim>\<open>condition_config_id\<close> and \<^verbatim>\<open>sink_alerthub_config_id\<close>; \<^verbatim>\<open>GetByID\<close> of the new alert returns
  a Configuration without its Condition block. The same aggregate persisted through
  \<^verbatim>\<open>recreateConfiguration\<close> (an update on the empty store) has both columns set, and an
  update after the Create does not find the Alerthub row and inserts a second one.
\<close>

theorem CreateWithTransaction_leaves_block_keys_unset:
  "\<not> isl (fst (CreateWithTransaction no_faults sample_alert empty_db))
   \<and> tx_log (snd (projr (createTx no_faults sample_alert (begin_tx empty_db))))
       = [INSERT Alerts, INSERT AlertConfigurations, INSERT ConditionConfigurations,
          INSERT SinkAlerthubConfigurations, INSERT ConditionConfigurations,
          INSERT SeverityConfigurations, INSERT JoinConfigurations,
          INSERT AlertSchedules, INSERT AlertTags, INSERT AlertQueries, UPDATE Alerts]
   \<and> map_option cond_Condition (cfg_ConditionConfig sample_configuration) = Some (Some ''cnt > 0'')
   \<and> cfg_SinkAlerthubConfig sample_configuration \<noteq> None
   \<and> map (\<lambda>r. (cond_ID r, cond_Condition r)) (rows (condition_configurations
         (snd (CreateWithTransaction no_faults sample_alert empty_db))))
       = [(1, Some ''cnt > 0''), (2, Some ''x > 1'')]
   \<and> map hub_ID (rows (sink_alerthub_configurations
         (snd (CreateWithTransaction no_faults sample_alert empty_db)))) = [1]
   \<and> map (\<lambda>r. (cfg_ID r, cfg_ConditionConfigID r, cfg_SinkAlerthubConfigID r))
        (rows (alert_configurations (snd (CreateWithTransaction no_faults sample_alert empty_db))))
       = [(1, None, None)]
   \<and> map_sum id (\<lambda>a. map_option cfg_ConditionConfig (a_Configuration a))
        (GetByID (snd (CreateWithTransaction no_faults sample_alert empty_db)) 1)
       = Inr (Some None)
   \<and> map (\<lambda>r. (cfg_ID r, cfg_ConditionConfigID r, cfg_SinkAlerthubConfigID r))
        (rows (alert_configurations
           (snd (UpdateWithTransaction no_faults (sample_alert\<lparr> a_ID := 1 \<rparr>) empty_db))))
       = [(1, Some 1, Some 1)]
   \<and> map hub_ID (rows (sink_alerthub_configurations
         (snd (UpdateWithTransaction no_faults (sample_alert\<lparr> a_ID := 1 \<rparr>)
                (snd (CreateWithTransaction no_faults sample_alert empty_db)))))) = [1, 2]"
  by code_simp

subsection \<open>Runs of Create under a refusing engine\<close>

lemma blame_append:
  "blame fails n (a @ b) =
     (case blame fails n a of None \<Rightarrow> blame fails (n + length a) b | Some msg \<Rightarrow> Some msg)"
  by (induction a arbitrary: n) (simp_all split: option.splits)

lemma faultyI:
  assumes "\<And>fails s e. M no_faults s = Inl e \<Longrightarrow> isl (M fails s)"
    and "\<And>fails s x s0. M no_faults s = Inr (x, s0) \<Longrightarrow>
           length (tx_log s0) = length (tx_log s) + length msgs
           \<and> M fails s =
                (case blame fails (length (tx_log s)) msgs of
                   None \<Rightarrow> Inr (x, s0)
                 | Some msg \<Rightarrow> Inl (Wrapped msg ErrEngine))"
  shows "faulty msgs M"
  unfolding faulty_def
proof (intro allI)
  fix fails s
  show "case M no_faults s of
          Inl e \<Rightarrow> isl (M fails s)
        | Inr (x, s0) \<Rightarrow>
            length (tx_log s0) = length (tx_log s) + length msgs
            \<and> M fails s =
                (case blame fails (length (tx_log s)) msgs of
                   None \<Rightarrow> Inr (x, s0)
                 | Some msg \<Rightarrow> Inl (Wrapped msg ErrEngine))"
  proof (cases "M no_faults s")
    case (Inl e)
    with assms(1) show ?thesis by simp
  next
    case (Inr r)
    obtain x s0 where r: "r = (x, s0)" by (cases r)
    from assms(2) [of s x s0 fails] Inr r show ?thesis by simp
  qed
qed

lemma faulty_Inl:
  assumes "faulty msgs M" and "M no_faults s = Inl e"
  shows "isl (M fails s)"
  using assms(1) [unfolded faulty_def, rule_format, of fails s] assms(2) by simp

lemma faulty_Inr:
  assumes "faulty msgs M" and "M no_faults s = Inr (x, s0)"
  shows "length (tx_log s0) = length (tx_log s) + length msgs"
    and "M fails s =
           (case blame fails (length (tx_log s)) msgs of
              None \<Rightarrow> Inr (x, s0)
            | Some msg \<Rightarrow> Inl (Wrapped msg ErrEngine))"
  using assms(1) [unfolded faulty_def, rule_format, of fails s] assms(2) by simp_all

lemma faulty_ret: "faulty [] (\<lambda>fails. ret x)"
  by (rule faultyI) (simp_all add: ret_def)

lemma faulty_stmt: "faulty [msg] (\<lambda>fails. wrap msg (stmt fails q f))"
proof (rule faultyI)
  fix fails s e
  assume "wrap msg (stmt no_faults q f) s = Inl e"
  then show "isl (wrap msg (stmt fails q f) s)"
    by (cases "f (tx_db s)") (auto simp: wrap_def stmt_def no_faults_def split: if_splits)
next
  fix fails s x s0
  assume "wrap msg (stmt no_faults q f) s = Inr (x, s0)"
  then show "length (tx_log s0) = length (tx_log s) + length [msg]
           \<and> wrap msg (stmt fails q f) s =
                (case blame fails (length (tx_log s)) [msg] of
                   None \<Rightarrow> Inr (x, s0)
                 | Some msg \<Rightarrow> Inl (Wrapped msg ErrEngine))"
    by (cases "f (tx_db s)") (auto simp: wrap_def stmt_def no_faults_def split: if_splits)
qed

lemma faulty_bind:
  assumes A: "faulty ms1 A"
    and B: "\<And>x s s'. A no_faults s = Inr (x, s') \<Longrightarrow> faulty ms2 (\<lambda>fails. B fails x)"
  shows "faulty (ms1 @ ms2) (\<lambda>fails. bind_tx (A fails) (B fails))"
proof (rule faultyI)
  fix fails s e
  assume nf: "bind_tx (A no_faults) (B no_faults) s = Inl e"
  show "isl (bind_tx (A fails) (B fails) s)"
  proof (cases "A no_faults s")
    case (Inl e1)
    from faulty_Inl [OF A Inl, of fails] show ?thesis
      by (cases "A fails s") (simp_all add: bind_tx_def)
  next
    case (Inr r)
    obtain x s1 where r: "r = (x, s1)" by (cases r)
    with Inr have a: "A no_faults s = Inr (x, s1)" by simp
    with nf have b: "B no_faults x s1 = Inl e" by (simp add: bind_tx_def)
    note fa = faulty_Inr(2) [OF A a, of fails]
    note fb = faulty_Inl [OF B [OF a] b, of fails]
    show ?thesis
    proof (cases "blame fails (length (tx_log s)) ms1")
      case None
      with fa have "A fails s = Inr (x, s1)" by simp
      with fb show ?thesis by (simp add: bind_tx_def)
    next
      case (Some m)
      with fa show ?thesis by (simp add: bind_tx_def)
    qed
  qed
next
  fix fails s y s2
  assume nf: "bind_tx (A no_faults) (B no_faults) s = Inr (y, s2)"
  then obtain x s1 where a: "A no_faults s = Inr (x, s1)" and b: "B no_faults x s1 = Inr (y, s2)"
    unfolding bind_tx_Inr by blast
  note la = faulty_Inr(1) [OF A a]
  note fa = faulty_Inr(2) [OF A a, of fails]
  note lb = faulty_Inr(1) [OF B [OF a] b]
  note fb = faulty_Inr(2) [OF B [OF a] b, of fails]
  have len: "length (tx_log s2) = length (tx_log s) + length (ms1 @ ms2)"
    using la lb by simp
  have run: "bind_tx (A fails) (B fails) s =
                (case blame fails (length (tx_log s)) (ms1 @ ms2) of
                   None \<Rightarrow> Inr (y, s2)
                 | Some msg \<Rightarrow> Inl (Wrapped msg ErrEngine))"
  proof (cases "blame fails (length (tx_log s)) ms1")
    case None
    with fa have "A fails s = Inr (x, s1)" by simp
    then have "bind_tx (A fails) (B fails) s = B fails x s1" by (simp add: bind_tx_def)
    with fb None la show ?thesis by (simp add: blame_append)
  next
    case (Some m)
    with fa have "A fails s = Inl (Wrapped m ErrEngine)" by simp
    then have "bind_tx (A fails) (B fails) s = Inl (Wrapped m ErrEngine)"
      by (simp add: bind_tx_def)
    with Some show ?thesis by (simp add: blame_append)
  qed
  from len run show "length (tx_log s2) = length (tx_log s) + length (ms1 @ ms2)
           \<and> bind_tx (A fails) (B fails) s =
                (case blame fails (length (tx_log s)) (ms1 @ ms2) of
                   None \<Rightarrow> Inr (y, s2)
                 | Some msg \<Rightarrow> Inl (Wrapped msg ErrEngine))"
    by (rule conjI)
qed

lemma faulty_tx_Create: "faulty [msg] (\<lambda>fails. wrap msg (tx_Create fails h r))"
  unfolding tx_Create_def by (rule faulty_stmt)

lemma faulty_tx_CreateAll: "faulty [msg] (\<lambda>fails. wrap msg (tx_CreateAll fails h rs))"
  unfolding tx_CreateAll_def by (rule faulty_stmt)

lemma faulty_tx_Updates: "faulty [msg] (\<lambda>fails. wrap msg (tx_Updates fails h p f))"
  unfolding tx_Updates_def by (rule faulty_stmt)

lemma faulty_create_root:
  "faulty [''failed to create alert''] (\<lambda>fails. create_root fails alert)"
proof -
  have "faulty ([''failed to create alert''] @ []) (\<lambda>fails. create_root fails alert)"
    unfolding create_root_def by (intro faulty_bind faulty_tx_Create faulty_ret)
  then show ?thesis by simp
qed

lemma faulty_create_block:
  "faulty (message_if (block \<noteq> None) msg) (\<lambda>fails. create_block fails msg h block)"
proof (cases block)
  case None
  then show ?thesis by (simp add: create_block_def message_if_def faulty_ret)
next
  case (Some b)
  have "faulty ([msg] @ []) (\<lambda>fails. create_block fails msg h (Some b))"
    unfolding create_block_def option.case
    by (intro faulty_bind faulty_tx_Create faulty_ret)
  with Some show ?thesis by (simp add: message_if_def)
qed

lemma faulty_create_block_map:
  "faulty (message_if (block \<noteq> None) msg)
     (\<lambda>fails. create_block fails msg h (map_option f block))"
  using faulty_create_block [of "map_option f block" msg h] by simp

lemma faulty_create_blocks:
  "faulty (message_if (cfg_ConditionConfig oc \<noteq> None) ''failed to create condition configuration''
     @ message_if (cfg_GroupConfig oc \<noteq> None) ''failed to create group configuration''
     @ message_if (cfg_PolicyConfig oc \<noteq> None) ''failed to create policy configuration''
     @ message_if (cfg_TemplateConfig oc \<noteq> None) ''failed to create template configuration''
     @ message_if (cfg_SinkAlerthubConfig oc \<noteq> None) ''failed to create sink alerthub configuration''
     @ message_if (cfg_SinkCmsConfig oc \<noteq> None) ''failed to create sink cms configuration''
     @ message_if (cfg_SinkEventStoreConfig oc \<noteq> None)
         ''failed to create sink event store configuration''
     @ [])
     (\<lambda>fails. create_blocks fails cid oc)"
  unfolding create_blocks_def
  by (intro faulty_bind faulty_ret faulty_create_block_map)

lemma faulty_create_eval_conditions:
  "faulty (concat (map (\<lambda>sv. message_if (sev_EvalCondition sv \<noteq> None)
                                ''failed to create eval condition'') svs))
     (\<lambda>fails. create_eval_conditions fails prep cid svs)"
proof (induction svs)
  case Nil
  show ?case by (simp add: faulty_ret)
next
  case (Cons sv rest)
  let ?rest = "concat (map (\<lambda>sv. message_if (sev_EvalCondition sv \<noteq> None)
                                ''failed to create eval condition'') rest)"
  have first: "faulty (message_if (sev_EvalCondition sv \<noteq> None) ''failed to create eval condition'')
     (\<lambda>fails. case sev_EvalCondition sv of
          None \<Rightarrow> ret sv
        | Some ec \<Rightarrow>
            bind_tx (wrap ''failed to create eval condition''
                       (tx_Create fails ConditionConfigurations_h (prep ec)))
              (\<lambda>ec'. ret (sv\<lparr> sev_EvalCondition := Some ec',
                               sev_EvalConditionID := Some (cond_ID ec') \<rparr>)))"
  proof (cases "sev_EvalCondition sv")
    case None
    then show ?thesis by (simp add: message_if_def faulty_ret)
  next
    case (Some ec)
    have "faulty ([''failed to create eval condition''] @ [])
            (\<lambda>fails. bind_tx (wrap ''failed to create eval condition''
                       (tx_Create fails ConditionConfigurations_h (prep ec)))
              (\<lambda>ec'. ret (sv\<lparr> sev_EvalCondition := Some ec',
                               sev_EvalConditionID := Some (cond_ID ec') \<rparr>)))"
      by (intro faulty_bind faulty_tx_Create faulty_ret)
    with Some show ?thesis by (simp add: message_if_def)
  qed
  have "faulty (message_if (sev_EvalCondition sv \<noteq> None) ''failed to create eval condition''
                @ ?rest @ [])
          (\<lambda>fails. create_eval_conditions fails prep cid (sv # rest))"
    unfolding create_eval_conditions.simps
    by (intro faulty_bind first Cons.IH faulty_ret)
  then show ?case by simp
qed

lemma faulty_create_severities:
  "faulty (if svs = [] then []
           else concat (map (\<lambda>sv. message_if (sev_EvalCondition sv \<noteq> None)
                                     ''failed to create eval condition'') svs)
                @ [''failed to create severity configurations''])
     (\<lambda>fails. create_severities fails prep cid svs)"
proof (cases "svs = []")
  case True
  then show ?thesis by (simp add: create_severities_def faulty_ret)
next
  case False
  have "faulty (concat (map (\<lambda>sv. message_if (sev_EvalCondition sv \<noteq> None)
                                     ''failed to create eval condition'') svs)
                @ [''failed to create severity configurations''])
          (\<lambda>fails. bind_tx (create_eval_conditions fails prep cid svs) (\<lambda>svs.
             wrap ''failed to create severity configurations''
               (tx_CreateAll fails SeverityConfigurations_h svs)))"
    by (intro faulty_bind faulty_create_eval_conditions faulty_tx_CreateAll)
  with False show ?thesis by (simp add: create_severities_def)
qed

lemma faulty_create_joins:
  "faulty (message_if (js \<noteq> []) ''failed to create join configurations'')
     (\<lambda>fails. create_joins fails cid js)"
proof (cases "js = []")
  case True
  then show ?thesis by (simp add: create_joins_def message_if_def faulty_ret)
next
  case False
  have "faulty [''failed to create join configurations'']
          (\<lambda>fails. wrap ''failed to create join configurations''
             (tx_CreateAll fails JoinConfigurations_h
                (map (\<lambda>j. j\<lparr> join_AlertConfigID := cid, join_ID := 0 \<rparr>) js)))"
    by (rule faulty_tx_CreateAll)
  with False show ?thesis by (simp add: create_joins_def message_if_def)
qed

lemma faulty_create_configuration:
  "faulty (case a_Configuration alert of None \<Rightarrow> [] | Some c \<Rightarrow> configuration_messages c)
     (\<lambda>fails. create_configuration fails alert)"
proof (cases "a_Configuration alert")
  case None
  then show ?thesis by (simp add: create_configuration_def faulty_ret)
next
  case (Some c)
  have blocks: "faulty
        (message_if (cfg_ConditionConfig c \<noteq> None) ''failed to create condition configuration''
         @ message_if (cfg_GroupConfig c \<noteq> None) ''failed to create group configuration''
         @ message_if (cfg_PolicyConfig c \<noteq> None) ''failed to create policy configuration''
         @ message_if (cfg_TemplateConfig c \<noteq> None) ''failed to create template configuration''
         @ message_if (cfg_SinkAlerthubConfig c \<noteq> None) ''failed to create sink alerthub configuration''
         @ message_if (cfg_SinkCmsConfig c \<noteq> None) ''failed to create sink cms configuration''
         @ message_if (cfg_SinkEventStoreConfig c \<noteq> None)
             ''failed to create sink event store configuration''
         @ [])
        (\<lambda>fails. create_blocks fails n (c\<lparr> cfg_ID := n \<rparr>))" for n
    using faulty_create_blocks [of "c\<lparr> cfg_ID := n \<rparr>" n] by simp
  have sev: "faulty (if cfg_SeverityConfigs c = [] then []
           else concat (map (\<lambda>sv. message_if (sev_EvalCondition sv \<noteq> None)
                                     ''failed to create eval condition'') (cfg_SeverityConfigs c))
                @ [''failed to create severity configurations''])
        (\<lambda>fails. create_severities fails prep n (cfg_SeverityConfigs oc))"
    if "create_blocks no_faults n (c\<lparr> cfg_ID := n \<rparr>) s1 = Inr (oc, s2)" for prep n oc s1 s2
    using faulty_create_severities [of "cfg_SeverityConfigs c" prep n]
      create_blocks_result(1) [OF that] by simp
  have joins: "faulty (message_if (cfg_JoinConfigs c \<noteq> []) ''failed to create join configurations'')
        (\<lambda>fails. create_joins fails n (cfg_JoinConfigs oc))"
    if "create_blocks no_faults n (c\<lparr> cfg_ID := n \<rparr>) s1 = Inr (oc, s2)" for n oc s1 s2
    using faulty_create_joins [of "cfg_JoinConfigs c" n]
      create_blocks_result(2) [OF that] by simp
  have "faulty ([''failed to create alert configuration'']
         @ (message_if (cfg_ConditionConfig c \<noteq> None) ''failed to create condition configuration''
         @ message_if (cfg_GroupConfig c \<noteq> None) ''failed to create group configuration''
         @ message_if (cfg_PolicyConfig c \<noteq> None) ''failed to create policy configuration''
         @ message_if (cfg_TemplateConfig c \<noteq> None) ''failed to create template configuration''
         @ message_if (cfg_SinkAlerthubConfig c \<noteq> None) ''failed to create sink alerthub configuration''
         @ message_if (cfg_SinkCmsConfig c \<noteq> None) ''failed to create sink cms configuration''
         @ message_if (cfg_SinkEventStoreConfig c \<noteq> None)
             ''failed to create sink event store configuration''
         @ [])
         @ (if cfg_SeverityConfigs c = [] then []
            else concat (map (\<lambda>sv. message_if (sev_EvalCondition sv \<noteq> None)
                                     ''failed to create eval condition'') (cfg_SeverityConfigs c))
                @ [''failed to create severity configurations''])
         @ message_if (cfg_JoinConfigs c \<noteq> []) ''failed to create join configurations''
         @ [])
        (\<lambda>fails. create_configuration fails alert)"
    unfolding create_configuration_def Some option.case
    apply (rule faulty_bind)
     apply (rule faulty_tx_Create)
    apply (rule faulty_bind)
     apply (rule blocks)
    apply (rule faulty_bind)
     apply (erule sev)
    apply (rule faulty_bind)
     apply (erule joins)
    apply (rule faulty_ret)
    done
  then show ?thesis
    unfolding Some option.case configuration_messages_def by simp
qed

lemma faulty_create_schedule:
  "faulty (message_if (a_Schedule a \<noteq> None) ''failed to create alert schedule'')
     (\<lambda>fails. create_schedule fails a)"
proof (cases "a_Schedule a")
  case None
  then show ?thesis by (simp add: create_schedule_def message_if_def faulty_ret)
next
  case (Some sch)
  have "faulty ([''failed to create alert schedule''] @ []) (\<lambda>fails. create_schedule fails a)"
    unfolding create_schedule_def Some option.case
    by (intro faulty_bind faulty_tx_Create faulty_ret)
  with Some show ?thesis by (simp add: message_if_def)
qed

lemma faulty_create_tags:
  "faulty (message_if (a_Tags a \<noteq> []) ''failed to create alert tags'')
     (\<lambda>fails. create_tags fails a)"
proof (cases "a_Tags a = []")
  case True
  then show ?thesis by (simp add: create_tags_def message_if_def faulty_ret)
next
  case False
  have "faulty ([''failed to create alert tags''] @ [])
          (\<lambda>fails. bind_tx (wrap ''failed to create alert tags''
             (tx_CreateAll fails AlertTags_h (map (new_tag (a_ID a)) (a_Tags a))))
             (\<lambda>_. ret ()))"
    by (intro faulty_bind faulty_tx_CreateAll faulty_ret)
  with False show ?thesis by (simp add: create_tags_def message_if_def)
qed

lemma faulty_create_queries:
  "faulty (message_if (a_Queries a \<noteq> []) ''failed to create alert queries'')
     (\<lambda>fails. create_queries fails a)"
proof (cases "a_Queries a = []")
  case True
  then show ?thesis by (simp add: create_queries_def message_if_def faulty_ret)
next
  case False
  have "faulty ([''failed to create alert queries''] @ [])
          (\<lambda>fails. bind_tx (wrap ''failed to create alert queries''
             (tx_CreateAll fails AlertQueries_h (map (new_query (a_ID a)) (a_Queries a))))
             (\<lambda>_. ret ()))"
    by (intro faulty_bind faulty_tx_CreateAll faulty_ret)
  with False show ?thesis by (simp add: create_queries_def message_if_def)
qed

lemma faulty_patch_relation_ids:
  "faulty (message_if (a_ConfigurationID a \<noteq> None \<or> a_ScheduleID a \<noteq> None)
             ''failed to update alert with relation IDs'')
     (\<lambda>fails. patch_relation_ids fails a)"
proof (cases "a_ConfigurationID a \<noteq> None \<or> a_ScheduleID a \<noteq> None")
  case True
  have "faulty [''failed to update alert with relation IDs'']
          (\<lambda>fails. wrap ''failed to update alert with relation IDs''
             (tx_Updates fails Alerts_h (\<lambda>r. a_ID r = a_ID a) (relation_ids a)))"
    by (rule faulty_tx_Updates)
  with True show ?thesis by (simp add: patch_relation_ids_def message_if_def)
next
  case False
  then show ?thesis by (simp add: patch_relation_ids_def message_if_def faulty_ret)
qed

lemma create_root_alert:
  assumes "create_root fails alert s = Inr (a1, s1)"
  shows "a_Configuration a1 = a_Configuration alert" and "a_Schedule a1 = a_Schedule alert"
    and "a_Tags a1 = a_Tags alert" and "a_Queries a1 = a_Queries alert"
    and "a_ConfigurationID a1 = a_ConfigurationID alert"
    and "a_ScheduleID a1 = a_ScheduleID alert"
  using create_root_Inr(1) [OF assms] by simp_all

lemma create_configuration_id:
  assumes "create_configuration fails alert s = Inr (a', s')"
  shows "(a_ConfigurationID a' \<noteq> None)
         = (a_Configuration alert \<noteq> None \<or> a_ConfigurationID alert \<noteq> None)"
  using assms
  by (cases "a_Configuration alert") (auto simp: create_configuration_def bind_tx_Inr)

lemma create_schedule_alert:
  assumes "create_schedule fails a s = Inr (a', s')"
  shows "a_Tags a' = a_Tags a" and "a_Queries a' = a_Queries a"
    and "a_ConfigurationID a' = a_ConfigurationID a"
    and "(a_ScheduleID a' \<noteq> None) = (a_Schedule a \<noteq> None \<or> a_ScheduleID a \<noteq> None)"
  using create_schedule_effect(2) [OF assms] by (simp_all split: option.splits)

lemma faulty_createTx: "faulty (create_messages alert) (\<lambda>fails. createTx fails alert)"
proof -
  have cfg: "faulty (case a_Configuration alert of None \<Rightarrow> []
                     | Some c \<Rightarrow> configuration_messages c)
               (\<lambda>fails. create_configuration fails a1)"
    if "create_root no_faults alert s = Inr (a1, s1)" for a1 s s1
    using faulty_create_configuration [of a1] create_root_alert(1) [OF that] by simp
  have sch: "faulty (message_if (a_Schedule alert \<noteq> None) ''failed to create alert schedule'')
               (\<lambda>fails. create_schedule fails a2)"
    if "create_root no_faults alert s = Inr (a1, s1)"
      and "create_configuration no_faults a1 s1' = Inr (a2, s2)" for a1 s s1 s1' a2 s2
    using faulty_create_schedule [of a2] create_root_alert(2) [OF that(1)]
      create_configuration_alert(2) [OF that(2)] by simp
  have tags: "faulty (message_if (a_Tags alert \<noteq> []) ''failed to create alert tags'')
               (\<lambda>fails. create_tags fails a3)"
    if "create_root no_faults alert s = Inr (a1, s1)"
      and "create_configuration no_faults a1 s1' = Inr (a2, s2)"
      and "create_schedule no_faults a2 s2' = Inr (a3, s3)" for a1 s s1 s1' a2 s2 s2' a3 s3
    using faulty_create_tags [of a3] create_root_alert(3) [OF that(1)]
      create_configuration_alert(3) [OF that(2)] create_schedule_alert(1) [OF that(3)] by simp
  have qrys: "faulty (message_if (a_Queries alert \<noteq> []) ''failed to create alert queries'')
               (\<lambda>fails. create_queries fails a3)"
    if "create_root no_faults alert s = Inr (a1, s1)"
      and "create_configuration no_faults a1 s1' = Inr (a2, s2)"
      and "create_schedule no_faults a2 s2' = Inr (a3, s3)" for a1 s s1 s1' a2 s2 s2' a3 s3
    using faulty_create_queries [of a3] create_root_alert(4) [OF that(1)]
      create_configuration_alert(4) [OF that(2)] create_schedule_alert(2) [OF that(3)] by simp
  have patch: "faulty (message_if (a_Configuration alert \<noteq> None \<or> a_ConfigurationID alert \<noteq> None
                   \<or> a_Schedule alert \<noteq> None \<or> a_ScheduleID alert \<noteq> None)
                 ''failed to update alert with relation IDs'')
               (\<lambda>fails. patch_relation_ids fails a3)"
    if r1: "create_root no_faults alert s = Inr (a1, s1)"
      and r2: "create_configuration no_faults a1 s1' = Inr (a2, s2)"
      and r3: "create_schedule no_faults a2 s2' = Inr (a3, s3)" for a1 s s1 s1' a2 s2 s2' a3 s3
  proof -
    have "(a_ConfigurationID a3 \<noteq> None \<or> a_ScheduleID a3 \<noteq> None)
          = (a_Configuration alert \<noteq> None \<or> a_ConfigurationID alert \<noteq> None
             \<or> a_Schedule alert \<noteq> None \<or> a_ScheduleID alert \<noteq> None)"
      unfolding create_schedule_alert(3,4) [OF r3] create_configuration_id [OF r2]
        create_configuration_alert(2,5) [OF r2] create_root_alert [OF r1] by blast
    with faulty_patch_relation_ids [of a3] show ?thesis by simp
  qed
  have "faulty ([''failed to create alert'']
     @ (case a_Configuration alert of None \<Rightarrow> [] | Some c \<Rightarrow> configuration_messages c)
     @ message_if (a_Schedule alert \<noteq> None) ''failed to create alert schedule''
     @ message_if (a_Tags alert \<noteq> []) ''failed to create alert tags''
     @ message_if (a_Queries alert \<noteq> []) ''failed to create alert queries''
     @ message_if (a_Configuration alert \<noteq> None \<or> a_ConfigurationID alert \<noteq> None
                   \<or> a_Schedule alert \<noteq> None \<or> a_ScheduleID alert \<noteq> None)
         ''failed to update alert with relation IDs''
     @ [])
     (\<lambda>fails. createTx fails alert)"
    unfolding createTx_def
    apply (rule faulty_bind)
     apply (rule faulty_create_root)
    apply (rule faulty_bind)
     apply (erule cfg)
    apply (rule faulty_bind)
     apply (erule (1) sch)
    apply (rule faulty_bind)
     apply (erule (2) tags)
    apply (rule faulty_bind)
     apply (erule (2) qrys)
    apply (rule faulty_bind)
     apply (erule (2) patch)
    apply (rule faulty_ret)
    done
  then show ?thesis unfolding create_messages_def by simp
qed

lemma length_eval_messages:
  "length (concat (map (\<lambda>sv. message_if (P sv) msg) svs))
   = length (concat (map (\<lambda>sv. insert_if (P sv) t) svs))"
  by (induction svs) (simp_all add: message_if_def insert_if_def)

lemma length_message_if [simp]: "length (message_if p msg) = (if p then 1 else 0)"
  by (simp add: message_if_def)

lemma length_insert_if [simp]: "length (insert_if p t) = (if p then 1 else 0)"
  by (simp add: insert_if_def)

lemma length_configuration_messages:
  "length (configuration_messages c) = length (configuration_statements c)"
  unfolding configuration_messages_def configuration_statements_def
  by (simp add: length_eval_messages [where t = ConditionConfigurations])

lemma length_create_messages:
  "length (create_messages alert) = length (create_statements alert)"
  unfolding create_messages_def create_statements_def
  by (simp add: length_configuration_messages split: option.splits)

lemma Transaction_no_faults:
  "Transaction no_faults body d =
     (case body (begin_tx d) of Inl e \<Rightarrow> (Inl e, d) | Inr (x, s) \<Rightarrow> (Inr x, tx_db s))"
  by (simp add: Transaction_def no_faults_def split: sum.splits)

lemma CreateWithTransaction_faults:
  "case CreateWithTransaction no_faults alert d of
     (Inl e0, d0) \<Rightarrow> isl (fst (CreateWithTransaction fails alert d))
   | (Inr a0, d0) \<Rightarrow>
       CreateWithTransaction fails alert d =
         (case blame fails 0 (create_messages alert) of
            Some msg \<Rightarrow> (Inl (Wrapped msg ErrEngine), d)
          | None \<Rightarrow> if fails (length (create_messages alert)) then (Inl ErrEngine, d)
                    else (Inr a0, d0))"
proof (cases "createTx no_faults alert (begin_tx d)")
  case (Inl e0)
  from faulty_Inl [OF faulty_createTx Inl, where fails = fails]
  have "isl (fst (CreateWithTransaction fails alert d))"
    by (cases "createTx fails alert (begin_tx d)")
       (simp_all add: CreateWithTransaction_def Transaction_def)
  with Inl show ?thesis
    by (simp add: CreateWithTransaction_def Transaction_no_faults)
next
  case (Inr r)
  obtain a0 s0 where r: "r = (a0, s0)" by (cases r)
  with Inr have nf: "createTx no_faults alert (begin_tx d) = Inr (a0, s0)" by simp
  have len: "length (tx_log s0) = length (create_messages alert)"
    using faulty_Inr(1) [OF faulty_createTx nf] by (simp add: begin_tx_def)
  have body: "createTx fails alert (begin_tx d) =
           (case blame fails 0 (create_messages alert) of
              None \<Rightarrow> Inr (a0, s0)
            | Some msg \<Rightarrow> Inl (Wrapped msg ErrEngine))"
    using faulty_Inr(2) [OF faulty_createTx nf, where fails = fails] by (simp add: begin_tx_def)
  have "CreateWithTransaction fails alert d =
         (case blame fails 0 (create_messages alert) of
            Some msg \<Rightarrow> (Inl (Wrapped msg ErrEngine), d)
          | None \<Rightarrow> if fails (length (create_messages alert)) then (Inl ErrEngine, d)
                    else (Inr a0, tx_db s0))"
    unfolding CreateWithTransaction_def Transaction_def body
    by (simp add: len split: option.splits)
  with nf show ?thesis
    by (simp add: CreateWithTransaction_def Transaction_no_faults)
qed

subsection \<open>Create is all or nothing\<close>

text \<open>
  Claim C3. Whatever \<^verbatim>\<open>CreateWithTransaction\<close> returns:

  \<^item> when it returns an error, the database is the one before the call, so no row of the
    invocation survives, and a name that \<^verbatim>\<open>GetByName\<close> did not find before is not found
    afterwards; when it returns success, every statement of \<open>create_statements alert\<close> was
    issued, in this order, and neither one of them nor the commit was refused;

  \<^item> when the engine refuses any statement of the sequence, or the commit, the operation
    returns an error and the database is the one before;

  \<^item> when the undisturbed run fails (an insert with an explicit key that exists), every
    run returns an error and leaves the database as it was; when the undisturbed run
    succeeds, a run under a refusing engine returns the error of the first refused
    statement wrapped in the message of its step, or the error of the refused commit,
    with the database as before, and otherwise the result of the undisturbed run.
\<close>

theorem CreateWithTransaction_atomic:
  assumes run: "CreateWithTransaction fails alert d = (res, d')"
  shows "(case res of
            Inl e \<Rightarrow>
              d' = d
              \<and> (GetByName d (a_Name alert) = Inl ErrRecordNotFound
                   \<longrightarrow> GetByName d' (a_Name alert) = Inl ErrRecordNotFound)
          | Inr a \<Rightarrow>
              (\<exists>s. createTx fails alert (begin_tx d) = Inr (a, s) \<and> d' = tx_db s
                    \<and> tx_log s = create_statements alert
                    \<and> (\<forall>k \<le> length (create_statements alert). \<not> fails k)))
    \<and> (\<forall>k \<le> length (create_statements alert). fails k \<longrightarrow> isl res \<and> d' = d)
    \<and> (case CreateWithTransaction no_faults alert d of
          (Inl e0, d0) \<Rightarrow> isl res \<and> d' = d
        | (Inr a0, d0) \<Rightarrow>
            (res, d') =
              (case blame fails 0 (create_messages alert) of
                 Some msg \<Rightarrow> (Inl (Wrapped msg ErrEngine), d)
               | None \<Rightarrow> if fails (length (create_statements alert)) then (Inl ErrEngine, d)
                         else (Inr a0, d0)))"
proof -
  have rollback: "d' = d" if "isl res"
  proof -
    from that obtain e where "res = Inl e" by (cases res) simp_all
    with run show ?thesis unfolding CreateWithTransaction_def by (simp add: Transaction_Inl)
  qed
  have first: "case res of
            Inl e \<Rightarrow>
              d' = d
              \<and> (GetByName d (a_Name alert) = Inl ErrRecordNotFound
                   \<longrightarrow> GetByName d' (a_Name alert) = Inl ErrRecordNotFound)
          | Inr a \<Rightarrow>
              (\<exists>s. createTx fails alert (begin_tx d) = Inr (a, s) \<and> d' = tx_db s
                    \<and> tx_log s = create_statements alert
                    \<and> (\<forall>k \<le> length (create_statements alert). \<not> fails k))"
  proof (cases res)
    case (Inl e)
    with rollback have "d' = d" by simp
    with Inl show ?thesis by simp
  next
    case (Inr a)
    with run have "Transaction fails (createTx fails alert) d = (Inr a, d')"
      by (simp add: CreateWithTransaction_def)
    then obtain s where body: "createTx fails alert (begin_tx d) = Inr (a, s)"
        and commit: "\<not> fails (length (tx_log s))" and d': "d' = tx_db s"
      unfolding Transaction_Inr by blast
    have log: "tx_log s = create_statements alert"
      using createTx_log [OF body] by simp
    from keepsD [OF unrefused_createTx body] commit
    have "\<forall>k \<le> length (tx_log s). \<not> fails k" by (rule unrefused_from_begin)
    with body d' log Inr show ?thesis by simp
  qed
  have second: "\<forall>k \<le> length (create_statements alert). fails k \<longrightarrow> isl res \<and> d' = d"
  proof (intro allI impI)
    fix k assume k: "k \<le> length (create_statements alert)" and f: "fails k"
    have "isl res"
    proof (cases res)
      case (Inl e)
      then show ?thesis by simp
    next
      case (Inr a)
      with first k have "\<not> fails k" by auto
      with f show ?thesis by simp
    qed
    with rollback show "isl res \<and> d' = d" by simp
  qed
  have third: "case CreateWithTransaction no_faults alert d of
          (Inl e0, d0) \<Rightarrow> isl res \<and> d' = d
        | (Inr a0, d0) \<Rightarrow>
            (res, d') =
              (case blame fails 0 (create_messages alert) of
                 Some msg \<Rightarrow> (Inl (Wrapped msg ErrEngine), d)
               | None \<Rightarrow> if fails (length (create_statements alert)) then (Inl ErrEngine, d)
                         else (Inr a0, d0))"
  proof (cases "CreateWithTransaction no_faults alert d")
    case (Pair r0 d0)
    show ?thesis
    proof (cases r0)
      case (Inl e0)
      with Pair CreateWithTransaction_faults [where alert = alert and d = d and fails = fails] run
      have "isl res" by simp
      with rollback Pair Inl show ?thesis by simp
    next
      case (Inr a0)
      with Pair CreateWithTransaction_faults [where alert = alert and d = d and fails = fails] run
      show ?thesis by (simp add: length_create_messages)
    qed
  qed
  show ?thesis by (intro conjI first second third)
qed

text \<open>
  The sequence for \<open>sample_alert\<close> with the sixth statement (the insert of the severity
  rows) refused: the error of that step, the empty database, and the name is not found.
\<close>

theorem CreateWithTransaction_atomic_witness:
  "fst (CreateWithTransaction no_faults sample_alert empty_db) \<noteq> Inl ErrEngine
   \<and> \<not> isl (fst (CreateWithTransaction no_faults sample_alert empty_db))
   \<and> blame (\<lambda>k. k = 5) 0 (create_messages sample_alert)
       = Some ''failed to create severity configurations''
   \<and> CreateWithTransaction (\<lambda>k. k = 5) sample_alert empty_db
       = (Inl (Wrapped ''failed to create severity configurations'' ErrEngine), empty_db)
   \<and> GetByName empty_db ''cpu'' = Inl ErrRecordNotFound
   \<and> GetByName (snd (CreateWithTransaction (\<lambda>k. k = 5) sample_alert empty_db)) ''cpu''
       = Inl ErrRecordNotFound"
proof -
  let ?f = "\<lambda>k::nat. k = 5"
  let ?r = "CreateWithTransaction ?f sample_alert empty_db"
  let ?n = "CreateWithTransaction no_faults sample_alert empty_db"
  have ok: "\<not> isl (fst ?n)" by code_simp
  then have ne: "fst ?n \<noteq> Inl ErrEngine" by auto
  have n: "?n = (Inr (projr (fst ?n)), snd ?n)"
    using ok by (simp add: prod_eq_iff)
  have b: "blame ?f 0 (create_messages sample_alert)
           = Some ''failed to create severity configurations''"
    by code_simp
  have g: "GetByName empty_db ''cpu'' = Inl ErrRecordNotFound" by code_simp
  have a: "a_Name sample_alert = ''cpu''" by code_simp
  have h: "?r = (fst ?r, snd ?r)" by simp
  note t = CreateWithTransaction_atomic [OF h]
  have third: "(fst ?r, snd ?r) =
      (Inl (Wrapped ''failed to create severity configurations'' ErrEngine), empty_db)"
    using t [THEN conjunct2, THEN conjunct2] unfolding b
    by (subst (asm) n) simp
  then have r: "?r = (Inl (Wrapped ''failed to create severity configurations'' ErrEngine),
                      empty_db)"
    by simp
  have res: "fst ?r = Inl (Wrapped ''failed to create severity configurations'' ErrEngine)"
    unfolding r by simp
  have miss: "GetByName (snd ?r) ''cpu'' = Inl ErrRecordNotFound"
    using t [THEN conjunct1] g unfolding res a [symmetric] by simp
  show ?thesis by (intro conjI ne ok b r g miss)
qed

subsection \<open>Reading back what Create has written\<close>






lemma numbered_Nil [simp]: "numbered setid n [] = []"
  by (simp add: numbered_def)




text \<open>
  The precondition \<open>issued\<close> holds of the empty store and is kept by every run of
  \<^verbatim>\<open>CreateWithTransaction\<close> and of \<^verbatim>\<open>Delete\<close>.
\<close>

lemma issued_empty_db: "issued empty_db"
  by (simp add: issued_def empty_db_def empty_table_def)

lemma createTx_no_configuration:
  assumes run: "createTx fails alert s = Inr (alert', s')"
    and none: "a_Configuration alert = None"
  shows "alert_configurations (tx_db s') = alert_configurations (tx_db s)"
    and "severity_configurations (tx_db s') = severity_configurations (tx_db s)"
proof -
  from run obtain a1 s1 a2 s2 s3 s4 s5
    where r1: "create_root fails alert s = Inr (a1, s1)"
      and r2: "create_configuration fails a1 s1 = Inr (a2, s2)"
      and r3: "create_schedule fails a2 s2 = Inr (alert', s3)"
      and r4: "create_tags fails alert' s3 = Inr ((), s4)"
      and r5: "create_queries fails alert' s4 = Inr ((), s5)"
      and r6: "patch_relation_ids fails alert' s5 = Inr ((), s')"
    by (rule createTx_steps)
  have "a_Configuration a1 = None" using create_root_alert(1) [OF r1] none by simp
  then have s2: "s2 = s1" by (rule create_configuration_None(2) [OF r2])
  note e1 = create_root_Inr(2) [OF r1]
  note e3 = create_schedule_effect(1) [OF r3]
  note e4 = create_tags_effect [OF r4]
  note e5 = create_queries_effect [OF r5]
  note e6 = patch_relation_ids_effect [OF r6]
  show "alert_configurations (tx_db s') = alert_configurations (tx_db s)"
    "severity_configurations (tx_db s') = severity_configurations (tx_db s)"
    unfolding e6 e5 e4 e3 s2 e1 by (simp_all split: option.splits)
qed

lemma issued_CreateWithTransaction:
  assumes wf: "issued d" and run: "CreateWithTransaction fails alert d = (res, d')"
  shows "issued d'"
proof (cases res)
  case (Inl e)
  with run have "d' = d" unfolding CreateWithTransaction_def by (simp add: Transaction_Inl)
  with wf show ?thesis by simp
next
  case (Inr alert')
  with run have ok: "CreateWithTransaction fails alert d = (Inr alert', d')" by simp
  then obtain s where b: "createTx fails alert (begin_tx d) = Inr (alert', s)"
    and d': "d' = tx_db s" by (rule CreateWithTransaction_Inr)
  note id = createTx_alert(1) [OF b, unfolded tx_db_begin_tx]
  note tabs = createTx_tables [OF b, unfolded tx_db_begin_tx, folded d', unfolded id]
  from wf have w1: "\<forall>r \<in> set (rows (alerts d)). a_ID r < next_id (alerts d)"
    and w2: "\<forall>r \<in> set (rows (alert_configurations d)). cfg_ID r < next_id (alert_configurations d)"
    and w3: "\<forall>r \<in> set (rows (alert_schedules d)). sch_ID r < next_id (alert_schedules d)"
    and w4: "\<forall>r \<in> set (rows (alert_tags d)). tag_AlertID r < next_id (alerts d)"
    and w5: "\<forall>r \<in> set (rows (alert_queries d)). qry_AlertID r < next_id (alerts d)"
    and w6: "\<forall>r \<in> set (rows (severity_configurations d)).
               sev_AlertConfigID r < next_id (alert_configurations d)"
    unfolding issued_def by auto
  have na: "next_id (alerts d') = Suc (next_id (alerts d))"
    unfolding tabs(1) by (simp add: update_where_def)
  have i1: "\<forall>r \<in> set (rows (alerts d')). a_ID r < next_id (alerts d')"
    unfolding na unfolding tabs(1) using w1
    by (auto simp: update_where_def relation_ids_def less_Suc_eq)
  have i3: "\<forall>r \<in> set (rows (alert_schedules d')). sch_ID r < next_id (alert_schedules d')"
    unfolding tabs(2) using w3 by (auto simp: less_Suc_eq split: option.splits)
  have i4: "\<forall>r \<in> set (rows (alert_tags d')). tag_AlertID r < next_id (alerts d')"
  proof
    fix r assume r: "r \<in> set (rows (alert_tags d'))"
    show "tag_AlertID r < next_id (alerts d')"
    proof (cases "r \<in> set (rows (alert_tags d))")
      case True
      with w4 na show ?thesis by (simp add: less_Suc_eq)
    next
      case False
      with r tabs(3) have "r \<in> set (numbered (\<lambda>i r. r\<lparr> tag_ID := i \<rparr>) (next_id (alert_tags d))
                           (map (new_tag (next_id (alerts d))) (a_Tags alert)))"
        by (auto split: if_splits)
      then obtain i r0 where "r0 \<in> set (map (new_tag (next_id (alerts d))) (a_Tags alert))"
        and "r = r0\<lparr> tag_ID := i \<rparr>" by (rule in_numberedD)
      then show ?thesis unfolding na by (auto simp: new_tag_def)
    qed
  qed
  have i5: "\<forall>r \<in> set (rows (alert_queries d')). qry_AlertID r < next_id (alerts d')"
  proof
    fix r assume r: "r \<in> set (rows (alert_queries d'))"
    show "qry_AlertID r < next_id (alerts d')"
    proof (cases "r \<in> set (rows (alert_queries d))")
      case True
      with w5 na show ?thesis by (simp add: less_Suc_eq)
    next
      case False
      with r tabs(4) have "r \<in> set (numbered (\<lambda>i r. r\<lparr> qry_ID := i \<rparr>) (next_id (alert_queries d))
                           (map (new_query (next_id (alerts d))) (a_Queries alert)))"
        by (auto split: if_splits)
      then obtain i r0 where "r0 \<in> set (map (new_query (next_id (alerts d))) (a_Queries alert))"
        and "r = r0\<lparr> qry_ID := i \<rparr>" by (rule in_numberedD)
      then show ?thesis unfolding na by (auto simp: new_query_def)
    qed
  qed
  have i26: "(\<forall>r \<in> set (rows (alert_configurations d')).
                cfg_ID r < next_id (alert_configurations d'))
             \<and> (\<forall>r \<in> set (rows (severity_configurations d')).
                   sev_AlertConfigID r < next_id (alert_configurations d'))"
  proof (cases "a_Configuration alert")
    case None
    from createTx_no_configuration [OF b None, unfolded tx_db_begin_tx, folded d'] w2 w6
    show ?thesis by simp
  next
    case (Some c)
    note ctabs = createTx_configuration_tables [OF b Some, unfolded tx_db_begin_tx, folded d',
      unfolded id]
    from ctabs(2) obtain xs
      where x2: "\<forall>x \<in> set xs. sev_AlertConfigID x = next_id (alert_configurations d)
                   \<and> sev_ID x = 0
                   \<and> (sev_EvalCondition x = None \<or> sev_EvalConditionID x \<noteq> None)"
        and x3: "severity_configurations d' =
               (if cfg_SeverityConfigs c = [] then severity_configurations d
                else \<lparr> rows = rows (severity_configurations d)
                         @ numbered (\<lambda>i r. r\<lparr> sev_ID := i \<rparr>)
                             (next_id (severity_configurations d)) (map sev_row xs),
                       next_id = next_id (severity_configurations d)
                                 + length (cfg_SeverityConfigs c) \<rparr>)"
      by blast
    have nc: "next_id (alert_configurations d') = Suc (next_id (alert_configurations d))"
      unfolding ctabs(1) by simp
    have c2: "\<forall>r \<in> set (rows (alert_configurations d')).
                cfg_ID r < next_id (alert_configurations d')"
      unfolding nc unfolding ctabs(1) using w2 by (auto simp: less_Suc_eq)
    have c6: "\<forall>r \<in> set (rows (severity_configurations d')).
                sev_AlertConfigID r < next_id (alert_configurations d')"
    proof
      fix r assume r: "r \<in> set (rows (severity_configurations d'))"
      show "sev_AlertConfigID r < next_id (alert_configurations d')"
      proof (cases "r \<in> set (rows (severity_configurations d))")
        case True
        with w6 nc show ?thesis by (simp add: less_Suc_eq)
      next
        case False
        with r x3 have "r \<in> set (numbered (\<lambda>i r. r\<lparr> sev_ID := i \<rparr>)
                             (next_id (severity_configurations d)) (map sev_row xs))"
          by (auto split: if_splits)
        then obtain i r0 where "r0 \<in> set (map sev_row xs)" and "r = r0\<lparr> sev_ID := i \<rparr>"
          by (rule in_numberedD)
        with x2 show ?thesis unfolding nc by (auto simp: sev_row_def)
      qed
    qed
    from c2 c6 show ?thesis by simp
  qed
  from i1 i26 i3 i4 i5 show ?thesis unfolding issued_def by simp
qed

lemma issued_Delete:
  assumes wf: "issued d" and run: "Delete fails i d = (res, d')"
  shows "issued d'"
proof (cases res)
  case (Inl e)
  with run have "d' = d" unfolding Delete_def by (simp add: Transaction_Inl)
  with wf show ?thesis by simp
next
  case (Inr u)
  with run have ok: "Delete fails i d = (Inr u, d')" by simp
  note t = Delete_tables [OF ok]
  from wf show ?thesis
    unfolding issued_def t(1-7)
    by (auto simp: delete_where_def split: option.splits)
qed




end
